theory Spec2Isabelle
  imports Complex_Main
begin

section \<open>Canyonite GHL to Shopify media sync: a shallow embedding of sync.js\<close>

text \<open>
  The embedding follows the most recent revision of \<^verbatim>\<open>sync.js\<close> (the one with
  \<^verbatim>\<open>resolveEnv\<close>, a configurable \<^verbatim>\<open>MAX_RETRIES\<close> and the attached/skipped
  totals). Where an earlier revision differs in a way that matters, the difference is a
  field of the configuration record or is noted at the definition.

  Conventions.
  \<^item> A JavaScript string is a \<open>string\<close>; one \<open>char\<close> stands for one code unit and the
    strings are taken to be ASCII, so \<^verbatim>\<open>toLowerCase\<close>, \<^verbatim>\<open>toUpperCase\<close> and
    \<^verbatim>\<open>trim\<close> act on the ASCII letters and the ASCII white space only.
  \<^item> A value that JavaScript tests for truthiness and that is a string or absent is a
    \<open>string option\<close>; it is truthy when it is \<open>Some s\<close> with \<open>s \<noteq> []\<close>.
  \<^item> The fields the program reads from an answer of the Catalog Service are strings,
    arrays or absent, as its schema declares them. The listing of the Asset Source is not
    typed: its elements and their fields are any JSON values (\<open>js_value\<close>,
    \<open>ghl_element\<close> below).
\<close>

subsection \<open>Strings\<close>

definition upperLetters :: string where
  "upperLetters = ''ABCDEFGHIJKLMNOPQRSTUVWXYZ''"

definition lowerLetters :: string where
  "lowerLetters = ''abcdefghijklmnopqrstuvwxyz''"

definition digits :: string where
  "digits = ''0123456789''"

definition toLowerChar :: "char \<Rightarrow> char" where
  "toLowerChar c = (case map_of (zip upperLetters lowerLetters) c of None \<Rightarrow> c | Some l \<Rightarrow> l)"

definition toUpperChar :: "char \<Rightarrow> char" where
  "toUpperChar c = (case map_of (zip lowerLetters upperLetters) c of None \<Rightarrow> c | Some u \<Rightarrow> u)"

definition toLowerCase :: "string \<Rightarrow> string" where
  "toLowerCase s = map toLowerChar s"

definition toUpperCase :: "string \<Rightarrow> string" where
  "toUpperCase s = map toUpperChar s"

definition startsWith :: "string \<Rightarrow> string \<Rightarrow> bool" where
  "startsWith s p = (take (length p) s = p)"

text \<open>The white space that \<^verbatim>\<open>String.prototype.trim\<close> strips, within ASCII:
  TAB, LF, VT, FF, CR and SPACE.\<close>

definition isWhiteSpace :: "char \<Rightarrow> bool" where
  "isWhiteSpace c = (c \<in> set [CHR 0x09, CHR 0x0A, CHR 0x0B, CHR 0x0C, CHR 0x0D, CHR '' ''])"

definition trim :: "string \<Rightarrow> string" where
  "trim s = rev (dropWhile isWhiteSpace (rev (dropWhile isWhiteSpace s)))"

text \<open>\<^verbatim>\<open>x || ''\<close> for a string-or-absent \<open>x\<close>.\<close>

definition orEmpty :: "string option \<Rightarrow> string" where
  "orEmpty x = (case x of None \<Rightarrow> [] | Some s \<Rightarrow> s)"

text \<open>\<^verbatim>\<open>a || b\<close> for two strings: the first when it is non-empty.\<close>

definition orElse :: "string \<Rightarrow> string \<Rightarrow> string" where
  "orElse a b = (if a \<noteq> [] then a else b)"

text \<open>
  A JSON value in a place where the program expects a string: a falsy value that is not
  a string (absent, \<^verbatim>\<open>null\<close>, \<^verbatim>\<open>false\<close>, \<^verbatim>\<open>0\<close>), a string, or a truthy value that is
  not a string (\<^verbatim>\<open>true\<close>, a number other than 0, an array, an object, a function),
  which is given by the text of its conversion to a string.
\<close>

datatype js_value = Falsy | Str string | NonStr string

definition truthyV :: "js_value \<Rightarrow> bool" where
  "truthyV v = (case v of Falsy \<Rightarrow> False | Str s \<Rightarrow> s \<noteq> [] | NonStr s \<Rightarrow> True)"

text \<open>\<^verbatim>\<open>a || b\<close> on two values.\<close>

definition orV :: "js_value \<Rightarrow> js_value \<Rightarrow> js_value" where
  "orV a b = (if truthyV a then a else b)"

text \<open>\<^verbatim>\<open>String(v || '')\<close>.\<close>

definition toStr :: "js_value \<Rightarrow> string" where
  "toStr v = (case v of Falsy \<Rightarrow> [] | Str s \<Rightarrow> s | NonStr s \<Rightarrow> s)"

subsection \<open>Env helpers: \<^verbatim>\<open>mask\<close>\<close>

text \<open>
  \<^verbatim>\<open>
  const mask = (s) => {
    if (!s) return '(empty)';
    if (s.length <= 6) return '***';
    return `${s.slice(0, 3)}***${s.slice(-3)}`;
  };
  \<close>
  \<^verbatim>\<open>s.slice(-3)\<close> on a string longer than 3 is its last three code units.
\<close>

definition mask_secret :: "string \<Rightarrow> string" where
  "mask_secret s =
     (if s = [] then ''(empty)''
      else if length s \<le> 6 then ''***''
      else take 3 s @ ''***'' @ drop (length s - 3) s)"

subsection \<open>Utilities: media classification\<close>

datatype media_kind = IMAGE | VIDEO | EXTERNAL_VIDEO

text \<open>
  A normalised asset \<^verbatim>\<open>{ url, name, mime }\<close> whose three values are strings, which is
  what \<^verbatim>\<open>guessMediaType\<close> needs of its argument (a value that is not a string makes
  \<^verbatim>\<open>toLowerCase\<close> raise: see \<open>mediaInputOf\<close> below).
\<close>

record ghl_file =
  url :: string
  name :: string
  mime :: string

definition IMAGE_EXT :: "string set" where
  "IMAGE_EXT = {''.jpg'', ''.jpeg'', ''.png'', ''.webp'', ''.gif''}"

definition VIDEO_EXT :: "string set" where
  "VIDEO_EXT = {''.mp4'', ''.mov'', ''.webm'', ''.m4v''}"

text \<open>The character class \<^verbatim>\<open>[a-z0-9]\<close>.\<close>

definition isLowerAlnum :: "char \<Rightarrow> bool" where
  "isLowerAlnum c = (c \<in> set (lowerLetters @ digits))"

text \<open>
  \<^verbatim>\<open>s.match(/\.[a-z0-9]+$/)?.[0]\<close>: the leftmost position where a dot is followed by
  one or more characters of the class up to the end of the input.
\<close>

fun matchExt :: "string \<Rightarrow> string option" where
  "matchExt [] = None"
| "matchExt (c # cs) =
     (if c = CHR ''.'' \<and> cs \<noteq> [] \<and> list_all isLowerAlnum cs then Some (c # cs)
      else matchExt cs)"

definition extOf :: "string \<Rightarrow> string" where
  "extOf n = orEmpty (matchExt (toLowerCase n))"

text \<open>
  \<^verbatim>\<open>
  function guessMediaType(f) {
    const mime = (f.mime || f.type || '').toLowerCase();
    const name = f.name || filenameFromUrl(f.url);
    const ext = extOf(name);
    if (mime.startsWith('image/') || IMAGE_EXT.has(ext)) return 'IMAGE';
    if (mime.startsWith('video/') || VIDEO_EXT.has(ext)) return 'VIDEO';
    return 'EXTERNAL_VIDEO';
  }
  \<close>
  The argument is a normalised asset, which has no \<^verbatim>\<open>type\<close> field, so
  \<^verbatim>\<open>f.mime || f.type || ''\<close> is \<^verbatim>\<open>f.mime\<close>. \<^verbatim>\<open>filenameFromUrl\<close> goes through the
  platform's URL parser and \<^verbatim>\<open>decodeURIComponent\<close>; it is total on strings (its
  \<^verbatim>\<open>catch\<close> branch returns the last \<^verbatim>\<open>/\<close>-separated segment) and is taken as a
  parameter \<open>fnu\<close>.
\<close>

definition guessMediaType :: "(string \<Rightarrow> string) \<Rightarrow> ghl_file \<Rightarrow> media_kind" where
  "guessMediaType fnu f =
     (let mime' = toLowerCase (mime f);
          name' = orElse (name f) (fnu (url f));
          ext = extOf name'
      in if startsWith mime' ''image/'' \<or> ext \<in> IMAGE_EXT then IMAGE
         else if startsWith mime' ''video/'' \<or> ext \<in> VIDEO_EXT then VIDEO
         else EXTERNAL_VIDEO)"

text \<open>The \<^verbatim>\<open>catch\<close> branch of \<^verbatim>\<open>filenameFromUrl\<close>: \<^verbatim>\<open>(url || '').split('/').pop()\<close>.\<close>

fun lastSegment :: "string \<Rightarrow> string \<Rightarrow> string" where
  "lastSegment acc [] = acc"
| "lastSegment acc (c # cs) = (if c = CHR ''/'' then lastSegment [] cs else lastSegment (acc @ [c]) cs)"

definition filenameFromUrl_fallback :: "string \<Rightarrow> string" where
  "filenameFromUrl_fallback u = lastSegment [] u"

subsection \<open>Code and handle derivation\<close>

text \<open>
  \<^verbatim>\<open>
  function extractCode(str) {
    const m = String(str || '').match(PRODUCT_CODE_REGEX);
    return m ? m[0].toUpperCase() : null; // CS1, CS2...
  }
  \<close>
  \<^verbatim>\<open>PRODUCT_CODE_REGEX\<close> is configuration; the configuration record carries it as the
  function \<open>codeMatch\<close> from a string to the text of its first match, if any.
  \<open>defaultCodeMatch\<close> is the default pattern \<^verbatim>\<open>/^CS\d+/i\<close>.
\<close>

definition isDigit :: "char \<Rightarrow> bool" where
  "isDigit c = (c \<in> set digits)"

definition defaultCodeMatch :: "string \<Rightarrow> string option" where
  "defaultCodeMatch s =
     (if toUpperCase (take 2 s) = ''CS'' \<and> takeWhile isDigit (drop 2 s) \<noteq> []
      then Some (take 2 s @ takeWhile isDigit (drop 2 s)) else None)"

text \<open>
  \<^verbatim>\<open>t.replaceAll(pat, rep)\<close> for a non-empty literal pattern, left to right and without
  overlap. (The replacement is inserted as it is: the \<^verbatim>\<open>$\<close> patterns of JavaScript
  replacement strings are not modelled; a code matched by the default pattern has none.)
\<close>

function replaceAll :: "string \<Rightarrow> string \<Rightarrow> string \<Rightarrow> string" where
  "replaceAll pat rep [] = []"
| "replaceAll pat rep (c # cs) =
     (if pat \<noteq> [] \<and> startsWith (c # cs) pat
      then rep @ replaceAll pat rep (drop (length pat) (c # cs))
      else c # replaceAll pat rep cs)"
  by pat_completeness auto
termination
  by (relation "measure (\<lambda>(pat, rep, t). length t)") (auto simp: neq_Nil_conv)

subsection \<open>Configuration\<close>

text \<open>
  The resolved configuration. \<^verbatim>\<open>MEDIA_BATCH_SIZE\<close> and \<^verbatim>\<open>MAX_RETRIES\<close> are
  \<^verbatim>\<open>Number(process.env.X || default)\<close>; the model takes the integer settings (zero and
  negative ones included). \<open>baseDelay\<close> is the constant of the backoff formula in
  \<^verbatim>\<open>gql\<close>: 600 in the two latest revisions, 500 in the one before.
  \<open>filenameFromUrl\<close> is the function of that name on strings, and \<open>urlDecodes s\<close> says
  that its \<^verbatim>\<open>try\<close> branch completes on the text \<open>s\<close> (the platform parses \<open>s\<close> as a URL
  and decodes the last segment of its path); both belong to the platform and are
  parameters. In \<open>defaultConfig\<close> the \<^verbatim>\<open>try\<close> branch never completes.
\<close>

record config =
  DRY_RUN :: bool
  MEDIA_BATCH_SIZE :: int
  MAX_RETRIES :: int
  baseDelay :: nat
  HANDLE_TEMPLATE :: string
  codeMatch :: "string \<Rightarrow> string option"
  filenameFromUrl :: "string \<Rightarrow> string"
  urlDecodes :: "string \<Rightarrow> bool"

definition defaultConfig :: config where
  "defaultConfig =
     \<lparr> DRY_RUN = False, MEDIA_BATCH_SIZE = 8, MAX_RETRIES = 3, baseDelay = 600,
       HANDLE_TEMPLATE = ''${codeLower}'', codeMatch = defaultCodeMatch,
       filenameFromUrl = filenameFromUrl_fallback, urlDecodes = (\<lambda>s. False) \<rparr>"

definition extractCode :: "config \<Rightarrow> string \<Rightarrow> string option" where
  "extractCode cfg str = map_option toUpperCase (codeMatch cfg str)"

text \<open>
  \<^verbatim>\<open>
  function deriveHandleFromCode(code) {
    const codeLower = code.toLowerCase();
    const codeUpper = code.toUpperCase();
    const codeNum = code.replace(/\D+/g, '');
    return HANDLE_TEMPLATE
      .replaceAll('${codeLower}', codeLower)
      .replaceAll('${codeUpper}', codeUpper)
      .replaceAll('${codeNum}', codeNum);
  }
  \<close>
\<close>

definition deriveHandleFromCode :: "config \<Rightarrow> string \<Rightarrow> string" where
  "deriveHandleFromCode cfg code =
     (let codeLower = toLowerCase code;
          codeUpper = toUpperCase code;
          codeNum = filter isDigit code
      in replaceAll ''${codeNum}'' codeNum
           (replaceAll ''${codeUpper}'' codeUpper
              (replaceAll ''${codeLower}'' codeLower (HANDLE_TEMPLATE cfg))))"

subsection \<open>The two remote systems, the trace and the errors\<close>

text \<open>A \<^verbatim>\<open>CreateMediaInput\<close>: \<^verbatim>\<open>{ alt, mediaContentType, originalSource }\<close>.\<close>

record media_input =
  alt :: string
  mediaContentType :: media_kind
  originalSource :: js_value

text \<open>The four GraphQL operations the program sends, with their variables.\<close>

datatype gql_query =
    ProductByHandle string
  | ProductsBySku string
  | ProductMedia string
  | ProductCreateMedia string "media_input list"

text \<open>
  What the program reads from the \<^verbatim>\<open>data\<close> of a GraphQL answer:
  \<^verbatim>\<open>d.product?.id\<close>, \<^verbatim>\<open>d.products?.edges?.[0]?.node?.id\<close>, the \<^verbatim>\<open>e.node?.alt\<close> of
  the elements of \<^verbatim>\<open>d.product?.media?.edges || []\<close>, and
  \<^verbatim>\<open>d.productCreateMedia?.mediaUserErrors || []\<close>.
\<close>

record gql_data =
  product_id :: "string option"
  sku_node_id :: "string option"
  media_alts :: "string option list"
  mediaUserErrors :: "string list"

text \<open>
  The body of an answer with a success status, as \<^verbatim>\<open>res.json()\<close> gives it: not JSON
  (the promise rejects), or an envelope whose \<^verbatim>\<open>errors\<close> is absent or present (any array,
  also an empty one, is truthy) and whose \<^verbatim>\<open>data\<close> is absent or present.
\<close>

datatype gql_json = NotJson | Envelope "string option" "gql_data option"

record gql_response =
  status :: nat
  body_text :: string
  body_json :: gql_json

text \<open>\<^verbatim>\<open>res.ok\<close>: the status is in the range 200 to 299.\<close>

definition ok :: "nat \<Rightarrow> bool" where
  "ok st = (200 \<le> st \<and> st \<le> 299)"

text \<open>
  An object in the Asset Source's list, by the values of its properties \<^verbatim>\<open>url\<close>,
  \<^verbatim>\<open>link\<close>, \<^verbatim>\<open>path\<close>, \<^verbatim>\<open>name\<close>, \<^verbatim>\<open>mime\<close>, \<^verbatim>\<open>type\<close>.
\<close>

record ghl_item =
  item_url :: js_value
  item_link :: js_value
  item_path :: js_value
  item_name :: js_value
  item_mime :: js_value
  item_type :: js_value

text \<open>
  An element of the list: \<^verbatim>\<open>null\<close>; a boolean, a number or an array, which have none of
  the six properties; a string, which has none of them either except that
  \<^verbatim>\<open>String.prototype.link\<close> is a function, so \<^verbatim>\<open>f.link\<close> is truthy; or an object.
\<close>

datatype ghl_element = ElemNull | ElemOther | ElemString string | ElemObject ghl_item

text \<open>
  The JSON of the Asset Source: not JSON, \<^verbatim>\<open>null\<close>, a top-level array, or any other
  value, whose \<^verbatim>\<open>files\<close> is an array (\<open>Some\<close>) or is not (\<open>None\<close>).
\<close>

datatype ghl_json =
    GhlNotJson
  | GhlNull
  | GhlArray "ghl_element list"
  | GhlObject "ghl_element list option"

record ghl_response =
  ghl_status :: nat
  ghl_text :: string
  ghl_body :: ghl_json

datatype error =
    FetchRejected
  | JsonRejected
  | TypeError
  | GraphQLHttp nat string
  | GraphQLErrors string
  | MediaUserErrors "string list"
  | GhlFetchHttp nat string
  | GhlShape

text \<open>
  The lines the program prints, and the events of a run: a request to the Asset Source, a
  request to the Catalog Service (with the number of the attempt that sends it), a
  \<^verbatim>\<open>sleep\<close>, a printed line.
\<close>

datatype log_line =
    RetryHttp nat nat int nat
  | RetryErrors nat int nat
  | NoFiles
  | NoMatch
  | NoProduct string string
  | NothingNew string
  | DryRunWouldAttach nat string
  | Attached nat nat string
  | Summary nat nat
  | Done
  | SyncFailed error

datatype event =
    FetchGhl
  | FetchGql gql_query nat
  | Sleep nat
  | Log log_line

text \<open>
  The state of a run: the answers each remote system is still going to give, in order
  (when none is left the request is rejected, as on a network failure), and the trace of
  events so far.
\<close>

record state =
  ghl :: "ghl_response list"
  shopify :: "gql_response list"
  trace :: "event list"

definition emit :: "event \<Rightarrow> state \<Rightarrow> state" where
  "emit e st = st\<lparr>trace := trace st @ [e]\<rparr>"

subsection \<open>Shopify GraphQL: \<^verbatim>\<open>gql\<close>\<close>

text \<open>
  \<^verbatim>\<open>
  async function gql(query, variables = {}, attempt = 1) {
    const res = await fetch(API, { ... });
    if (!res.ok) {
      const body = await res.text();
      const retryable = [429, 500, 502, 503, 504].includes(res.status);
      if (retryable && attempt < MAX_RETRIES) {
        const wait = 600 * 2 ** (attempt - 1);
        console.warn(...);
        await sleep(wait);
        return gql(query, variables, attempt + 1);
      }
      throw new Error(`GraphQL HTTP ${res.status}: ${body}`);
    }
    const json = await res.json();
    if (json.errors) {
      if (attempt < MAX_RETRIES) {
        const wait = 600 * 2 ** (attempt - 1);
        console.warn(...);
        await sleep(wait);
        return gql(query, variables, attempt + 1);
      }
      throw new Error(`GraphQL errors: ${JSON.stringify(json.errors)}`);
    }
    return json.data;
  }
  \<close>
  Every caller starts at \<open>attempt = 1\<close>. Each attempt takes the next answer of the
  Catalog Service, so the recursion ends with the answers at the latest.
\<close>

definition retryable :: "nat \<Rightarrow> bool" where
  "retryable s = (s \<in> {429, 500, 502, 503, 504})"

function gql :: "config \<Rightarrow> gql_query \<Rightarrow> nat \<Rightarrow> state \<Rightarrow> (error + gql_data option) \<times> state" where
  "gql cfg q attempt st =
     (case shopify st of
        [] \<Rightarrow> (Inl FetchRejected, emit (FetchGql q attempt) st)
      | res # rest \<Rightarrow>
          (let st1 = emit (FetchGql q attempt) (st\<lparr>shopify := rest\<rparr>) in
           if \<not> ok (status res) then
             (if retryable (status res) \<and> int attempt < MAX_RETRIES cfg then
                (let wait = baseDelay cfg * 2 ^ (attempt - 1) in
                 gql cfg q (attempt + 1)
                   (emit (Sleep wait)
                      (emit (Log (RetryHttp (status res) attempt (MAX_RETRIES cfg) wait)) st1)))
              else (Inl (GraphQLHttp (status res) (body_text res)), st1))
           else
             (case body_json res of
                NotJson \<Rightarrow> (Inl JsonRejected, st1)
              | Envelope None data \<Rightarrow> (Inr data, st1)
              | Envelope (Some errors) data \<Rightarrow>
                  (if int attempt < MAX_RETRIES cfg then
                     (let wait = baseDelay cfg * 2 ^ (attempt - 1) in
                      gql cfg q (attempt + 1)
                        (emit (Sleep wait)
                           (emit (Log (RetryErrors attempt (MAX_RETRIES cfg) wait)) st1)))
                   else (Inl (GraphQLErrors errors), st1)))))"
  by pat_completeness auto
termination
  by (relation "measure (\<lambda>(cfg, q, attempt, st). length (shopify st))") (auto simp: emit_def)

subsection \<open>Catalog operations\<close>

definition truthy :: "string option \<Rightarrow> bool" where
  "truthy x = (case x of None \<Rightarrow> False | Some s \<Rightarrow> s \<noteq> [])"

text \<open>
  \<^verbatim>\<open>
  async function findProductIdByHandleOrSku({ handle, code }) {
    if (handle) {
      const d = await gql(q, { handle });
      if (d.product?.id) return d.product.id;
    }
    if (code) {
      const d = await gql(q, { q: `sku:${code}` });
      const node = d.products?.edges?.[0]?.node;
      if (node?.id) return node.id;
    }
    return null;
  }
  \<close>
  Reading a property of an absent \<^verbatim>\<open>data\<close> throws a \<^verbatim>\<open>TypeError\<close>.
\<close>

definition findBySku :: "config \<Rightarrow> string \<Rightarrow> state \<Rightarrow> (error + string option) \<times> state" where
  "findBySku cfg code st =
     (if code \<noteq> [] then
        (case gql cfg (ProductsBySku code) 1 st of
           (Inl e, st1) \<Rightarrow> (Inl e, st1)
         | (Inr None, st1) \<Rightarrow> (Inl TypeError, st1)
         | (Inr (Some d), st1) \<Rightarrow>
             (if truthy (sku_node_id d) then (Inr (sku_node_id d), st1) else (Inr None, st1)))
      else (Inr None, st))"

definition findProductIdByHandleOrSku ::
    "config \<Rightarrow> string \<Rightarrow> string \<Rightarrow> state \<Rightarrow> (error + string option) \<times> state" where
  "findProductIdByHandleOrSku cfg handle code st =
     (if handle \<noteq> [] then
        (case gql cfg (ProductByHandle handle) 1 st of
           (Inl e, st1) \<Rightarrow> (Inl e, st1)
         | (Inr None, st1) \<Rightarrow> (Inl TypeError, st1)
         | (Inr (Some d), st1) \<Rightarrow>
             (if truthy (product_id d) then (Inr (product_id d), st1)
              else findBySku cfg code st1))
      else findBySku cfg code st)"

text \<open>
  \<^verbatim>\<open>
  async function getExistingMediaAlts(productId) {
    const d = await gql(q, { id: productId });
    const edges = d.product?.media?.edges || [];
    return new Set(
      edges.map((e) => (e.node?.alt || '').trim()).filter((s) => s.length)
    );
  }
  \<close>
\<close>

definition existingAltsOf :: "string option list \<Rightarrow> string set" where
  "existingAltsOf edges = set (filter (\<lambda>s. length s \<noteq> 0) (map (\<lambda>a. trim (orEmpty a)) edges))"

definition getExistingMediaAlts :: "config \<Rightarrow> string \<Rightarrow> state \<Rightarrow> (error + string set) \<times> state" where
  "getExistingMediaAlts cfg productId st =
     (case gql cfg (ProductMedia productId) 1 st of
        (Inl e, st1) \<Rightarrow> (Inl e, st1)
      | (Inr None, st1) \<Rightarrow> (Inl TypeError, st1)
      | (Inr (Some d), st1) \<Rightarrow> (Inr (existingAltsOf (media_alts d)), st1))"

text \<open>
  \<^verbatim>\<open>
  async function attachMediaBatch(productId, medias) {
    if (!medias.length) return;
    const d = await gql(m, { productId, media: medias });
    const errs = d.productCreateMedia?.mediaUserErrors || [];
    if (errs.length) throw new Error(`mediaUserErrors: ${JSON.stringify(errs)}`);
  }
  \<close>
\<close>

definition attachMediaBatch ::
    "config \<Rightarrow> string \<Rightarrow> media_input list \<Rightarrow> state \<Rightarrow> (error + unit) \<times> state" where
  "attachMediaBatch cfg productId medias st =
     (if medias = [] then (Inr (), st)
      else
        (case gql cfg (ProductCreateMedia productId medias) 1 st of
           (Inl e, st1) \<Rightarrow> (Inl e, st1)
         | (Inr None, st1) \<Rightarrow> (Inl TypeError, st1)
         | (Inr (Some d), st1) \<Rightarrow>
             (if mediaUserErrors d \<noteq> [] then (Inl (MediaUserErrors (mediaUserErrors d)), st1)
              else (Inr (), st1))))"

subsection \<open>GHL fetcher\<close>

text \<open>
  \<^verbatim>\<open>
  async function fetchGhlFiles() {
    const res = await fetch(GHL_FILES_ENDPOINT, { headers });
    if (!res.ok) throw new Error(`GHL fetch HTTP ${res.status}: ${await res.text()}`);
    const json = await res.json();
    const list = Array.isArray(json) ? json : Array.isArray(json.files) ? json.files : null;
    if (!list) {
      throw new Error('GHL endpoint must return an array (or {files:[]}) of ...');
    }
    return list
      .filter((f) => f && (f.url || f.link || f.path))
      .map((f) => {
        const url = f.url || f.link || f.path;
        const name = f.name || filenameFromUrl(url);
        const mime = f.mime || f.type || '';
        return { url, name, mime };
      });
  }
  \<close>
\<close>

text \<open>
  \<^verbatim>\<open>
  function filenameFromUrl(url) {
    try {
      return decodeURIComponent(new URL(url).pathname.split('/').pop());
    } catch {
      return (url || '').split('/').pop();
    }
  }
  \<close>
  on any value. \<^verbatim>\<open>new URL\<close> converts its argument to a string, so where the
  \<^verbatim>\<open>try\<close> branch completes the result is that of the string. Where it does not, the
  \<^verbatim>\<open>catch\<close> branch calls \<^verbatim>\<open>split\<close> on \<^verbatim>\<open>url || ''\<close>: a falsy value gives the
  result of the empty string, and a truthy value that is not a string has no
  \<^verbatim>\<open>split\<close>, which raises a \<^verbatim>\<open>TypeError\<close> out of the function.
\<close>

definition filenameFromUrlOf :: "config \<Rightarrow> js_value \<Rightarrow> error + string" where
  "filenameFromUrlOf cfg v =
     (case v of
        Falsy \<Rightarrow> Inr (filenameFromUrl cfg [])
      | Str s \<Rightarrow> Inr (filenameFromUrl cfg s)
      | NonStr s \<Rightarrow> if urlDecodes cfg s then Inr (filenameFromUrl cfg s) else Inl TypeError)"

text \<open>The test of the filter: \<^verbatim>\<open>f && (f.url || f.link || f.path)\<close>.\<close>

definition passesFilter :: "ghl_element \<Rightarrow> bool" where
  "passesFilter f =
     (case f of
        ElemNull \<Rightarrow> False
      | ElemOther \<Rightarrow> False
      | ElemString s \<Rightarrow> s \<noteq> []
      | ElemObject i \<Rightarrow> truthyV (item_url i) \<or> truthyV (item_link i) \<or> truthyV (item_path i))"

text \<open>A normalised asset \<^verbatim>\<open>{ url, name, mime }\<close>, as the callback of the map returns it.\<close>

record listed_file =
  file_url :: js_value
  file_name :: js_value
  file_mime :: js_value

text \<open>The callback of the map, on an object.\<close>

definition normalise :: "config \<Rightarrow> ghl_item \<Rightarrow> error + listed_file" where
  "normalise cfg i =
     (let url' = orV (item_url i) (orV (item_link i) (item_path i));
          mime' = orV (item_mime i) (orV (item_type i) (Str []))
      in if truthyV (item_name i)
         then Inr \<lparr> file_url = url', file_name = item_name i, file_mime = mime' \<rparr>
         else
           (case filenameFromUrlOf cfg url' of
              Inl e \<Rightarrow> Inl e
            | Inr n \<Rightarrow> Inr \<lparr> file_url = url', file_name = Str n, file_mime = mime' \<rparr>))"

definition absentItem :: ghl_item where
  "absentItem =
     \<lparr> item_url = Falsy, item_link = Falsy, item_path = Falsy, item_name = Falsy,
       item_mime = Falsy, item_type = Falsy \<rparr>"

text \<open>
  The callback of the map, on any element. Reading a property of \<^verbatim>\<open>null\<close> raises; a
  string has the function \<^verbatim>\<open>link\<close> as its location and no \<^verbatim>\<open>name\<close>, and
  \<^verbatim>\<open>filenameFromUrl\<close> raises on a function; a boolean, a number or an array is as an
  object without properties. (The filter lets through only non-empty strings and
  objects.)
\<close>

definition normaliseElement :: "config \<Rightarrow> ghl_element \<Rightarrow> error + listed_file" where
  "normaliseElement cfg f =
     (case f of
        ElemNull \<Rightarrow> Inl TypeError
      | ElemOther \<Rightarrow> normalise cfg absentItem
      | ElemString s \<Rightarrow> Inl TypeError
      | ElemObject i \<Rightarrow> normalise cfg i)"

text \<open>\<^verbatim>\<open>xs.map(f)\<close> with a callback that may raise: the first error ends the map.\<close>

fun mapRaising :: "('a \<Rightarrow> error + 'b) \<Rightarrow> 'a list \<Rightarrow> error + 'b list" where
  "mapRaising f [] = Inr []"
| "mapRaising f (x # xs) =
     (case f x of
        Inl e \<Rightarrow> Inl e
      | Inr y \<Rightarrow> (case mapRaising f xs of Inl e \<Rightarrow> Inl e | Inr ys \<Rightarrow> Inr (y # ys)))"

definition normaliseList :: "config \<Rightarrow> ghl_element list \<Rightarrow> error + listed_file list" where
  "normaliseList cfg list = mapRaising (normaliseElement cfg) (filter passesFilter list)"

definition fetchGhlFiles :: "config \<Rightarrow> state \<Rightarrow> (error + listed_file list) \<times> state" where
  "fetchGhlFiles cfg st =
     (case ghl st of
        [] \<Rightarrow> (Inl FetchRejected, emit FetchGhl st)
      | res # rest \<Rightarrow>
          (let st1 = emit FetchGhl (st\<lparr>ghl := rest\<rparr>) in
           if \<not> ok (ghl_status res) then (Inl (GhlFetchHttp (ghl_status res) (ghl_text res)), st1)
           else
             (case ghl_body res of
                GhlNotJson \<Rightarrow> (Inl JsonRejected, st1)
              | GhlNull \<Rightarrow> (Inl TypeError, st1)
              | GhlArray list \<Rightarrow> (normaliseList cfg list, st1)
              | GhlObject (Some list) \<Rightarrow> (normaliseList cfg list, st1)
              | GhlObject None \<Rightarrow> (Inl GhlShape, st1))))"

subsection \<open>Main: grouping\<close>

text \<open>
  \<^verbatim>\<open>
  const mediaByCode = new Map();
  for (const f of files) {
    const code = extractCode(f.name || f.url);
    if (!code) continue;
    const alt = (f.name || filenameFromUrl(f.url)).trim();
    const mediaContentType = guessMediaType(f);
    const mediaInput = { alt, mediaContentType, originalSource: f.url };
    if (!mediaByCode.has(code)) mediaByCode.set(code, []);
    mediaByCode.get(code).push(mediaInput);
  }
  \<close>
  A \<^verbatim>\<open>Map\<close> iterates in insertion order: it is an association list with one entry for
  each key. \<^verbatim>\<open>trim\<close> and \<^verbatim>\<open>toLowerCase\<close> are methods of strings: on another value
  the call raises a \<^verbatim>\<open>TypeError\<close>, which ends the run before any group is processed.
\<close>

type_synonym groups = "(string \<times> media_input list) list"

text \<open>The receiver of a string method: a string, or else the call raises.\<close>

definition asText :: "js_value \<Rightarrow> error + string" where
  "asText v = (case v of Str s \<Rightarrow> Inr s | Falsy \<Rightarrow> Inl TypeError | NonStr s \<Rightarrow> Inl TypeError)"

text \<open>
  The media input of one asset: \<open>n\<close> is \<^verbatim>\<open>f.name || filenameFromUrl(f.url)\<close> and \<open>m\<close>
  is \<^verbatim>\<open>f.mime || f.type || ''\<close> (a normalised asset has no \<^verbatim>\<open>type\<close>); once both are
  strings, \<open>guessMediaType\<close> is applied to the asset with its values as strings.
\<close>

definition mediaInputOf :: "config \<Rightarrow> listed_file \<Rightarrow> error + media_input" where
  "mediaInputOf cfg f =
     (case (if truthyV (file_name f) then asText (file_name f)
            else filenameFromUrlOf cfg (file_url f)) of
        Inl e \<Rightarrow> Inl e
      | Inr n \<Rightarrow>
          (case asText (orV (file_mime f) (Str [])) of
             Inl e \<Rightarrow> Inl e
           | Inr m \<Rightarrow>
               Inr \<lparr> alt = trim n,
                     mediaContentType =
                       guessMediaType (filenameFromUrl cfg)
                         \<lparr> url = toStr (file_url f), name = toStr (file_name f), mime = m \<rparr>,
                     originalSource = file_url f \<rparr>))"

fun pushMedia :: "string \<Rightarrow> media_input \<Rightarrow> groups \<Rightarrow> groups" where
  "pushMedia code m [] = [(code, [m])]"
| "pushMedia code m ((k, ms) # rest) =
     (if k = code then (k, ms @ [m]) # rest else (k, ms) # pushMedia code m rest)"

fun groupByCode :: "config \<Rightarrow> listed_file list \<Rightarrow> groups \<Rightarrow> error + groups" where
  "groupByCode cfg [] mediaByCode = Inr mediaByCode"
| "groupByCode cfg (f # fs) mediaByCode =
     (case extractCode cfg (toStr (orV (file_name f) (file_url f))) of
        None \<Rightarrow> groupByCode cfg fs mediaByCode
      | Some code \<Rightarrow>
          (if code = [] then groupByCode cfg fs mediaByCode
           else
             (case mediaInputOf cfg f of
                Inl e \<Rightarrow> Inl e
              | Inr mediaInput \<Rightarrow> groupByCode cfg fs (pushMedia code mediaInput mediaByCode))))"

subsection \<open>Main: the per-group steps\<close>

text \<open>
  \<^verbatim>\<open>xs.slice(s, e)\<close> on an array, for integer bounds: a negative bound counts from the
  end, and both are clamped to the array.
\<close>

definition js_slice :: "'a list \<Rightarrow> int \<Rightarrow> int \<Rightarrow> 'a list" where
  "js_slice xs s e =
     (let n = int (length xs);
          k = (if s < 0 then max (n + s) 0 else min s n);
          f = (if e < 0 then max (n + e) 0 else min e n)
      in take (nat (f - k)) (drop (nat k) xs))"

text \<open>
  \<^verbatim>\<open>
  for (let i = 0; i < toAttach.length; i += MEDIA_BATCH_SIZE) {
    const chunk = toAttach.slice(i, i + MEDIA_BATCH_SIZE);
    await attachMediaBatch(productId, chunk);
    attachedTotal += chunk.length;
    console.log(`Attached ${chunk.length}/${toAttach.length} -> product(${handle || code})`);
  }
  \<close>
  With a batch size below 1 the loop does not end; the result \<open>None\<close> stands for a run
  that never returns.
\<close>

partial_function (option) attachLoop ::
    "config \<Rightarrow> string \<Rightarrow> string \<Rightarrow> media_input list \<Rightarrow> int \<Rightarrow> nat \<Rightarrow> state
       \<Rightarrow> ((error + nat) \<times> state) option" where
  "attachLoop cfg productId label toAttach i attachedTotal st =
     (if i < int (length toAttach) then
        (let chunk = js_slice toAttach i (i + MEDIA_BATCH_SIZE cfg) in
         case attachMediaBatch cfg productId chunk st of
           (Inl e, st1) \<Rightarrow> Some (Inl e, st1)
         | (Inr u, st1) \<Rightarrow>
             attachLoop cfg productId label toAttach (i + MEDIA_BATCH_SIZE cfg)
               (attachedTotal + length chunk)
               (emit (Log (Attached (length chunk) (length toAttach) label)) st1))
      else Some (Inr attachedTotal, st))"

declare attachLoop.simps [code]

text \<open>
  A call of \<^verbatim>\<open>attachMediaBatch\<close> in this loop raises: the loop is at index \<open>i\<close> with
  the state \<open>st\<close>, and either the call for the batch at \<open>i\<close> raises \<open>e\<close> and leaves
  \<open>st'\<close>, or that call returns and a later call of the loop raises.
\<close>

inductive attachRaises ::
    "config \<Rightarrow> string \<Rightarrow> string \<Rightarrow> media_input list \<Rightarrow> int \<Rightarrow> nat \<Rightarrow> state
       \<Rightarrow> error \<Rightarrow> state \<Rightarrow> bool"
  for cfg :: config and productId :: string and label :: string and toAttach :: "media_input list"
  where
    now:
      "i < int (length toAttach) \<Longrightarrow>
       attachMediaBatch cfg productId (js_slice toAttach i (i + MEDIA_BATCH_SIZE cfg)) st
         = (Inl e, st') \<Longrightarrow>
       attachRaises cfg productId label toAttach i attachedTotal st e st'"
  | later:
      "i < int (length toAttach) \<Longrightarrow>
       attachMediaBatch cfg productId (js_slice toAttach i (i + MEDIA_BATCH_SIZE cfg)) st
         = (Inr u, st1) \<Longrightarrow>
       attachRaises cfg productId label toAttach (i + MEDIA_BATCH_SIZE cfg)
         (attachedTotal + length (js_slice toAttach i (i + MEDIA_BATCH_SIZE cfg)))
         (emit (Log (Attached (length (js_slice toAttach i (i + MEDIA_BATCH_SIZE cfg)))
                       (length toAttach) label)) st1)
         e st' \<Longrightarrow>
       attachRaises cfg productId label toAttach i attachedTotal st e st'"

code_pred (modes: i \<Rightarrow> i \<Rightarrow> i \<Rightarrow> i \<Rightarrow> i \<Rightarrow> i \<Rightarrow> i \<Rightarrow> o \<Rightarrow> o \<Rightarrow> bool)
  attachRaises .

text \<open>
  \<^verbatim>\<open>
  for (const [code, allMedias] of mediaByCode.entries()) {
    const handle = deriveHandleFromCode(code);
    const productId = await findProductIdByHandleOrSku({ handle, code });
    if (!productId) { console.warn(...); continue; }
    const existingAlts = await getExistingMediaAlts(productId);
    const toAttach = allMedias.filter((m) => !existingAlts.has((m.alt || '').trim()));
    skippedTotal += allMedias.length - toAttach.length;
    if (!toAttach.length) { console.log(...); continue; }
    if (DRY_RUN) { console.log(`[DRY_RUN] Would attach ${toAttach.length} media ...`); continue; }
    for (...) { ... }
  }
  \<close>
  The body of the loop, for one group, with the two totals passed through.
\<close>

definition diffMedias :: "string set \<Rightarrow> media_input list \<Rightarrow> media_input list" where
  "diffMedias existingAlts allMedias = filter (\<lambda>m. trim (alt m) \<notin> existingAlts) allMedias"

definition processGroup ::
    "config \<Rightarrow> string \<times> media_input list \<Rightarrow> nat \<times> nat \<Rightarrow> state
       \<Rightarrow> ((error + nat \<times> nat) \<times> state) option" where
  "processGroup cfg g totals st =
     (case g of (code, allMedias) \<Rightarrow>
      case totals of (attachedTotal, skippedTotal) \<Rightarrow>
        (let handle = deriveHandleFromCode cfg code in
         case findProductIdByHandleOrSku cfg handle code st of
           (Inl e, st1) \<Rightarrow> Some (Inl e, st1)
         | (Inr None, st1) \<Rightarrow>
             Some (Inr (attachedTotal, skippedTotal), emit (Log (NoProduct code handle)) st1)
         | (Inr (Some productId), st1) \<Rightarrow>
             (case getExistingMediaAlts cfg productId st1 of
                (Inl e, st2) \<Rightarrow> Some (Inl e, st2)
              | (Inr existingAlts, st2) \<Rightarrow>
                  (let toAttach = diffMedias existingAlts allMedias;
                       skippedTotal' = skippedTotal + (length allMedias - length toAttach)
                   in if toAttach = [] then
                        Some (Inr (attachedTotal, skippedTotal'),
                              emit (Log (NothingNew (orElse handle code))) st2)
                      else if DRY_RUN cfg then
                        Some (Inr (attachedTotal, skippedTotal'),
                              emit (Log (DryRunWouldAttach (length toAttach) (orElse handle code))) st2)
                      else
                        (case attachLoop cfg productId (orElse handle code) toAttach 0
                                attachedTotal st2 of
                           None \<Rightarrow> None
                         | Some (Inl e, st3) \<Rightarrow> Some (Inl e, st3)
                         | Some (Inr attachedTotal', st3) \<Rightarrow>
                             Some (Inr (attachedTotal', skippedTotal'), st3))))))"

fun mainLoop ::
    "config \<Rightarrow> groups \<Rightarrow> nat \<times> nat \<Rightarrow> state \<Rightarrow> ((error + nat \<times> nat) \<times> state) option" where
  "mainLoop cfg [] totals st = Some (Inr totals, st)"
| "mainLoop cfg (g # gs) totals st =
     (case processGroup cfg g totals st of
        None \<Rightarrow> None
      | Some (Inl e, st1) \<Rightarrow> Some (Inl e, st1)
      | Some (Inr totals1, st1) \<Rightarrow> mainLoop cfg gs totals1 st1)"

subsection \<open>Main\<close>

text \<open>
  \<^verbatim>\<open>
  (async () => {
    const files = await fetchGhlFiles();
    if (!files.length) { console.log('No files returned from GHL.'); return; }
    ... grouping ...
    if (!mediaByCode.size) { console.log(`No filenames matched ...`); return; }
    let attachedTotal = 0;
    let skippedTotal = 0;
    for (...) { ... }
    console.log(`Summary: attached=${attachedTotal}, skipped(existing)=${skippedTotal}`);
    console.log('Done.');
  })().catch((err) => {
    console.error('Sync failed:', err?.message || err);
    process.exit(1);
  });
  \<close>
  \<open>main\<close> is the body of the asynchronous function; \<open>run\<close> adds the \<^verbatim>\<open>catch\<close> and gives
  the exit status of the process.
\<close>

definition main :: "config \<Rightarrow> state \<Rightarrow> ((error + unit) \<times> state) option" where
  "main cfg st =
     (case fetchGhlFiles cfg st of
        (Inl e, st1) \<Rightarrow> Some (Inl e, st1)
      | (Inr files, st1) \<Rightarrow>
          (if files = [] then Some (Inr (), emit (Log NoFiles) st1)
           else
             (case groupByCode cfg files [] of
                Inl e \<Rightarrow> Some (Inl e, st1)
              | Inr mediaByCode \<Rightarrow>
                  (if mediaByCode = [] then Some (Inr (), emit (Log NoMatch) st1)
                   else
                     (case mainLoop cfg mediaByCode (0, 0) st1 of
                        None \<Rightarrow> None
                      | Some (Inl e, st2) \<Rightarrow> Some (Inl e, st2)
                      | Some (Inr (attachedTotal, skippedTotal), st2) \<Rightarrow>
                          Some (Inr (),
                                emit (Log Done)
                                  (emit (Log (Summary attachedTotal skippedTotal)) st2)))))))"

definition run :: "config \<Rightarrow> state \<Rightarrow> (nat \<times> state) option" where
  "run cfg st =
     (case main cfg st of
        None \<Rightarrow> None
      | Some (Inl e, st1) \<Rightarrow> Some (1, emit (Log (SyncFailed e)) st1)
      | Some (Inr u, st1) \<Rightarrow> Some (0, st1))"

subsection \<open>Reading a trace\<close>

text \<open>
  The observations the properties are stated with: the delays slept, the requests sent
  to the Catalog Service, the create-media requests among them (every attempt), and the
  create-media calls (the first attempt of each call of \<^verbatim>\<open>attachMediaBatch\<close>).
\<close>

fun sleepOf :: "event \<Rightarrow> nat option" where
  "sleepOf (Sleep w) = Some w"
| "sleepOf e = None"

fun fetchOf :: "event \<Rightarrow> (gql_query \<times> nat) option" where
  "fetchOf (FetchGql q k) = Some (q, k)"
| "fetchOf e = None"

fun attachOf :: "event \<Rightarrow> (string \<times> media_input list) option" where
  "attachOf (FetchGql (ProductCreateMedia p ms) k) = Some (p, ms)"
| "attachOf e = None"

fun attachCallOf :: "event \<Rightarrow> (string \<times> media_input list) option" where
  "attachCallOf (FetchGql (ProductCreateMedia p ms) k) = (if k = 1 then Some (p, ms) else None)"
| "attachCallOf e = None"

definition sleeps :: "event list \<Rightarrow> nat list" where
  "sleeps evs = List.map_filter sleepOf evs"

definition gqlFetches :: "event list \<Rightarrow> (gql_query \<times> nat) list" where
  "gqlFetches evs = List.map_filter fetchOf evs"

definition sentBatches :: "event list \<Rightarrow> (string \<times> media_input list) list" where
  "sentBatches evs = List.map_filter attachOf evs"

definition attachCalls :: "event list \<Rightarrow> (string \<times> media_input list) list" where
  "attachCalls evs = List.map_filter attachCallOf evs"

text \<open>
  The events a call of \<open>gql\<close> adds after its first request: later attempts of the same
  query, sleeps and printed lines.
\<close>

fun quiet :: "gql_query \<Rightarrow> nat \<Rightarrow> event \<Rightarrow> bool" where
  "quiet q k (FetchGql q' j) = (q' = q \<and> k < j)"
| "quiet q k (Sleep w) = True"
| "quiet q k (Log l) = True"
| "quiet q k FetchGhl = False"

subsection \<open>Batches, as the specification words them\<close>

text \<open>
  The specification's slicing of a list into consecutive batches of a fixed size, the
  last one possibly shorter. The loop of the program is compared with it below.
\<close>

function chunksOf :: "nat \<Rightarrow> 'a list \<Rightarrow> 'a list list" where
  "chunksOf n xs = (if n = 0 \<or> xs = [] then [] else take n xs # chunksOf n (drop n xs))"
  by pat_completeness auto
termination
  by (relation "measure (\<lambda>(n, xs). length xs)") auto

subsection \<open>Example data\<close>

text \<open>Concrete answers of the two remote systems, for the worked examples below.\<close>

definition noLocation :: ghl_item where
  "noLocation =
     \<lparr> item_url = Falsy, item_link = Str '''', item_path = Falsy,
       item_name = Str ''CS1_front.jpg'', item_mime = Str ''image/jpeg'', item_type = Falsy \<rparr>"

definition widget :: ghl_item where
  "widget =
     \<lparr> item_url = Falsy, item_link = Str ''https://cdn.example/files/widget.png'',
       item_path = Falsy, item_name = Falsy, item_mime = Falsy, item_type = Str ''image/png'' \<rparr>"

definition unavailable :: ghl_response where
  "unavailable = \<lparr> ghl_status = 503, ghl_text = ''Service Unavailable'', ghl_body = GhlNotJson \<rparr>"

definition listing :: ghl_response where
  "listing = \<lparr> ghl_status = 200, ghl_text = '''', ghl_body = GhlArray [ElemObject widget] \<rparr>"

definition busy :: gql_response where
  "busy = \<lparr> status = 503, body_text = ''busy'', body_json = NotJson \<rparr>"

definition answer :: "gql_data \<Rightarrow> gql_response" where
  "answer d = \<lparr> status = 200, body_text = '''', body_json = Envelope None (Some d) \<rparr>"

definition noData :: gql_data where
  "noData = \<lparr> product_id = None, sku_node_id = None, media_alts = [], mediaUserErrors = [] \<rparr>"

definition altsResponse :: gql_response where
  "altsResponse = answer (noData\<lparr> media_alts := [Some ''  '', None, Some '' CS1_front.jpg ''] \<rparr>)"

definition frontJpg :: media_input where
  "frontJpg = \<lparr> alt = ''CS1_front.jpg'', mediaContentType = IMAGE,
             originalSource = Str ''https://cdn.example/files/CS1_front.jpg'' \<rparr>"

definition backJpg :: media_input where
  "backJpg = \<lparr> alt = ''CS1_back.jpg'', mediaContentType = IMAGE,
            originalSource = Str ''https://cdn.example/files/CS1_back.jpg'' \<rparr>"

definition productAnswer :: gql_response where
  "productAnswer = answer (noData\<lparr> product_id := Some ''gid://shopify/Product/1'' \<rparr>)"

definition catalog :: state where
  "catalog = \<lparr> ghl = [], shopify = [productAnswer, altsResponse, answer noData], trace = [] \<rparr>"

definition sideJpg :: media_input where
  "sideJpg = \<lparr> alt = ''CS1_side.jpg'', mediaContentType = IMAGE,
             originalSource = Str ''https://cdn.example/files/CS1_side.jpg'' \<rparr>"

definition topJpg :: media_input where
  "topJpg = \<lparr> alt = ''CS1_top.jpg'', mediaContentType = IMAGE,
             originalSource = Str ''https://cdn.example/files/CS1_top.jpg'' \<rparr>"

definition catalog4 :: state where
  "catalog4 = \<lparr> ghl = [], shopify = [productAnswer, altsResponse, answer noData, answer noData],
                 trace = [] \<rparr>"

definition pairsConfig :: config where
  "pairsConfig = defaultConfig\<lparr> MEDIA_BATCH_SIZE := 2 \<rparr>"

definition flaky :: state where
  "flaky = \<lparr> ghl = [], shopify = [busy, busy, answer noData, altsResponse], trace = [] \<rparr>"

definition down :: state where
  "down = \<lparr> ghl = [], shopify = [busy, busy, busy, answer noData], trace = [] \<rparr>"

definition cs1Item :: ghl_item where
  "cs1Item =
     \<lparr> item_url = Str ''https://cdn.example/files/CS1_front.jpg'', item_link = Falsy,
       item_path = Falsy, item_name = Str ''CS1_front.jpg'', item_mime = Str ''image/jpeg'',
       item_type = Falsy \<rparr>"

definition cs2Item :: ghl_item where
  "cs2Item =
     \<lparr> item_url = Falsy, item_link = Falsy,
       item_path = Str ''https://cdn.example/files/cs2_clip.mp4'', item_name = Falsy,
       item_mime = Falsy, item_type = Falsy \<rparr>"

definition cs3Item :: ghl_item where
  "cs3Item =
     \<lparr> item_url = Str ''https://cdn.example/files/CS3_back.png'', item_link = Falsy,
       item_path = Falsy, item_name = Str ''CS3_back.png'', item_mime = Falsy, item_type = Falsy \<rparr>"

definition threeItems :: ghl_response where
  "threeItems =
     \<lparr> ghl_status = 200, ghl_text = '''',
       ghl_body = GhlObject (Some [ElemObject cs1Item, ElemObject cs2Item, ElemObject cs3Item]) \<rparr>"

definition threeListed :: "listed_file list" where
  "threeListed =
     [\<lparr> file_url = Str ''https://cdn.example/files/CS1_front.jpg'',
         file_name = Str ''CS1_front.jpg'', file_mime = Str ''image/jpeg'' \<rparr>,
      \<lparr> file_url = Str ''https://cdn.example/files/cs2_clip.mp4'',
         file_name = Str ''cs2_clip.mp4'', file_mime = Str '''' \<rparr>,
      \<lparr> file_url = Str ''https://cdn.example/files/CS3_back.png'',
         file_name = Str ''CS3_back.png'', file_mime = Str '''' \<rparr>]"

text \<open>
  A list with a string among its elements, and an object whose only location is the
  number 5.
\<close>

definition withString :: ghl_response where
  "withString =
     \<lparr> ghl_status = 200, ghl_text = '''',
       ghl_body = GhlArray [ElemObject cs1Item, ElemString ''https://cdn.example/files/CS2.jpg''] \<rparr>"

definition numberLocation :: ghl_item where
  "numberLocation =
     \<lparr> item_url = NonStr ''5'', item_link = Falsy, item_path = Falsy, item_name = Falsy,
       item_mime = Falsy, item_type = Falsy \<rparr>"

text \<open>A group of four assets whose second batch of two is refused by the Catalog Service.\<close>

definition cs1Back :: ghl_item where
  "cs1Back =
     \<lparr> item_url = Str ''https://cdn.example/files/CS1_back.jpg'', item_link = Falsy,
       item_path = Falsy, item_name = Str ''CS1_back.jpg'', item_mime = Falsy, item_type = Falsy \<rparr>"

definition cs1Side :: ghl_item where
  "cs1Side =
     \<lparr> item_url = Str ''https://cdn.example/files/CS1_side.jpg'', item_link = Falsy,
       item_path = Falsy, item_name = Str ''CS1_side.jpg'', item_mime = Falsy, item_type = Falsy \<rparr>"

definition cs1Top :: ghl_item where
  "cs1Top =
     \<lparr> item_url = Str ''https://cdn.example/files/CS1_top.jpg'', item_link = Falsy,
       item_path = Falsy, item_name = Str ''CS1_top.jpg'', item_mime = Falsy, item_type = Falsy \<rparr>"

definition fiveItems :: ghl_response where
  "fiveItems =
     \<lparr> ghl_status = 200, ghl_text = '''',
       ghl_body = GhlArray [ElemObject cs1Item, ElemObject cs1Back, ElemObject cs1Side,
                            ElemObject cs1Top, ElemObject cs3Item] \<rparr>"

definition fiveListed :: "listed_file list" where
  "fiveListed =
     [\<lparr> file_url = Str ''https://cdn.example/files/CS1_front.jpg'',
         file_name = Str ''CS1_front.jpg'', file_mime = Str ''image/jpeg'' \<rparr>,
      \<lparr> file_url = Str ''https://cdn.example/files/CS1_back.jpg'',
         file_name = Str ''CS1_back.jpg'', file_mime = Str '''' \<rparr>,
      \<lparr> file_url = Str ''https://cdn.example/files/CS1_side.jpg'',
         file_name = Str ''CS1_side.jpg'', file_mime = Str '''' \<rparr>,
      \<lparr> file_url = Str ''https://cdn.example/files/CS1_top.jpg'',
         file_name = Str ''CS1_top.jpg'', file_mime = Str '''' \<rparr>,
      \<lparr> file_url = Str ''https://cdn.example/files/CS3_back.png'',
         file_name = Str ''CS3_back.png'', file_mime = Str '''' \<rparr>]"

definition refused :: gql_response where
  "refused = answer (noData\<lparr> mediaUserErrors := [''INVALID''] \<rparr>)"

definition fiveFiles :: state where
  "fiveFiles =
     \<lparr> ghl = [fiveItems],
       shopify = [productAnswer, altsResponse, answer noData, refused, productAnswer],
       trace = [] \<rparr>"

definition fiveFetched :: state where
  "fiveFetched =
     \<lparr> ghl = [], shopify = [productAnswer, altsResponse, answer noData, refused, productAnswer],
       trace = [FetchGhl] \<rparr>"

definition fiveResolved :: state where
  "fiveResolved =
     \<lparr> ghl = [], shopify = [altsResponse, answer noData, refused, productAnswer],
       trace = [FetchGhl, FetchGql (ProductByHandle ''cs1'') 1] \<rparr>"

definition fiveDiffed :: state where
  "fiveDiffed =
     \<lparr> ghl = [], shopify = [answer noData, refused, productAnswer],
       trace = [FetchGhl, FetchGql (ProductByHandle ''cs1'') 1,
                FetchGql (ProductMedia ''gid://shopify/Product/1'') 1] \<rparr>"

definition fiveFirstBatch :: state where
  "fiveFirstBatch =
     \<lparr> ghl = [], shopify = [refused, productAnswer],
       trace = [FetchGhl, FetchGql (ProductByHandle ''cs1'') 1,
                FetchGql (ProductMedia ''gid://shopify/Product/1'') 1,
                FetchGql (ProductCreateMedia ''gid://shopify/Product/1'' [backJpg, sideJpg]) 1] \<rparr>"

definition fiveRefused :: state where
  "fiveRefused =
     \<lparr> ghl = [], shopify = [productAnswer],
       trace = [FetchGhl, FetchGql (ProductByHandle ''cs1'') 1,
                FetchGql (ProductMedia ''gid://shopify/Product/1'') 1,
                FetchGql (ProductCreateMedia ''gid://shopify/Product/1'' [backJpg, sideJpg]) 1,
                Log (Attached 2 3 ''cs1''),
                FetchGql (ProductCreateMedia ''gid://shopify/Product/1'' [topJpg]) 1] \<rparr>"

definition cs2Media :: media_input where
  "cs2Media = \<lparr> alt = ''cs2_clip.mp4'', mediaContentType = VIDEO,
                originalSource = Str ''https://cdn.example/files/cs2_clip.mp4'' \<rparr>"

definition cs3Media :: media_input where
  "cs3Media = \<lparr> alt = ''CS3_back.png'', mediaContentType = IMAGE,
                originalSource = Str ''https://cdn.example/files/CS3_back.png'' \<rparr>"

definition unauthorized :: gql_response where
  "unauthorized = \<lparr> status = 401, body_text = ''Unauthorized'', body_json = NotJson \<rparr>"

definition threeFiles :: state where
  "threeFiles =
     \<lparr> ghl = [threeItems],
       shopify = [answer noData, answer noData, unauthorized, productAnswer], trace = [] \<rparr>"

definition afterFetch :: state where
  "afterFetch =
     \<lparr> ghl = [], shopify = [answer noData, answer noData, unauthorized, productAnswer],
       trace = [FetchGhl] \<rparr>"

definition afterCS1 :: state where
  "afterCS1 =
     \<lparr> ghl = [], shopify = [unauthorized, productAnswer],
       trace = [FetchGhl, FetchGql (ProductByHandle ''cs1'') 1, FetchGql (ProductsBySku ''CS1'') 1,
                Log (NoProduct ''CS1'' ''cs1'')] \<rparr>"

definition afterCS2 :: state where
  "afterCS2 =
     \<lparr> ghl = [], shopify = [productAnswer],
       trace = [FetchGhl, FetchGql (ProductByHandle ''cs1'') 1, FetchGql (ProductsBySku ''CS1'') 1,
                Log (NoProduct ''CS1'' ''cs1''), FetchGql (ProductByHandle ''cs2'') 1] \<rparr>"

definition dryConfig :: config where
  "dryConfig = defaultConfig\<lparr> DRY_RUN := True \<rparr>"

definition dryFiles :: state where
  "dryFiles =
     \<lparr> ghl = [threeItems],
       shopify = [answer noData, answer noData, productAnswer, altsResponse, productAnswer,
                  answer noData],
       trace = [] \<rparr>"

text \<open>The same listing when the Catalog Service refuses to list the media of the product.\<close>

definition deniedFiles :: state where
  "deniedFiles =
     \<lparr> ghl = [fiveItems], shopify = [productAnswer, unauthorized, productAnswer], trace = [] \<rparr>"

definition deniedFetched :: state where
  "deniedFetched =
     \<lparr> ghl = [], shopify = [productAnswer, unauthorized, productAnswer], trace = [FetchGhl] \<rparr>"

definition deniedResolved :: state where
  "deniedResolved =
     \<lparr> ghl = [], shopify = [unauthorized, productAnswer],
       trace = [FetchGhl, FetchGql (ProductByHandle ''cs1'') 1] \<rparr>"

definition deniedListing :: state where
  "deniedListing =
     \<lparr> ghl = [], shopify = [productAnswer],
       trace = [FetchGhl, FetchGql (ProductByHandle ''cs1'') 1,
                FetchGql (ProductMedia ''gid://shopify/Product/1'') 1] \<rparr>"

text \<open>
  A list whose first three elements have no location, a list in an object whose only
  element has the number 5 as its location, and an object without a list.
\<close>

definition mixed :: ghl_response where
  "mixed =
     \<lparr> ghl_status = 200, ghl_text = '''',
       ghl_body = GhlArray [ElemObject noLocation, ElemNull, ElemOther, ElemObject widget] \<rparr>"

definition numbered :: ghl_response where
  "numbered =
     \<lparr> ghl_status = 200, ghl_text = '''',
       ghl_body = GhlObject (Some [ElemNull, ElemObject numberLocation]) \<rparr>"

definition shapeless :: ghl_response where
  "shapeless = \<lparr> ghl_status = 200, ghl_text = '''', ghl_body = GhlObject None \<rparr>"

definition listed :: state where
  "listed = \<lparr> ghl = [], shopify = [], trace = [FetchGhl] \<rparr>"

section \<open>Properties\<close>

lemmas string_defs =
  startsWith_def toLowerCase_def toLowerChar_def toUpperCase_def toUpperChar_def
  upperLetters_def lowerLetters_def digits_def isLowerAlnum_def isDigit_def isWhiteSpace_def
  trim_def orElse_def orEmpty_def extOf_def IMAGE_EXT_def VIDEO_EXT_def

declare gql.simps [simp del]

declare chunksOf.simps [simp del]

subsection \<open>Masking\<close>

text \<open>
  C9, as stated, fails: strings of length at most 6 do not all get the same placeholder.
  The empty string is masked as \<^verbatim>\<open>(empty)\<close>, the string \<^verbatim>\<open>abc\<close> as \<^verbatim>\<open>***\<close>.
\<close>

theorem C9_mask_placeholder_not_fixed:
  "length ('''' :: string) \<le> 6 \<and> length ''abc'' \<le> 6 \<and> mask_secret '''' \<noteq> mask_secret ''abc''"
  by (simp add: mask_secret_def)

text \<open>
  C9, amended: for a secret of length above 6 the mask is its first three characters, the
  separator \<^verbatim>\<open>***\<close> and its last three characters; for a non-empty secret of length at
  most 6 it is the placeholder \<^verbatim>\<open>***\<close>; for the empty secret it is the other
  placeholder \<^verbatim>\<open>(empty)\<close>.
\<close>

theorem C9_mask:
  "(6 < length s \<longrightarrow> mask_secret s = take 3 s @ ''***'' @ drop (length s - 3) s
                      \<and> drop (length s - 3) s = rev (take 3 (rev s)))
   \<and> (s \<noteq> [] \<and> length s \<le> 6 \<longrightarrow> mask_secret s = ''***'')
   \<and> (s = [] \<longrightarrow> mask_secret s = ''(empty)'')"
  by (auto simp: mask_secret_def rev_take)

theorem C9_mask_witness:
  "mask_secret ''shpat_0123456789'' = ''shp***789'' \<and> mask_secret ''secret'' = ''***'' \<and> mask_secret '''' = ''(empty)''"
  using C9_mask [of "''shpat_0123456789''"] C9_mask [of "''secret''"] C9_mask [of "''''"]
  by simp

subsection \<open>Media classification\<close>

text \<open>
  C2, as stated, fails: a declared type \<^verbatim>\<open>video/mp4\<close> with the file name
  \<^verbatim>\<open>clip.jpg\<close> is classified \<open>IMAGE\<close>, since the test for an image (prefix or
  extension) comes before the test for a video.
\<close>

theorem C2_video_mime_image_extension:
  "startsWith (toLowerCase ''video/mp4'') ''video/''
   \<and> extOf ''clip.jpg'' \<in> IMAGE_EXT
   \<and> guessMediaType filenameFromUrl_fallback
        \<lparr> url = ''https://cdn.example/clip.jpg'', name = ''clip.jpg'', mime = ''video/mp4'' \<rparr>
       = IMAGE"
  by (simp add: guessMediaType_def string_defs)

text \<open>
  C2, amended: \<open>guessMediaType\<close> returns one of the three kinds for every asset; a
  declared type that starts with \<^verbatim>\<open>image/\<close> (in any letter case) gives \<open>IMAGE\<close> whatever
  the extension; a declared type that starts with \<^verbatim>\<open>video/\<close> gives \<open>VIDEO\<close> unless the
  extension of the file name is one of the image extensions, and then it gives \<open>IMAGE\<close>.
\<close>

theorem C2_guessMediaType:
  "guessMediaType fnu f \<in> {IMAGE, VIDEO, EXTERNAL_VIDEO}
   \<and> (startsWith (toLowerCase (mime f)) ''image/'' \<longrightarrow> guessMediaType fnu f = IMAGE)
   \<and> (startsWith (toLowerCase (mime f)) ''video/'' \<longrightarrow>
        guessMediaType fnu f =
          (if extOf (orElse (name f) (fnu (url f))) \<in> IMAGE_EXT then IMAGE else VIDEO))"
proof -
  have total: "guessMediaType fnu f \<in> {IMAGE, VIDEO, EXTERNAL_VIDEO}"
    by (cases "guessMediaType fnu f") simp_all
  have img: "startsWith (toLowerCase (mime f)) ''image/'' \<Longrightarrow> guessMediaType fnu f = IMAGE"
    by (simp add: guessMediaType_def)
  have "startsWith s ''video/'' \<Longrightarrow> \<not> startsWith s ''image/''" for s
    by (cases s) (auto simp: startsWith_def)
  then have vid: "startsWith (toLowerCase (mime f)) ''video/'' \<Longrightarrow>
      guessMediaType fnu f =
          (if extOf (orElse (name f) (fnu (url f))) \<in> IMAGE_EXT then IMAGE else VIDEO)"
    by (simp add: guessMediaType_def Let_def)
  from total img vid show ?thesis by blast
qed

theorem C2_guessMediaType_witness:
  "guessMediaType filenameFromUrl_fallback
     \<lparr> url = ''u'', name = ''clip.mp4'', mime = ''Image/PNG'' \<rparr> = IMAGE
   \<and> guessMediaType filenameFromUrl_fallback
       \<lparr> url = ''u'', name = ''clip.txt'', mime = ''video/mp4'' \<rparr> = VIDEO
   \<and> guessMediaType filenameFromUrl_fallback
       \<lparr> url = ''u'', name = ''clip.JPG'', mime = ''video/mp4'' \<rparr> = IMAGE"
  using
    C2_guessMediaType [of filenameFromUrl_fallback
      "\<lparr> url = ''u'', name = ''clip.mp4'', mime = ''Image/PNG'' \<rparr>"]
    C2_guessMediaType [of filenameFromUrl_fallback
      "\<lparr> url = ''u'', name = ''clip.txt'', mime = ''video/mp4'' \<rparr>"]
    C2_guessMediaType [of filenameFromUrl_fallback
      "\<lparr> url = ''u'', name = ''clip.JPG'', mime = ''video/mp4'' \<rparr>"]
  by (simp add: string_defs)

subsection \<open>The Asset Source\<close>

lemma normaliseElement_returns:
  assumes "truthyV (item_name i)
           \<or> (\<forall>s. orV (item_url i) (orV (item_link i) (item_path i)) = NonStr s \<longrightarrow> urlDecodes cfg s)"
  shows "normaliseElement cfg (ElemObject i)
         = Inr \<lparr> file_url = orV (item_url i) (orV (item_link i) (item_path i)),
                 file_name =
                   (if truthyV (item_name i) then item_name i
                    else Str (filenameFromUrl cfg
                                (toStr (orV (item_url i) (orV (item_link i) (item_path i)))))),
                 file_mime = orV (item_mime i) (orV (item_type i) (Str [])) \<rparr>"
  using assms
  by (cases "orV (item_url i) (orV (item_link i) (item_path i))")
     (auto simp: normaliseElement_def normalise_def filenameFromUrlOf_def toStr_def Let_def)

lemma normaliseElement_raises:
  assumes "passesFilter f"
    and "\<forall>i. f = ElemObject i \<longrightarrow>
           \<not> truthyV (item_name i)
           \<and> (\<exists>s. orV (item_url i) (orV (item_link i) (item_path i)) = NonStr s
                    \<and> \<not> urlDecodes cfg s)"
  shows "normaliseElement cfg f = Inl TypeError"
  using assms
  by (cases f) (auto simp: normaliseElement_def normalise_def filenameFromUrlOf_def
      passesFilter_def Let_def)

lemma normaliseElement_error: "normaliseElement cfg f = Inl e \<Longrightarrow> e = TypeError"
  by (cases f)
     (auto simp: normaliseElement_def normalise_def filenameFromUrlOf_def Let_def
       split: if_splits sum.splits js_value.splits)

lemma mapRaising_returns:
  "\<forall>x \<in> set xs. f x = Inr (g x) \<Longrightarrow> mapRaising f xs = Inr (map g xs)"
  by (induction xs) simp_all

lemma mapRaising_raises:
  "x \<in> set xs \<Longrightarrow> f x = Inl e \<Longrightarrow> \<exists>y \<in> set xs. \<exists>e'. f y = Inl e' \<and> mapRaising f xs = Inl e'"
proof (induction xs)
  case Nil
  then show ?case by simp
next
  case (Cons a xs)
  show ?case
  proof (cases "f a")
    case (Inl e')
    then show ?thesis by simp
  next
    case (Inr b)
    with Cons.prems have "x \<in> set xs" by auto
    from Cons.IH [OF this Cons.prems(2)]
    obtain y e' where "y \<in> set xs" "f y = Inl e'" "mapRaising f xs = Inl e'" by blast
    with Inr show ?thesis by auto
  qed
qed

lemma fetchGhlFiles_list:
  assumes "ghl st = res # rest" and "ok (ghl_status res)"
    and "ghl_body res = GhlArray list \<or> ghl_body res = GhlObject (Some list)"
  shows "fetchGhlFiles cfg st
         = (mapRaising (normaliseElement cfg) (filter passesFilter list),
            emit FetchGhl (st\<lparr>ghl := rest\<rparr>))"
  using assms by (auto simp: fetchGhlFiles_def normaliseList_def)

lemma run_fetch_raises:
  "fetchGhlFiles cfg st = (Inl e, st1) \<Longrightarrow> run cfg st = Some (1, emit (Log (SyncFailed e)) st1)"
  by (simp add: run_def main_def)

text \<open>
  C6, as stated, fails: an element with no location is dropped and the run goes on. Here
  the first element has an empty \<^verbatim>\<open>link\<close> and no \<^verbatim>\<open>url\<close> or \<^verbatim>\<open>path\<close>; the run
  continues to the grouping step with the second element and ends with status 0.
\<close>

theorem C6_element_without_location_dropped:
  "\<not> passesFilter (ElemObject noLocation)
   \<and> run defaultConfig
        \<lparr> ghl = [\<lparr> ghl_status = 200, ghl_text = '''',
                   ghl_body = GhlArray [ElemObject noLocation, ElemObject widget] \<rparr>],
          shopify = [], trace = [] \<rparr>
      = Some (0, \<lparr> ghl = [], shopify = [], trace = [FetchGhl, Log NoMatch] \<rparr>)"
  by code_simp

text \<open>
  C6, amended. Take an answer of the Asset Source with a success status whose JSON is an
  array, or an object whose \<^verbatim>\<open>files\<close> is an array. An element is kept when it is a
  non-empty string or an object with a truthy \<^verbatim>\<open>url\<close>, \<^verbatim>\<open>link\<close> or \<^verbatim>\<open>path\<close>; every
  other element (\<^verbatim>\<open>null\<close>, a boolean, a number, an array, the empty string, an object
  with no truthy location) is dropped, and the fetch and the run go as they do on the
  list of the kept elements alone. A kept element is normalised when it is an object
  with a truthy \<^verbatim>\<open>name\<close>, or an object whose location is a string or a value whose text
  the platform reads as a URL.
  \<^item> When every kept element is normalised, the fetch returns one asset for each kept
    element, in their order: its \<^verbatim>\<open>url\<close> is the first truthy location, its \<^verbatim>\<open>name\<close> is
    the \<^verbatim>\<open>name\<close> of the element if truthy and else the file name of the location, its
    \<^verbatim>\<open>mime\<close> is the first truthy of \<^verbatim>\<open>mime\<close>, \<^verbatim>\<open>type\<close> and the empty string.
  \<^item> When some kept element is not normalised (a non-empty string; an object without a
    truthy \<^verbatim>\<open>name\<close> whose location is neither a string nor read as a URL), the fetch
    raises a \<^verbatim>\<open>TypeError\<close> and the run fails with status 1.
  \<^item> When the JSON is an object whose \<^verbatim>\<open>files\<close> is not an array, the fetch raises the
    shape error and the run fails with status 1.
\<close>

theorem C6_fetchGhlFiles:
  assumes "ghl st = res # rest" and "ok (ghl_status res)"
    and "st1 = emit FetchGhl (st\<lparr>ghl := rest\<rparr>)"
    and "kept = filter passesFilter list"
  shows
    "(ghl_body res = GhlArray list \<or> ghl_body res = GhlObject (Some list) \<longrightarrow>
        fetchGhlFiles cfg st
          = fetchGhlFiles cfg (st\<lparr>ghl := res\<lparr>ghl_body := GhlArray kept\<rparr> # rest\<rparr>)
        \<and> run cfg st = run cfg (st\<lparr>ghl := res\<lparr>ghl_body := GhlArray kept\<rparr> # rest\<rparr>)
        \<and> ((\<forall>f \<in> set kept. \<exists>i. f = ElemObject i
                \<and> (truthyV (item_name i)
                    \<or> (\<forall>s. orV (item_url i) (orV (item_link i) (item_path i)) = NonStr s
                            \<longrightarrow> urlDecodes cfg s)))
             \<longrightarrow> (\<exists>files. fetchGhlFiles cfg st = (Inr files, st1)
                    \<and> length files = length kept
                    \<and> (\<forall>j < length kept. \<exists>i. kept ! j = ElemObject i
                          \<and> file_url (files ! j)
                              = orV (item_url i) (orV (item_link i) (item_path i))
                          \<and> file_name (files ! j)
                              = (if truthyV (item_name i) then item_name i
                                 else Str (filenameFromUrl cfg
                                        (toStr (orV (item_url i)
                                                  (orV (item_link i) (item_path i))))))
                          \<and> file_mime (files ! j)
                              = orV (item_mime i) (orV (item_type i) (Str [])))))
        \<and> ((\<exists>f \<in> set kept. \<forall>i. f = ElemObject i \<longrightarrow>
                \<not> truthyV (item_name i)
                \<and> (\<exists>s. orV (item_url i) (orV (item_link i) (item_path i)) = NonStr s
                         \<and> \<not> urlDecodes cfg s))
             \<longrightarrow> fetchGhlFiles cfg st = (Inl TypeError, st1)
                 \<and> run cfg st = Some (1, emit (Log (SyncFailed TypeError)) st1)))
     \<and> (ghl_body res = GhlObject None \<longrightarrow>
          fetchGhlFiles cfg st = (Inl GhlShape, st1)
          \<and> run cfg st = Some (1, emit (Log (SyncFailed GhlShape)) st1))"
proof -
  let ?st' = "st\<lparr>ghl := res\<lparr>ghl_body := GhlArray kept\<rparr> # rest\<rparr>"
  let ?norm = "\<lambda>i. \<lparr> file_url = orV (item_url i) (orV (item_link i) (item_path i)),
                 file_name =
                   (if truthyV (item_name i) then item_name i
                    else Str (filenameFromUrl cfg
                                (toStr (orV (item_url i) (orV (item_link i) (item_path i)))))),
                 file_mime = orV (item_mime i) (orV (item_type i) (Str [])) \<rparr>"
  let ?g = "\<lambda>f. case f of ElemObject i \<Rightarrow> ?norm i | _ \<Rightarrow> ?norm absentItem"
  have shape: "fetchGhlFiles cfg st = (Inl GhlShape, st1)
               \<and> run cfg st = Some (1, emit (Log (SyncFailed GhlShape)) st1)"
    if "ghl_body res = GhlObject None"
  proof -
    from assms(1-3) that have "fetchGhlFiles cfg st = (Inl GhlShape, st1)"
      by (simp add: fetchGhlFiles_def)
    then show ?thesis
      by (simp add: run_fetch_raises)
  qed
  have arr: "fetchGhlFiles cfg st = fetchGhlFiles cfg ?st'
        \<and> run cfg st = run cfg ?st'
        \<and> ((\<forall>f \<in> set kept. \<exists>i. f = ElemObject i
                \<and> (truthyV (item_name i)
                    \<or> (\<forall>s. orV (item_url i) (orV (item_link i) (item_path i)) = NonStr s
                            \<longrightarrow> urlDecodes cfg s)))
             \<longrightarrow> (\<exists>files. fetchGhlFiles cfg st = (Inr files, st1)
                    \<and> length files = length kept
                    \<and> (\<forall>j < length kept. \<exists>i. kept ! j = ElemObject i
                          \<and> file_url (files ! j)
                              = orV (item_url i) (orV (item_link i) (item_path i))
                          \<and> file_name (files ! j)
                              = (if truthyV (item_name i) then item_name i
                                 else Str (filenameFromUrl cfg
                                        (toStr (orV (item_url i)
                                                  (orV (item_link i) (item_path i))))))
                          \<and> file_mime (files ! j)
                              = orV (item_mime i) (orV (item_type i) (Str [])))))
        \<and> ((\<exists>f \<in> set kept. \<forall>i. f = ElemObject i \<longrightarrow>
                \<not> truthyV (item_name i)
                \<and> (\<exists>s. orV (item_url i) (orV (item_link i) (item_path i)) = NonStr s
                         \<and> \<not> urlDecodes cfg s))
             \<longrightarrow> fetchGhlFiles cfg st = (Inl TypeError, st1)
                 \<and> run cfg st = Some (1, emit (Log (SyncFailed TypeError)) st1))"
    if body: "ghl_body res = GhlArray list \<or> ghl_body res = GhlObject (Some list)"
  proof -
    have f: "fetchGhlFiles cfg st = (mapRaising (normaliseElement cfg) kept, st1)"
      using fetchGhlFiles_list [OF assms(1,2) body] assms(3,4) by simp
    have "filter passesFilter kept = kept"
      using assms(4) by simp
    then have f': "fetchGhlFiles cfg ?st' = (mapRaising (normaliseElement cfg) kept, st1)"
      using assms(2,3) by (simp add: fetchGhlFiles_def normaliseList_def emit_def)
    have same: "fetchGhlFiles cfg st = fetchGhlFiles cfg ?st'"
      using f f' by simp
    then have run: "run cfg st = run cfg ?st'"
      by (simp add: run_def main_def)
    have good: "\<exists>files. fetchGhlFiles cfg st = (Inr files, st1)
                    \<and> length files = length kept
                    \<and> (\<forall>j < length kept. \<exists>i. kept ! j = ElemObject i
                          \<and> file_url (files ! j)
                              = orV (item_url i) (orV (item_link i) (item_path i))
                          \<and> file_name (files ! j)
                              = (if truthyV (item_name i) then item_name i
                                 else Str (filenameFromUrl cfg
                                        (toStr (orV (item_url i)
                                                  (orV (item_link i) (item_path i))))))
                          \<and> file_mime (files ! j)
                              = orV (item_mime i) (orV (item_type i) (Str [])))"
      if all: "\<forall>f \<in> set kept. \<exists>i. f = ElemObject i
                \<and> (truthyV (item_name i)
                    \<or> (\<forall>s. orV (item_url i) (orV (item_link i) (item_path i)) = NonStr s
                            \<longrightarrow> urlDecodes cfg s))"
    proof -
      have "\<forall>f \<in> set kept. normaliseElement cfg f = Inr (?g f)"
      proof
        fix f assume "f \<in> set kept"
        with all obtain i where i: "f = ElemObject i"
          and n: "truthyV (item_name i)
                  \<or> (\<forall>s. orV (item_url i) (orV (item_link i) (item_path i)) = NonStr s
                          \<longrightarrow> urlDecodes cfg s)"
          by blast
        show "normaliseElement cfg f = Inr (?g f)"
          unfolding i using normaliseElement_returns [OF n] by simp
      qed
      then have m: "mapRaising (normaliseElement cfg) kept = Inr (map ?g kept)"
        by (rule mapRaising_returns)
      have "\<exists>i. kept ! j = ElemObject i
                          \<and> file_url (map ?g kept ! j)
                              = orV (item_url i) (orV (item_link i) (item_path i))
                          \<and> file_name (map ?g kept ! j)
                              = (if truthyV (item_name i) then item_name i
                                 else Str (filenameFromUrl cfg
                                        (toStr (orV (item_url i)
                                                  (orV (item_link i) (item_path i))))))
                          \<and> file_mime (map ?g kept ! j)
                              = orV (item_mime i) (orV (item_type i) (Str []))"
        if j: "j < length kept" for j
      proof -
        from j have "kept ! j \<in> set kept" by simp
        with all obtain i where i: "kept ! j = ElemObject i" by blast
        show ?thesis
          using j i by (intro exI [of _ i]) simp
      qed
      with f m show ?thesis
        by (intro exI [of _ "map ?g kept"]) simp
    qed
    have bad: "fetchGhlFiles cfg st = (Inl TypeError, st1)
                 \<and> run cfg st = Some (1, emit (Log (SyncFailed TypeError)) st1)"
      if ex: "\<exists>f \<in> set kept. \<forall>i. f = ElemObject i \<longrightarrow>
                \<not> truthyV (item_name i)
                \<and> (\<exists>s. orV (item_url i) (orV (item_link i) (item_path i)) = NonStr s
                         \<and> \<not> urlDecodes cfg s)"
    proof -
      from ex obtain f where fk: "f \<in> set kept"
        and fr: "\<forall>i. f = ElemObject i \<longrightarrow>
                \<not> truthyV (item_name i)
                \<and> (\<exists>s. orV (item_url i) (orV (item_link i) (item_path i)) = NonStr s
                         \<and> \<not> urlDecodes cfg s)"
        by blast
      from fk assms(4) have "passesFilter f" by simp
      then have "normaliseElement cfg f = Inl TypeError"
        using fr by (rule normaliseElement_raises)
      with fk obtain y e' where "normaliseElement cfg y = Inl e'"
        and "mapRaising (normaliseElement cfg) kept = Inl e'"
        using mapRaising_raises [of f kept "normaliseElement cfg" TypeError] by blast
      then have "mapRaising (normaliseElement cfg) kept = Inl TypeError"
        using normaliseElement_error [of cfg y e'] by simp
      with f have "fetchGhlFiles cfg st = (Inl TypeError, st1)" by simp
      then show ?thesis
        by (simp add: run_fetch_raises)
    qed
    from same run good bad show ?thesis by blast
  qed
  from arr shape show ?thesis by blast
qed

lemma ev6_emit:
  "listed = emit FetchGhl (\<lparr> ghl = [r], shopify = [], trace = [] \<rparr>\<lparr>ghl := []\<rparr>)"
  by (simp add: listed_def emit_def)

lemma ev6_ok:
  "ok (ghl_status mixed)" "ok (ghl_status withString)" "ok (ghl_status numbered)"
  "ok (ghl_status shapeless)"
  by (simp_all add: ok_def mixed_def withString_def numbered_def shapeless_def)

lemma ev6_mixed:
  "[ElemObject widget]
     = filter passesFilter [ElemObject noLocation, ElemNull, ElemOther, ElemObject widget]"
  by code_simp

lemma ev6_string:
  "[ElemObject cs1Item, ElemString ''https://cdn.example/files/CS2.jpg'']
     = filter passesFilter [ElemObject cs1Item, ElemString ''https://cdn.example/files/CS2.jpg'']"
  by code_simp

lemma ev6_numbered:
  "[ElemObject numberLocation] = filter passesFilter [ElemNull, ElemObject numberLocation]"
  by code_simp

lemma ev6_all:
  "\<forall>f \<in> set [ElemObject widget]. \<exists>i. f = ElemObject i
      \<and> (truthyV (item_name i)
          \<or> (\<forall>s. orV (item_url i) (orV (item_link i) (item_path i)) = NonStr s
                  \<longrightarrow> urlDecodes defaultConfig s))"
  by (simp add: widget_def truthyV_def orV_def)

lemma ev6_some_string:
  "\<exists>f \<in> set [ElemObject cs1Item, ElemString ''https://cdn.example/files/CS2.jpg''].
      \<forall>i. f = ElemObject i \<longrightarrow>
        \<not> truthyV (item_name i)
        \<and> (\<exists>s. orV (item_url i) (orV (item_link i) (item_path i)) = NonStr s
                 \<and> \<not> urlDecodes defaultConfig s)"
  by simp

lemma ev6_some_number:
  "\<exists>f \<in> set [ElemObject numberLocation].
      \<forall>i. f = ElemObject i \<longrightarrow>
        \<not> truthyV (item_name i)
        \<and> (\<exists>s. orV (item_url i) (orV (item_link i) (item_path i)) = NonStr s
                 \<and> \<not> urlDecodes defaultConfig s)"
  by (simp add: numberLocation_def truthyV_def orV_def defaultConfig_def)

lemma ev6_widget:
  "orV (item_url widget) (orV (item_link widget) (item_path widget))
     = Str ''https://cdn.example/files/widget.png''"
  "(if truthyV (item_name widget) then item_name widget
    else Str (filenameFromUrl defaultConfig
           (toStr (orV (item_url widget) (orV (item_link widget) (item_path widget))))))
     = Str ''widget.png''"
  "(if truthyV (item_name widget) then item_name widget
    else Str (filenameFromUrl defaultConfig (toStr (Str ''https://cdn.example/files/widget.png''))))
     = Str ''widget.png''"
  "orV (item_mime widget) (orV (item_type widget) (Str [])) = Str ''image/png''"
  by code_simp+

theorem C6_fetchGhlFiles_witness:
  "(fetchGhlFiles defaultConfig \<lparr> ghl = [mixed], shopify = [], trace = [] \<rparr>
      = fetchGhlFiles defaultConfig \<lparr> ghl = [listing], shopify = [], trace = [] \<rparr>
    \<and> (\<exists>files. fetchGhlFiles defaultConfig \<lparr> ghl = [mixed], shopify = [], trace = [] \<rparr>
                   = (Inr files, listed)
          \<and> length files = 1
          \<and> file_url (files ! 0) = Str ''https://cdn.example/files/widget.png''
          \<and> file_name (files ! 0) = Str ''widget.png''
          \<and> file_mime (files ! 0) = Str ''image/png''))
   \<and> run defaultConfig \<lparr> ghl = [withString], shopify = [], trace = [] \<rparr>
     = Some (1, emit (Log (SyncFailed TypeError)) listed)
   \<and> run defaultConfig \<lparr> ghl = [numbered], shopify = [], trace = [] \<rparr>
     = Some (1, emit (Log (SyncFailed TypeError)) listed)
   \<and> run defaultConfig \<lparr> ghl = [shapeless], shopify = [], trace = [] \<rparr>
     = Some (1, emit (Log (SyncFailed GhlShape)) listed)"
proof (intro conjI)
  note good =
    C6_fetchGhlFiles [where cfg = defaultConfig and res = mixed and rest = "[]"
        and st = "\<lparr> ghl = [mixed], shopify = [], trace = [] \<rparr>",
      OF _ ev6_ok(1) ev6_emit ev6_mixed, THEN conjunct1, THEN mp]
  have body: "ghl_body mixed
                = GhlArray [ElemObject noLocation, ElemNull, ElemOther, ElemObject widget]
              \<or> ghl_body mixed
                = GhlObject (Some [ElemObject noLocation, ElemNull, ElemOther, ElemObject widget])"
    by (simp add: mixed_def)
  have st: "ghl \<lparr> ghl = [mixed], shopify = [], trace = [] \<rparr> = [mixed]"
    by simp
  from good [OF st body, THEN conjunct1]
  show "fetchGhlFiles defaultConfig \<lparr> ghl = [mixed], shopify = [], trace = [] \<rparr>
      = fetchGhlFiles defaultConfig \<lparr> ghl = [listing], shopify = [], trace = [] \<rparr>"
    by (simp add: mixed_def listing_def)
  from good [OF st body, THEN conjunct2, THEN conjunct2, THEN conjunct1, THEN mp, OF ev6_all]
  obtain files
    where f: "fetchGhlFiles defaultConfig \<lparr> ghl = [mixed], shopify = [], trace = [] \<rparr>
                = (Inr files, listed)"
      and l: "length files = length [ElemObject widget]"
      and n: "\<forall>j < length [ElemObject widget]. \<exists>i. [ElemObject widget] ! j = ElemObject i
                \<and> file_url (files ! j) = orV (item_url i) (orV (item_link i) (item_path i))
                \<and> file_name (files ! j)
                    = (if truthyV (item_name i) then item_name i
                       else Str (filenameFromUrl defaultConfig
                              (toStr (orV (item_url i) (orV (item_link i) (item_path i))))))
                \<and> file_mime (files ! j) = orV (item_mime i) (orV (item_type i) (Str []))"
    by blast
  from n have "file_url (files ! 0) = orV (item_url widget) (orV (item_link widget) (item_path widget))
      \<and> file_name (files ! 0)
          = (if truthyV (item_name widget) then item_name widget
             else Str (filenameFromUrl defaultConfig
                    (toStr (orV (item_url widget) (orV (item_link widget) (item_path widget))))))
      \<and> file_mime (files ! 0) = orV (item_mime widget) (orV (item_type widget) (Str []))"
    by simp
  then have "file_url (files ! 0) = Str ''https://cdn.example/files/widget.png''
      \<and> file_name (files ! 0) = Str ''widget.png''
      \<and> file_mime (files ! 0) = Str ''image/png''"
    by (simp only: ev6_widget)
  with f l
  show "\<exists>files. fetchGhlFiles defaultConfig \<lparr> ghl = [mixed], shopify = [], trace = [] \<rparr>
                   = (Inr files, listed)
          \<and> length files = 1
          \<and> file_url (files ! 0) = Str ''https://cdn.example/files/widget.png''
          \<and> file_name (files ! 0) = Str ''widget.png''
          \<and> file_mime (files ! 0) = Str ''image/png''"
    by (intro exI [of _ files]) simp
next
  have st: "ghl \<lparr> ghl = [withString], shopify = [], trace = [] \<rparr> = [withString]"
    by simp
  have body: "ghl_body withString
                = GhlArray [ElemObject cs1Item, ElemString ''https://cdn.example/files/CS2.jpg'']
              \<or> ghl_body withString
                = GhlObject (Some [ElemObject cs1Item,
                                   ElemString ''https://cdn.example/files/CS2.jpg''])"
    by (simp add: withString_def)
  from C6_fetchGhlFiles [where cfg = defaultConfig, OF st ev6_ok(2) ev6_emit ev6_string,
      THEN conjunct1, THEN mp, OF body, THEN conjunct2, THEN conjunct2, THEN conjunct2, THEN mp,
      OF ev6_some_string, THEN conjunct2]
  show "run defaultConfig \<lparr> ghl = [withString], shopify = [], trace = [] \<rparr>
     = Some (1, emit (Log (SyncFailed TypeError)) listed)" .
next
  have st: "ghl \<lparr> ghl = [numbered], shopify = [], trace = [] \<rparr> = [numbered]"
    by simp
  have body: "ghl_body numbered = GhlArray [ElemNull, ElemObject numberLocation]
              \<or> ghl_body numbered = GhlObject (Some [ElemNull, ElemObject numberLocation])"
    by (simp add: numbered_def)
  from C6_fetchGhlFiles [where cfg = defaultConfig, OF st ev6_ok(3) ev6_emit ev6_numbered,
      THEN conjunct1, THEN mp, OF body, THEN conjunct2, THEN conjunct2, THEN conjunct2, THEN mp,
      OF ev6_some_number, THEN conjunct2]
  show "run defaultConfig \<lparr> ghl = [numbered], shopify = [], trace = [] \<rparr>
     = Some (1, emit (Log (SyncFailed TypeError)) listed)" .
next
  have st: "ghl \<lparr> ghl = [shapeless], shopify = [], trace = [] \<rparr> = [shapeless]"
    by simp
  have body: "ghl_body shapeless = GhlObject None"
    by (simp add: shapeless_def)
  from C6_fetchGhlFiles [where cfg = defaultConfig and kept = "[]" and list = "[]",
      OF st ev6_ok(4) ev6_emit, THEN conjunct2, THEN mp, OF _ body, THEN conjunct2]
  show "run defaultConfig \<lparr> ghl = [shapeless], shopify = [], trace = [] \<rparr>
     = Some (1, emit (Log (SyncFailed GhlShape)) listed)"
    by simp
qed

text \<open>
  C4, as stated, fails: the Asset Source answers 503 and would answer the second request,
  but no second request is made and nothing is slept: the run fails at once, although
  \<open>MAX_RETRIES\<close> is 3.
\<close>

theorem C4_listing_not_retried:
  "retryable 503 \<and> MAX_RETRIES defaultConfig = 3
   \<and> run defaultConfig \<lparr> ghl = [unavailable, listing], shopify = [], trace = [] \<rparr>
      = Some (1, \<lparr> ghl = [listing], shopify = [],
                   trace = [FetchGhl, Log (SyncFailed (GhlFetchHttp 503 ''Service Unavailable''))] \<rparr>)"
  by (simp add: retryable_def run_def main_def fetchGhlFiles_def ok_def emit_def unavailable_def
      defaultConfig_def)

text \<open>
  C4, amended: retry with backoff is the policy of the calls to the Catalog Service only.
  There, an answer with a status in {429, 500, 502, 503, 504} on an attempt below
  \<open>MAX_RETRIES\<close> is followed by a sleep of \<open>baseDelay * 2 ^ (attempt - 1)\<close> and by the
  next attempt. A listing request to the Asset Source that is answered with any
  non-success status is not retried: the fetch raises after that one request, and the
  run fails with status 1.
\<close>

theorem C4_retry_scope:
  "(shopify st = res # rest \<and> retryable (status res) \<and> int attempt < MAX_RETRIES cfg \<longrightarrow>
      gql cfg q attempt st
        = gql cfg q (attempt + 1)
            (emit (Sleep (baseDelay cfg * 2 ^ (attempt - 1)))
               (emit (Log (RetryHttp (status res) attempt (MAX_RETRIES cfg)
                        (baseDelay cfg * 2 ^ (attempt - 1))))
                  (emit (FetchGql q attempt) (st\<lparr>shopify := rest\<rparr>)))))
   \<and> (ghl st = gres # grest \<and> \<not> ok (ghl_status gres) \<longrightarrow>
        fetchGhlFiles cfg st
          = (Inl (GhlFetchHttp (ghl_status gres) (ghl_text gres)),
             emit FetchGhl (st\<lparr>ghl := grest\<rparr>))
        \<and> run cfg st
          = Some (1, emit (Log (SyncFailed (GhlFetchHttp (ghl_status gres) (ghl_text gres))))
                       (emit FetchGhl (st\<lparr>ghl := grest\<rparr>))))"
proof -
  have "retryable s \<Longrightarrow> \<not> ok s" for s
    by (auto simp: retryable_def ok_def)
  then show ?thesis
    by (auto simp: gql.simps [of cfg q attempt st] Let_def fetchGhlFiles_def run_def main_def)
qed

theorem C4_retry_scope_witness:
  "gql defaultConfig (ProductMedia ''p'') 1
      \<lparr> ghl = [unavailable, listing], shopify = [busy], trace = [] \<rparr>
     = (Inl FetchRejected,
        \<lparr> ghl = [unavailable, listing], shopify = [],
          trace = [FetchGql (ProductMedia ''p'') 1, Log (RetryHttp 503 1 3 600), Sleep 600,
                   FetchGql (ProductMedia ''p'') 2] \<rparr>)
   \<and> run defaultConfig \<lparr> ghl = [unavailable, listing], shopify = [busy], trace = [] \<rparr>
      = Some (1, \<lparr> ghl = [listing], shopify = [busy],
                   trace = [FetchGhl, Log (SyncFailed (GhlFetchHttp 503 ''Service Unavailable''))] \<rparr>)"
  using
    C4_retry_scope [of "\<lparr> ghl = [unavailable, listing], shopify = [busy], trace = [] \<rparr>" busy "[]" 1
       defaultConfig "ProductMedia ''p''" unavailable "[listing]"]
  by (simp add: retryable_def ok_def emit_def busy_def unavailable_def defaultConfig_def gql.simps)

subsection \<open>The diff against the existing media\<close>

lemma existingAltsOf_nonempty: "[] \<notin> existingAltsOf edges"
  by (simp add: existingAltsOf_def)

text \<open>
  C10: the set that \<open>getExistingMediaAlts\<close> returns never holds the empty string, so a
  media input whose \<open>alt\<close> trims to the empty string is always in the to-attach subset.
\<close>

theorem C10_empty_alt_attached:
  "getExistingMediaAlts cfg productId st = (Inr existingAlts, st') \<Longrightarrow>
     [] \<notin> existingAlts
     \<and> (\<forall>m \<in> set allMedias. trim (alt m) = [] \<longrightarrow> m \<in> set (diffMedias existingAlts allMedias))"
  by (auto simp: getExistingMediaAlts_def diffMedias_def existingAltsOf_nonempty
      split: prod.splits sum.splits option.splits)

theorem C10_empty_alt_attached_witness:
  "getExistingMediaAlts defaultConfig ''gid://shopify/Product/1''
         \<lparr> ghl = [], shopify = [altsResponse], trace = [] \<rparr>
     = (Inr {''CS1_front.jpg''},
        \<lparr> ghl = [], shopify = [],
          trace = [FetchGql (ProductMedia ''gid://shopify/Product/1'') 1] \<rparr>)
   \<and> \<lparr> alt = '''', mediaContentType = IMAGE, originalSource = Str ''https://cdn.example/a'' \<rparr>
       \<in> set (diffMedias {''CS1_front.jpg''}
            [\<lparr> alt = ''CS1_front.jpg'', mediaContentType = IMAGE,
               originalSource = Str ''https://cdn.example/b'' \<rparr>,
             \<lparr> alt = '''', mediaContentType = IMAGE,
               originalSource = Str ''https://cdn.example/a'' \<rparr>])"
proof -
  have e: "getExistingMediaAlts defaultConfig ''gid://shopify/Product/1''
         \<lparr> ghl = [], shopify = [altsResponse], trace = [] \<rparr>
     = (Inr {''CS1_front.jpg''},
        \<lparr> ghl = [], shopify = [],
          trace = [FetchGql (ProductMedia ''gid://shopify/Product/1'') 1] \<rparr>)"
    by (simp add: getExistingMediaAlts_def gql.simps altsResponse_def answer_def noData_def
        ok_def emit_def existingAltsOf_def string_defs)
  from C10_empty_alt_attached [OF e,
      of "[\<lparr> alt = ''CS1_front.jpg'', mediaContentType = IMAGE,
             originalSource = Str ''https://cdn.example/b'' \<rparr>,
           \<lparr> alt = '''', mediaContentType = IMAGE,
             originalSource = Str ''https://cdn.example/a'' \<rparr>]"] e
  show ?thesis by (simp add: string_defs)
qed

subsection \<open>What the operations add to the trace\<close>

lemma quiet_iff:
  "quiet q k e
     = ((\<exists>j. k < j \<and> e = FetchGql q j) \<or> (\<exists>w. e = Sleep w) \<or> (\<exists>l. e = Log l))"
  by (cases e) auto

lemma gql_trace:
  "gql cfg q k st = (r, st') \<Longrightarrow>
     \<exists>evs. trace st' = trace st @ FetchGql q k # evs \<and> ghl st' = ghl st
        \<and> (\<forall>e \<in> set evs. quiet q k e)"
proof (induction cfg q k st arbitrary: r st' rule: gql.induct)
  case (1 cfg q attempt st)
  show ?case
  proof (cases "shopify st")
    case Nil
    with "1.prems" show ?thesis by (auto simp: gql.simps [of cfg q attempt st] emit_def)
  next
    case (Cons res rest)
    define st1 where "st1 = emit (FetchGql q attempt) (st\<lparr>shopify := rest\<rparr>)"
    define wait where "wait = baseDelay cfg * 2 ^ (attempt - 1)"
    have step: "\<exists>evs. trace st' = trace st @ FetchGql q attempt # evs \<and> ghl st' = ghl st
        \<and> (\<forall>e \<in> set evs. quiet q attempt e)"
      if "gql cfg q (attempt + 1) (emit (Sleep wait) (emit (Log l) st1)) = (r, st')"
        and ih: "\<And>r st'. gql cfg q (attempt + 1) (emit (Sleep wait) (emit (Log l) st1)) = (r, st') \<Longrightarrow>
          \<exists>evs. trace st' = trace (emit (Sleep wait) (emit (Log l) st1)) @ FetchGql q (attempt + 1) # evs
             \<and> ghl st' = ghl (emit (Sleep wait) (emit (Log l) st1))
             \<and> (\<forall>e \<in> set evs. quiet q (attempt + 1) e)" for l
    proof -
      from ih [OF that(1)] obtain evs where
        "trace st' = trace (emit (Sleep wait) (emit (Log l) st1)) @ FetchGql q (attempt + 1) # evs"
        "ghl st' = ghl (emit (Sleep wait) (emit (Log l) st1))"
        "\<forall>e \<in> set evs. quiet q (attempt + 1) e" by blast
      then have "trace st' = trace st @ FetchGql q attempt # ([Log l, Sleep wait, FetchGql q (attempt + 1)] @ evs)"
        "ghl st' = ghl st"
        "\<forall>e \<in> set ([Log l, Sleep wait, FetchGql q (attempt + 1)] @ evs). quiet q attempt e"
        by (auto simp: emit_def st1_def quiet_iff)
      then show ?thesis by blast
    qed
    show ?thesis
    proof (cases "\<not> ok (status res)")
      case True
      show ?thesis
      proof (cases "retryable (status res) \<and> int attempt < MAX_RETRIES cfg")
        case r: True
        from "1.prems" Cons True r
        have "gql cfg q (attempt + 1) (emit (Sleep wait) (emit (Log (RetryHttp (status res) attempt (MAX_RETRIES cfg) wait)) st1)) = (r, st')"
          by (simp add: gql.simps [of cfg q attempt st] Let_def st1_def wait_def)
        then show ?thesis
          using "1.IH"(1) [OF Cons st1_def True r wait_def] by (rule step)
      next
        case False
        with "1.prems" Cons True show ?thesis
          by (auto simp: gql.simps [of cfg q attempt st] Let_def emit_def)
      qed
    next
      case False
      show ?thesis
      proof (cases "body_json res")
        case NotJson
        with "1.prems" Cons False show ?thesis
          by (auto simp: gql.simps [of cfg q attempt st] Let_def emit_def)
      next
        case (Envelope errs d)
        show ?thesis
        proof (cases errs)
          case None
          with "1.prems" Cons False Envelope show ?thesis
            by (auto simp: gql.simps [of cfg q attempt st] Let_def emit_def)
        next
          case (Some errors)
          show ?thesis
          proof (cases "int attempt < MAX_RETRIES cfg")
            case r: True
            from "1.prems" Cons False Envelope Some r
            have "gql cfg q (attempt + 1) (emit (Sleep wait) (emit (Log (RetryErrors attempt (MAX_RETRIES cfg) wait)) st1)) = (r, st')"
              by (simp add: gql.simps [of cfg q attempt st] Let_def st1_def wait_def)
            then show ?thesis
              using "1.IH"(2) [OF Cons st1_def False Envelope Some r wait_def] by (rule step)
          next
            case r: False
            with "1.prems" Cons False Envelope Some show ?thesis
              by (auto simp: gql.simps [of cfg q attempt st] Let_def emit_def)
          qed
        qed
      qed
    qed
  qed
qed


lemma sentBatches_append [simp]: "sentBatches (xs @ ys) = sentBatches xs @ sentBatches ys"
  by (simp add: sentBatches_def List.map_filter_def)

lemma attachCalls_append [simp]: "attachCalls (xs @ ys) = attachCalls xs @ attachCalls ys"
  by (simp add: attachCalls_def List.map_filter_def)

lemma sentBatches_Nil [simp]: "sentBatches [] = []"
  by (simp add: sentBatches_def List.map_filter_def)

lemma attachCalls_Nil [simp]: "attachCalls [] = []"
  by (simp add: attachCalls_def List.map_filter_def)

lemma sentBatches_Cons: "sentBatches (e # es) = (case attachOf e of None \<Rightarrow> [] | Some b \<Rightarrow> [b]) @ sentBatches es"
  by (simp add: sentBatches_def List.map_filter_def split: option.splits)

lemma attachCalls_Cons: "attachCalls (e # es) = (case attachCallOf e of None \<Rightarrow> [] | Some b \<Rightarrow> [b]) @ attachCalls es"
  by (simp add: attachCalls_def List.map_filter_def split: option.splits)

lemma sentBatches_Log [simp]: "sentBatches (Log l # es) = sentBatches es"
  by (simp add: sentBatches_Cons)

lemma attachCalls_Log [simp]: "attachCalls (Log l # es) = attachCalls es"
  by (simp add: attachCalls_Cons)

lemma quiet_attachCalls: "\<forall>e \<in> set evs. quiet q 1 e \<Longrightarrow> attachCalls evs = []"
proof (induction evs)
  case Nil
  then show ?case by simp
next
  case (Cons e evs)
  then have "attachCallOf e = None"
    by (cases e rule: attachCallOf.cases) (auto simp: quiet_iff)
  with Cons show ?case by (simp add: attachCalls_Cons)
qed

lemma quiet_sentBatches:
  "\<forall>e \<in> set evs. quiet q k e \<Longrightarrow> set (sentBatches evs) \<subseteq> set (sentBatches [FetchGql q k])"
proof (induction evs)
  case Nil
  then show ?case by simp
next
  case (Cons e evs)
  then have "quiet q k e" by simp
  then have "set (case attachOf e of None \<Rightarrow> [] | Some b \<Rightarrow> [b]) \<subseteq> set (sentBatches [FetchGql q k])"
    by (cases q; cases e rule: attachOf.cases) (auto simp: quiet_iff sentBatches_Cons)
  with Cons show ?case by (simp add: sentBatches_Cons [of e evs])
qed

text \<open>What one call of \<open>gql\<close> adds to the trace, as the observers see it.\<close>

lemma gql_observed:
  assumes "gql cfg q 1 st = (r, st')"
  shows "\<exists>evs. trace st' = trace st @ evs \<and> ghl st' = ghl st
           \<and> set (sentBatches evs) \<subseteq> set (sentBatches [FetchGql q 1])
           \<and> attachCalls evs = attachCalls [FetchGql q 1]"
proof -
  from gql_trace [OF assms] obtain evs where
    t: "trace st' = trace st @ FetchGql q 1 # evs" and g: "ghl st' = ghl st"
    and q: "\<forall>e \<in> set evs. quiet q 1 e" by blast
  have "set (sentBatches (FetchGql q 1 # evs)) \<subseteq> set (sentBatches [FetchGql q 1])"
    using quiet_sentBatches [OF q] by (simp add: sentBatches_Cons [of _ evs] sentBatches_Cons [of _ "[]"])
  moreover have "attachCalls (FetchGql q 1 # evs) = attachCalls [FetchGql q 1]"
    using quiet_attachCalls [OF q] by (simp add: attachCalls_Cons [of _ evs] attachCalls_Cons [of _ "[]"])
  ultimately show ?thesis using t g by blast
qed

lemma findBySku_observed:
  assumes "findBySku cfg code st = (r, st')"
  shows "\<exists>evs. trace st' = trace st @ evs \<and> ghl st' = ghl st \<and> sentBatches evs = []"
proof (cases "code = []")
  case True
  with assms show ?thesis by (simp add: findBySku_def)
next
  case False
  obtain r1 st1 where g: "gql cfg (ProductsBySku code) 1 st = (r1, st1)" by force
  from gql_observed [OF g] obtain evs where
    "trace st1 = trace st @ evs" "ghl st1 = ghl st" "sentBatches evs = []"
    by (auto simp: sentBatches_Cons)
  moreover from assms False g have "st' = st1"
    by (auto simp: findBySku_def split: sum.splits option.splits if_splits)
  ultimately show ?thesis by blast
qed

lemma findProductIdByHandleOrSku_observed:
  assumes "findProductIdByHandleOrSku cfg handle code st = (r, st')"
  shows "\<exists>evs. trace st' = trace st @ evs \<and> ghl st' = ghl st \<and> sentBatches evs = []"
proof (cases "handle = []")
  case True
  with assms findBySku_observed show ?thesis
    by (simp add: findProductIdByHandleOrSku_def)
next
  case False
  obtain r1 st1 where g: "gql cfg (ProductByHandle handle) 1 st = (r1, st1)" by force
  from gql_observed [OF g] obtain evs where
    e: "trace st1 = trace st @ evs" "ghl st1 = ghl st" "sentBatches evs = []"
    by (auto simp: sentBatches_Cons)
  from assms False g consider "st' = st1" | "findBySku cfg code st1 = (r, st')"
    by (auto simp: findProductIdByHandleOrSku_def split: sum.splits option.splits if_splits)
  then show ?thesis
  proof cases
    case 1
    with e show ?thesis by blast
  next
    case 2
    from findBySku_observed [OF 2] obtain evs' where
      "trace st' = trace st1 @ evs'" "ghl st' = ghl st1" "sentBatches evs' = []" by blast
    with e have "trace st' = trace st @ (evs @ evs')" "ghl st' = ghl st" "sentBatches (evs @ evs') = []"
      by simp_all
    then show ?thesis by blast
  qed
qed

lemma getExistingMediaAlts_observed:
  assumes "getExistingMediaAlts cfg productId st = (r, st')"
  shows "\<exists>evs. trace st' = trace st @ evs \<and> ghl st' = ghl st \<and> sentBatches evs = []"
proof -
  obtain r1 st1 where g: "gql cfg (ProductMedia productId) 1 st = (r1, st1)" by force
  from gql_observed [OF g] obtain evs where
    "trace st1 = trace st @ evs" "ghl st1 = ghl st" "sentBatches evs = []"
    by (auto simp: sentBatches_Cons)
  moreover from assms g have "st' = st1"
    by (auto simp: getExistingMediaAlts_def split: sum.splits option.splits)
  ultimately show ?thesis by blast
qed

lemma attachMediaBatch_observed:
  assumes "attachMediaBatch cfg productId medias st = (r, st')"
  shows "\<exists>evs. trace st' = trace st @ evs \<and> ghl st' = ghl st
           \<and> set (sentBatches evs) \<subseteq> {(productId, medias)}
           \<and> attachCalls evs = (if medias = [] then [] else [(productId, medias)])"
proof (cases "medias = []")
  case True
  with assms show ?thesis by (simp add: attachMediaBatch_def)
next
  case False
  obtain r1 st1 where g: "gql cfg (ProductCreateMedia productId medias) 1 st = (r1, st1)" by force
  from gql_observed [OF g] obtain evs where
    "trace st1 = trace st @ evs" "ghl st1 = ghl st"
    "set (sentBatches evs) \<subseteq> {(productId, medias)}" "attachCalls evs = [(productId, medias)]"
    by (auto simp: sentBatches_Cons attachCalls_Cons)
  moreover from assms False g have "st' = st1"
    by (auto simp: attachMediaBatch_def split: sum.splits option.splits if_splits)
  ultimately show ?thesis using False by auto
qed

lemma chunksOf_Nil [simp]: "chunksOf n [] = []"
  by (simp add: chunksOf.simps)

lemma chunksOf_step: "0 < n \<Longrightarrow> xs \<noteq> [] \<Longrightarrow> chunksOf n xs = take n xs # chunksOf n (drop n xs)"
  by (subst chunksOf.simps) simp

lemma concat_chunksOf: "0 < n \<Longrightarrow> concat (chunksOf n xs) = xs"
proof (induction n xs rule: chunksOf.induct)
  case (1 n xs)
  then show ?case by (cases "xs = []") (simp_all add: chunksOf_step)
qed

lemma length_chunksOf: "0 < n \<Longrightarrow> length (chunksOf n xs) = (length xs + n - 1) div n"
proof (induction n xs rule: chunksOf.induct)
  case (1 n xs)
  show ?case
  proof (cases "xs = []")
    case True
    with "1.prems" show ?thesis by simp
  next
    case False
    with 1 have l: "length (chunksOf n xs) = Suc ((length xs - n + n - 1) div n)"
      by (simp add: chunksOf_step)
    show ?thesis
    proof (cases "n \<le> length xs")
      case True
      then have "(length xs + n - 1) div n = ((length xs - 1) + n) div n"
        using False by (simp add: Suc_leI)
      also have "\<dots> = Suc ((length xs - 1) div n)"
        using "1.prems" div_add_self2 [of n "length xs - 1"] by simp
      finally show ?thesis using l True by simp
    next
      case b: False
      from False obtain m where "length xs = Suc m" by (cases xs) auto
      with b "1.prems" have "(length xs + n - 1) div n = 1"
        by (intro div_nat_eqI) simp_all
      moreover from b "1.prems" have "(length xs - n + n - 1) div n = 0" by simp
      ultimately show ?thesis using l by simp
    qed
  qed
qed

lemma chunksOf_sizes: "b \<in> set (chunksOf n xs) \<Longrightarrow> 0 < length b \<and> length b \<le> n"
proof (induction n xs rule: chunksOf.induct)
  case (1 n xs)
  then show ?case
    by (cases "n = 0 \<or> xs = []") (auto simp: chunksOf.simps [of n xs])
qed

lemma chunksOf_full: "Suc j < length (chunksOf n xs) \<Longrightarrow> length (chunksOf n xs ! j) = n"
proof (induction n xs arbitrary: j rule: chunksOf.induct)
  case (1 n xs)
  show ?case
  proof (cases "n = 0 \<or> xs = []")
    case True
    with "1.prems" show ?thesis by (simp add: chunksOf.simps [of n xs])
  next
    case False
    then have c: "chunksOf n xs = take n xs # chunksOf n (drop n xs)"
      by (simp add: chunksOf_step)
    show ?thesis
    proof (cases j)
      case 0
      with "1.prems" c have "chunksOf n (drop n xs) \<noteq> []" by auto
      then have "drop n xs \<noteq> []" by auto
      then have "n \<le> length xs" by simp
      with 0 c show ?thesis by simp
    next
      case (Suc k)
      with "1.prems" c have "Suc k < length (chunksOf n (drop n xs))" by simp
      from "1.IH" [OF False this] Suc c show ?thesis by simp
    qed
  qed
qed

text \<open>The ceiling of a quotient of naturals, in integer arithmetic.\<close>

lemma ceil_div_int:
  fixes a b :: int
  assumes "0 < b" "0 \<le> a"
  shows "(a + b - 1) div b = - (- a div b)"
proof -
  have "(a + b - 1) div b = (if a mod b = 0 then a div b else a div b + 1)"
  proof (cases "a mod b = 0")
    case True
    then obtain q where q: "a = b * q" by auto
    have "(b * q + (b - 1)) div b = q"
      using assms by (simp add: div_pos_pos_trivial)
    with True q assms show ?thesis by (simp add: algebra_simps)
  next
    case False
    define r where "r = a mod b"
    define q where "q = a div b"
    have a: "a = b * q + r" by (simp add: q_def r_def)
    from assms have "0 \<le> a mod b" "a mod b < b" by simp_all
    with False have r: "0 < r" "r < b" by (simp_all add: r_def)
    have e: "a + b - 1 = b * (q + 1) + (r - 1)" by (simp add: a algebra_simps)
    have d: "(b * (q + 1) + (r - 1)) div b = q + 1"
      using r assms by (simp add: div_pos_pos_trivial)
    have "(a + b - 1) div b = q + 1" unfolding e by (rule d)
    with False show ?thesis by (simp only: q_def if_False)
  qed
  also have "\<dots> = - (- a div b)"
    using assms by (simp add: zdiv_zminus1_eq_if)
  finally show ?thesis .
qed

lemma ceil_div_nat:
  assumes "0 < n"
  shows "int ((m + n - 1) div n) = \<lceil>real m / real n\<rceil>"
proof -
  have "int ((m + n - 1) div n) = (int m + int n - 1) div int n"
    using assms by (simp add: zdiv_int of_nat_diff)
  also have "\<dots> = - (- int m div int n)"
    using assms by (intro ceil_div_int) simp_all
  also have "\<dots> = \<lceil>real_of_int (int m) / real_of_int (int n)\<rceil>"
    by (simp only: ceiling_divide_eq_div)
  finally show ?thesis by simp
qed

lemma js_slice_subset: "set (js_slice xs s e) \<subseteq> set xs"
  by (auto simp: js_slice_def Let_def dest: in_set_takeD in_set_dropD)

lemma js_slice_chunk:
  assumes "0 \<le> i" "i < int (length xs)" "1 \<le> b"
  shows "js_slice xs i (i + b) = take (nat b) (drop (nat i) xs)"
proof (cases "i + b \<le> int (length xs)")
  case True
  with assms have "nat (i + b - i) = nat b" by simp
  with assms True show ?thesis by (simp add: js_slice_def Let_def min_def)
next
  case False
  with assms have "length (drop (nat i) xs) \<le> nat b" "length (drop (nat i) xs) \<le> nat (int (length xs) - i)"
    by auto
  with assms False show ?thesis by (simp add: js_slice_def Let_def min_def)
qed

lemma attachLoop_sent:
  assumes "attachLoop cfg productId label toAttach i attachedTotal st = Some y"
  shows "\<exists>evs. trace (snd y) = trace st @ evs \<and> ghl (snd y) = ghl st
        \<and> (\<forall>b \<in> set (sentBatches evs). fst b = productId \<and> set (snd b) \<subseteq> set toAttach)"
proof (rule attachLoop.raw_induct
    [where P = "\<lambda>cfg productId label toAttach i attachedTotal st y.
       \<exists>evs. trace (snd y) = trace st @ evs \<and> ghl (snd y) = ghl st
        \<and> (\<forall>b \<in> set (sentBatches evs). fst b = productId \<and> set (snd b) \<subseteq> set toAttach)",
     OF _ assms])
  fix loop cfg productId label toAttach i attachedTotal st y
  assume IH: "\<And>cfg productId label toAttach i attachedTotal st y.
      loop cfg productId label toAttach i attachedTotal st = Some y \<Longrightarrow>
       \<exists>evs. trace (snd y) = trace st @ evs \<and> ghl (snd y) = ghl st
        \<and> (\<forall>b \<in> set (sentBatches evs). fst b = productId \<and> set (snd b) \<subseteq> set toAttach)"
    and body: "(if i < int (length toAttach) then
        (let chunk = js_slice toAttach i (i + MEDIA_BATCH_SIZE cfg) in
         case attachMediaBatch cfg productId chunk st of
           (Inl e, st1) \<Rightarrow> Some (Inl e, st1)
         | (Inr u, st1) \<Rightarrow>
             loop cfg productId label toAttach (i + MEDIA_BATCH_SIZE cfg)
               (attachedTotal + length chunk)
               (emit (Log (Attached (length chunk) (length toAttach) label)) st1))
      else Some (Inr attachedTotal, st)) = Some y"
  show "\<exists>evs. trace (snd y) = trace st @ evs \<and> ghl (snd y) = ghl st
        \<and> (\<forall>b \<in> set (sentBatches evs). fst b = productId \<and> set (snd b) \<subseteq> set toAttach)"
  proof (cases "i < int (length toAttach)")
    case False
    with body have "y = (Inr attachedTotal, st)" by auto
    then show ?thesis by simp
  next
    case True
    define chunk where "chunk = js_slice toAttach i (i + MEDIA_BATCH_SIZE cfg)"
    obtain r1 st1 where a: "attachMediaBatch cfg productId chunk st = (r1, st1)" by force
    from attachMediaBatch_observed [OF a] obtain evs1 where
      e1: "trace st1 = trace st @ evs1" "ghl st1 = ghl st"
          "set (sentBatches evs1) \<subseteq> {(productId, chunk)}" by blast
    have "set chunk \<subseteq> set toAttach" by (simp add: chunk_def js_slice_subset)
    with e1(3) have sub:
      "\<forall>b \<in> set (sentBatches evs1). fst b = productId \<and> set (snd b) \<subseteq> set toAttach"
      by fastforce
    show ?thesis
    proof (cases r1)
      case (Inl e)
      with body True a have "y = (Inl e, st1)" by (simp add: chunk_def Let_def)
      with e1 sub show ?thesis by auto
    next
      case (Inr u)
      with body True a have
        "loop cfg productId label toAttach (i + MEDIA_BATCH_SIZE cfg) (attachedTotal + length chunk)
           (emit (Log (Attached (length chunk) (length toAttach) label)) st1) = Some y"
        by (simp add: chunk_def Let_def)
      from IH [OF this] obtain evs2 where
        e2: "trace (snd y) = trace (emit (Log (Attached (length chunk) (length toAttach) label)) st1) @ evs2"
            "ghl (snd y) = ghl (emit (Log (Attached (length chunk) (length toAttach) label)) st1)"
            "\<forall>b \<in> set (sentBatches evs2). fst b = productId \<and> set (snd b) \<subseteq> set toAttach" by blast
      let ?evs = "evs1 @ Log (Attached (length chunk) (length toAttach) label) # evs2"
      from e1 e2 have "trace (snd y) = trace st @ ?evs" "ghl (snd y) = ghl st"
        by (simp_all add: emit_def)
      moreover from sub e2 have
        "\<forall>b \<in> set (sentBatches ?evs). fst b = productId \<and> set (snd b) \<subseteq> set toAttach"
        by auto
      ultimately show ?thesis by blast
    qed
  qed
qed


lemma attachLoop_batches:
  assumes B: "1 \<le> MEDIA_BATCH_SIZE cfg" and i: "0 \<le> i"
  shows "\<exists>r st' evs bs.
      attachLoop cfg productId label xs i a st = Some (r, st')
      \<and> trace st' = trace st @ evs
      \<and> attachCalls evs = map (Pair productId) bs
      \<and> (\<exists>k. bs = take k (chunksOf (nat (MEDIA_BATCH_SIZE cfg)) (drop (nat i) xs)))
      \<and> (\<forall>a'. r = Inr a' \<longrightarrow>
            bs = chunksOf (nat (MEDIA_BATCH_SIZE cfg)) (drop (nat i) xs)
            \<and> a' = a + (length xs - nat i))"
  using i
proof (induction "length xs - nat i" arbitrary: i a st rule: less_induct)
  case less
  let ?B = "MEDIA_BATCH_SIZE cfg"
  show ?case
  proof (cases "i < int (length xs)")
    case False
    then have "attachLoop cfg productId label xs i a st = Some (Inr a, st)"
      by (subst attachLoop.simps) simp
    moreover from False less.prems have "drop (nat i) xs = []" "length xs - nat i = 0"
      by simp_all
    ultimately have
      "attachLoop cfg productId label xs i a st = Some (Inr a, st)
      \<and> trace st = trace st @ []
      \<and> attachCalls [] = map (Pair productId) []
      \<and> [] = take 0 (chunksOf (nat ?B) (drop (nat i) xs))
      \<and> (\<forall>a'. Inr a = (Inr a' :: error + nat) \<longrightarrow>
            [] = chunksOf (nat ?B) (drop (nat i) xs) \<and> a' = a + (length xs - nat i))"
      by simp
    then show ?thesis by blast
  next
    case True
    define chunk where "chunk = take (nat ?B) (drop (nat i) xs)"
    from True less.prems B have sl: "js_slice xs i (i + ?B) = chunk"
      by (simp add: chunk_def js_slice_chunk)
    from True less.prems have ne: "drop (nat i) xs \<noteq> []" by simp
    with B have cne: "chunk \<noteq> []" by (auto simp: chunk_def)
    from B ne have ch: "chunksOf (nat ?B) (drop (nat i) xs)
        = chunk # chunksOf (nat ?B) (drop (nat (i + ?B)) xs)"
      using less.prems by (simp add: chunksOf_step chunk_def nat_add_distrib add.commute)
    obtain r1 st1 where am: "attachMediaBatch cfg productId chunk st = (r1, st1)" by force
    from attachMediaBatch_observed [OF am] cne obtain evs1 where
      e1: "trace st1 = trace st @ evs1" "attachCalls evs1 = [(productId, chunk)]" by auto
    show ?thesis
    proof (cases r1)
      case (Inl e)
      with True am sl have "attachLoop cfg productId label xs i a st = Some (Inl e, st1)"
        by (subst attachLoop.simps) (simp add: Let_def)
      with e1 ch have
        "attachLoop cfg productId label xs i a st = Some (Inl e, st1)
        \<and> trace st1 = trace st @ evs1
        \<and> attachCalls evs1 = map (Pair productId) [chunk]
        \<and> [chunk] = take 1 (chunksOf (nat ?B) (drop (nat i) xs))
        \<and> (\<forall>a'. (Inl e :: error + nat) = Inr a' \<longrightarrow>
              [chunk] = chunksOf (nat ?B) (drop (nat i) xs) \<and> a' = a + (length xs - nat i))"
        by simp
      then show ?thesis by blast
    next
      case (Inr u)
      let ?st2 = "emit (Log (Attached (length chunk) (length xs) label)) st1"
      from Inr True am sl have step: "attachLoop cfg productId label xs i a st
          = attachLoop cfg productId label xs (i + ?B) (a + length chunk) ?st2"
        by (subst attachLoop.simps) (simp add: Let_def)
      from True less.prems B have "length xs - nat (i + ?B) < length xs - nat i" "0 \<le> i + ?B"
        by auto
      from less.hyps [OF this, of "a + length chunk" ?st2] obtain r st' evs2 bs k where
        r: "attachLoop cfg productId label xs (i + ?B) (a + length chunk) ?st2 = Some (r, st')"
        and t: "trace st' = trace ?st2 @ evs2"
        and c: "attachCalls evs2 = map (Pair productId) bs"
        and p: "bs = take k (chunksOf (nat ?B) (drop (nat (i + ?B)) xs))"
        and f: "\<forall>a'. r = Inr a' \<longrightarrow> bs = chunksOf (nat ?B) (drop (nat (i + ?B)) xs)
                  \<and> a' = a + length chunk + (length xs - nat (i + ?B))"
        by blast
      let ?evs = "evs1 @ Log (Attached (length chunk) (length xs) label) # evs2"
      have len: "length chunk + (length xs - nat (i + ?B)) = length xs - nat i"
        using True less.prems B by (auto simp: chunk_def min_def nat_add_distrib)
      from p have p': "\<exists>k. chunk # bs = take k (chunksOf (nat ?B) (drop (nat i) xs))"
        by (intro exI [of _ "Suc k"]) (simp add: ch)
      have g1: "attachLoop cfg productId label xs i a st = Some (r, st')"
        using step r by simp
      have g2: "trace st' = trace st @ ?evs"
        using t e1(1) by (simp add: emit_def)
      have g3: "attachCalls ?evs = map (Pair productId) (chunk # bs)"
        using e1(2) c by simp
      have g4: "\<forall>a'. r = Inr a' \<longrightarrow>
              chunk # bs = chunksOf (nat ?B) (drop (nat i) xs) \<and> a' = a + (length xs - nat i)"
      proof (intro allI impI)
        fix a'
        assume "r = Inr a'"
        with f have "bs = chunksOf (nat ?B) (drop (nat (i + ?B)) xs)"
          and "a' = a + length chunk + (length xs - nat (i + ?B))"
          by blast+
        then show "chunk # bs = chunksOf (nat ?B) (drop (nat i) xs) \<and> a' = a + (length xs - nat i)"
          using ch len by (simp only: add.assoc)
      qed
      from g1 g2 g3 p' g4 show ?thesis by blast
    qed
  qed
qed

subsection \<open>The per-group steps\<close>

text \<open>What the body of the group loop does once the product and its alts are known.\<close>

lemma processGroup_resolved:
  assumes f: "findProductIdByHandleOrSku cfg (deriveHandleFromCode cfg code) code st
                = (Inr (Some productId), st1)"
    and g: "getExistingMediaAlts cfg productId st1 = (Inr existingAlts, st2)"
  shows "processGroup cfg (code, allMedias) (attachedTotal, skippedTotal) st =
     (let handle = deriveHandleFromCode cfg code;
          toAttach = diffMedias existingAlts allMedias;
          skippedTotal' = skippedTotal + (length allMedias - length toAttach)
      in if toAttach = [] then
           Some (Inr (attachedTotal, skippedTotal'),
                 emit (Log (NothingNew (orElse handle code))) st2)
         else if DRY_RUN cfg then
           Some (Inr (attachedTotal, skippedTotal'),
                 emit (Log (DryRunWouldAttach (length toAttach) (orElse handle code))) st2)
         else
           (case attachLoop cfg productId (orElse handle code) toAttach 0 attachedTotal st2 of
              None \<Rightarrow> None
            | Some (Inl e, st3) \<Rightarrow> Some (Inl e, st3)
            | Some (Inr attachedTotal', st3) \<Rightarrow> Some (Inr (attachedTotal', skippedTotal'), st3)))"
  by (simp add: processGroup_def f g Let_def)

lemma length_diffMedias:
  "length allMedias - length (diffMedias existingAlts allMedias)
     = length (filter (\<lambda>m. trim (alt m) \<in> existingAlts) allMedias)"
  using sum_length_filter_compl [of "\<lambda>m. trim (alt m) \<in> existingAlts" allMedias]
  by (simp add: diffMedias_def)

text \<open>
  C1 (attach-idempotence): while a group whose product is resolved is processed, every
  create-media request that is sent (any attempt of any batch) is for that product and
  carries only media inputs of the group whose trimmed \<open>alt\<close> is not in the set of
  existing alt-texts fetched for the product; and when the group is done, the skipped
  total has grown by the number of media inputs whose trimmed \<open>alt\<close> is in that set.
\<close>

theorem C1_attach_idempotence:
  assumes f: "findProductIdByHandleOrSku cfg (deriveHandleFromCode cfg code) code st
                = (Inr (Some productId), st1)"
    and g: "getExistingMediaAlts cfg productId st1 = (Inr existingAlts, st2)"
    and p: "processGroup cfg (code, allMedias) (attachedTotal, skippedTotal) st = Some (r, st')"
  shows "\<exists>evs. trace st' = trace st @ evs
      \<and> (\<forall>b \<in> set (sentBatches evs).
            fst b = productId
            \<and> (\<forall>m \<in> set (snd b). m \<in> set allMedias \<and> trim (alt m) \<notin> existingAlts))
      \<and> (\<forall>a' s'. r = Inr (a', s') \<longrightarrow>
            s' = skippedTotal + length (filter (\<lambda>m. trim (alt m) \<in> existingAlts) allMedias))"
proof -
  define toAttach where "toAttach = diffMedias existingAlts allMedias"
  define label where "label = orElse (deriveHandleFromCode cfg code) code"
  define skipped where "skipped = skippedTotal + (length allMedias - length toAttach)"
  have sk: "skipped = skippedTotal + length (filter (\<lambda>m. trim (alt m) \<in> existingAlts) allMedias)"
    by (simp add: skipped_def toAttach_def length_diffMedias)
  have sub: "set toAttach \<subseteq> {m \<in> set allMedias. trim (alt m) \<notin> existingAlts}"
    by (auto simp: toAttach_def diffMedias_def)
  from findProductIdByHandleOrSku_observed [OF f] obtain evs1 where
    e1: "trace st1 = trace st @ evs1" "sentBatches evs1 = []" by blast
  from getExistingMediaAlts_observed [OF g] obtain evs2 where
    e2: "trace st2 = trace st1 @ evs2" "sentBatches evs2 = []" by blast
  note pg = p [unfolded processGroup_resolved [OF f g], folded toAttach_def,
      unfolded Let_def, folded toAttach_def label_def, folded skipped_def]
  consider (quiet) l where "r = Inr (attachedTotal, skipped)" "st' = emit (Log l) st2"
    | (loop) r3 where "\<not> DRY_RUN cfg"
        "attachLoop cfg productId label toAttach 0 attachedTotal st2 = Some (r3, st')"
        "\<forall>a' s'. r = Inr (a', s') \<longrightarrow> s' = skipped"
    using pg by (auto split: if_splits option.splits sum.splits prod.splits)
  then show ?thesis
  proof cases
    case quiet
    with e1 e2 have "trace st' = trace st @ (evs1 @ evs2 @ [Log l])"
      "sentBatches (evs1 @ evs2 @ [Log l]) = []" by (simp_all add: emit_def)
    with quiet(1) sk show ?thesis by (intro exI [of _ "evs1 @ evs2 @ [Log l]"]) simp
  next
    case loop
    from attachLoop_sent [OF loop(2)] obtain evs3 where
      e3: "trace st' = trace st2 @ evs3"
        "\<forall>b \<in> set (sentBatches evs3). fst b = productId \<and> set (snd b) \<subseteq> set toAttach"
      by auto
    from e1 e2 e3 have t: "trace st' = trace st @ (evs1 @ evs2 @ evs3)"
      and s: "sentBatches (evs1 @ evs2 @ evs3) = sentBatches evs3" by simp_all
    from e3(2) sub have
      "\<forall>b \<in> set (sentBatches evs3).
            fst b = productId
            \<and> (\<forall>m \<in> set (snd b). m \<in> set allMedias \<and> trim (alt m) \<notin> existingAlts)"
      by blast
    with t s loop(3) sk show ?thesis by (intro exI [of _ "evs1 @ evs2 @ evs3"]) simp
  qed
qed

text \<open>
  C5 (batch slicing): with a batch size \<open>B\<close> of at least 1 and outside simulate-only
  mode, processing a group with a resolved product returns, and the create-media calls
  it issues are consecutive slices of the diff result, in its order: each is non-empty
  and of size at most \<open>B\<close>, all but the last issued have size exactly \<open>B\<close>. When no
  call fails, the slices are the whole diff result, their number is
  \<open>(M + B - 1) div B\<close>, that is \<open>ceil (M / B)\<close>, and the attached total grows by \<open>M\<close>.
\<close>

theorem C5_batch_slicing:
  assumes B: "1 \<le> MEDIA_BATCH_SIZE cfg" and nd: "\<not> DRY_RUN cfg"
    and f: "findProductIdByHandleOrSku cfg (deriveHandleFromCode cfg code) code st
                = (Inr (Some productId), st1)"
    and g: "getExistingMediaAlts cfg productId st1 = (Inr existingAlts, st2)"
  shows "\<exists>r st' evs bs.
      processGroup cfg (code, allMedias) (attachedTotal, skippedTotal) st = Some (r, st')
      \<and> trace st' = trace st2 @ evs
      \<and> attachCalls evs = map (Pair productId) bs
      \<and> (\<forall>b \<in> set bs. 0 < length b \<and> length b \<le> nat (MEDIA_BATCH_SIZE cfg))
      \<and> (\<forall>j. Suc j < length bs \<longrightarrow> length (bs ! j) = nat (MEDIA_BATCH_SIZE cfg))
      \<and> (\<exists>rest. concat bs @ rest = diffMedias existingAlts allMedias)
      \<and> (\<forall>a' s'. r = Inr (a', s') \<longrightarrow>
            concat bs = diffMedias existingAlts allMedias
            \<and> length bs
                = (length (diffMedias existingAlts allMedias) + nat (MEDIA_BATCH_SIZE cfg) - 1)
                    div nat (MEDIA_BATCH_SIZE cfg)
            \<and> int (length bs)
                = \<lceil>real (length (diffMedias existingAlts allMedias))
                     / real_of_int (MEDIA_BATCH_SIZE cfg)\<rceil>
            \<and> a' = attachedTotal + length (diffMedias existingAlts allMedias))"
proof -
  define toAttach where "toAttach = diffMedias existingAlts allMedias"
  define label where "label = orElse (deriveHandleFromCode cfg code) code"
  define skipped where "skipped = skippedTotal + (length allMedias - length toAttach)"
  define n where "n = nat (MEDIA_BATCH_SIZE cfg)"
  from B have n: "0 < n" by (simp add: n_def)
  note pg = processGroup_resolved [OF f g, of allMedias attachedTotal skippedTotal,
      folded toAttach_def, unfolded Let_def, folded toAttach_def label_def, folded skipped_def]
  show ?thesis
  proof (cases "toAttach = []")
    case True
    with pg have "processGroup cfg (code, allMedias) (attachedTotal, skippedTotal) st
        = Some (Inr (attachedTotal, skipped), emit (Log (NothingNew label)) st2)" by simp
    moreover have "trace (emit (Log (NothingNew label)) st2) = trace st2 @ [Log (NothingNew label)]"
      by (simp add: emit_def)
    moreover have "attachCalls [Log (NothingNew label)] = map (Pair productId) []" by simp
    ultimately show ?thesis
      unfolding toAttach_def [symmetric] n_def [symmetric] using True n
      by (intro exI [of _ "Inr (attachedTotal, skipped)"] exI [of _ "emit (Log (NothingNew label)) st2"]
          exI [of _ "[Log (NothingNew label)]"] exI [of _ "[]"]) simp
  next
    case False
    have "\<exists>r st' evs bs.
        attachLoop cfg productId label toAttach 0 attachedTotal st2 = Some (r, st')
        \<and> trace st' = trace st2 @ evs
        \<and> attachCalls evs = map (Pair productId) bs
        \<and> (\<exists>k. bs = take k (chunksOf n toAttach))
        \<and> (\<forall>a'. r = Inr a' \<longrightarrow>
              bs = chunksOf n toAttach \<and> a' = attachedTotal + length toAttach)"
      using attachLoop_batches [OF B, of 0 productId label toAttach attachedTotal st2]
      by (simp add: n_def)
    then obtain r3 st3 evs bs k where
      l: "attachLoop cfg productId label toAttach 0 attachedTotal st2 = Some (r3, st3)"
      and t: "trace st3 = trace st2 @ evs"
      and c: "attachCalls evs = map (Pair productId) bs"
      and p: "bs = take k (chunksOf n toAttach)"
      and s: "\<forall>a'. r3 = Inr a' \<longrightarrow> bs = chunksOf n toAttach \<and> a' = attachedTotal + length toAttach"
      by blast
    define r where "r = (case r3 of Inl e \<Rightarrow> Inl e | Inr a' \<Rightarrow> Inr (a', skipped))"
    from pg False nd l have r: "processGroup cfg (code, allMedias) (attachedTotal, skippedTotal) st
        = Some (r, st3)"
      by (simp add: r_def split: sum.splits)
    have sizes: "\<forall>b \<in> set bs. 0 < length b \<and> length b \<le> n"
    proof
      fix b assume "b \<in> set bs"
      with p have "b \<in> set (chunksOf n toAttach)" by (auto dest: in_set_takeD)
      then show "0 < length b \<and> length b \<le> n" by (rule chunksOf_sizes)
    qed
    have full: "\<forall>j. Suc j < length bs \<longrightarrow> length (bs ! j) = n"
    proof (intro allI impI)
      fix j assume j: "Suc j < length bs"
      with p have "Suc j < length (chunksOf n toAttach)" "j < k" by simp_all
      from chunksOf_full [OF this(1)] this(2) p show "length (bs ! j) = n" by simp
    qed
    have pre: "\<exists>rest. concat bs @ rest = toAttach"
    proof -
      have "concat (take k (chunksOf n toAttach)) @ concat (drop k (chunksOf n toAttach))
          = concat (chunksOf n toAttach)"
        by (simp flip: concat_append)
      with p n show ?thesis by (auto simp: concat_chunksOf)
    qed
    have fin: "\<forall>a' s'. r = Inr (a', s') \<longrightarrow>
            concat bs = toAttach \<and> length bs = (length toAttach + n - 1) div n
            \<and> int (length bs) = \<lceil>real (length toAttach) / real_of_int (MEDIA_BATCH_SIZE cfg)\<rceil>
            \<and> a' = attachedTotal + length toAttach"
    proof (intro allI impI)
      fix a' s'
      assume "r = Inr (a', s')"
      then have "r3 = Inr a'" by (simp add: r_def split: sum.splits)
      with s have "bs = chunksOf n toAttach" "a' = attachedTotal + length toAttach" by blast+
      moreover from B have "real_of_int (MEDIA_BATCH_SIZE cfg) = real n" by (simp add: n_def)
      ultimately show "concat bs = toAttach \<and> length bs = (length toAttach + n - 1) div n
            \<and> int (length bs) = \<lceil>real (length toAttach) / real_of_int (MEDIA_BATCH_SIZE cfg)\<rceil>
            \<and> a' = attachedTotal + length toAttach"
        using n by (simp only: concat_chunksOf length_chunksOf ceil_div_nat simp_thms)
    qed
    show ?thesis
      unfolding toAttach_def [symmetric] n_def [symmetric]
      by (intro exI [of _ r] exI [of _ st3] exI [of _ evs] exI [of _ bs] conjI)
        (rule r t c sizes full pre fin)+
  qed
qed

text \<open>The two properties above on a worked example: one group, one product.\<close>

lemma ev_pg: "processGroup defaultConfig (''CS1'', [frontJpg, backJpg]) (0, 0) catalog
   = Some (Inr (1, 1),
      \<lparr> ghl = [], shopify = [],
        trace = [FetchGql (ProductByHandle ''cs1'') 1,
                 FetchGql (ProductMedia ''gid://shopify/Product/1'') 1,
                 FetchGql (ProductCreateMedia ''gid://shopify/Product/1'' [backJpg]) 1,
                 Log (Attached 1 1 ''cs1'')] \<rparr>)"
  by code_simp

lemma ev_find: "findProductIdByHandleOrSku defaultConfig (deriveHandleFromCode defaultConfig ''CS1'') ''CS1'' catalog
   = (Inr (Some ''gid://shopify/Product/1''),
      \<lparr> ghl = [], shopify = [altsResponse, answer noData], trace = [FetchGql (ProductByHandle ''cs1'') 1] \<rparr>)"
  by code_simp

lemma ev_alts: "getExistingMediaAlts defaultConfig ''gid://shopify/Product/1''
      \<lparr> ghl = [], shopify = [altsResponse, answer noData], trace = [FetchGql (ProductByHandle ''cs1'') 1] \<rparr>
   = (Inr {''CS1_front.jpg''},
      \<lparr> ghl = [], shopify = [answer noData],
        trace = [FetchGql (ProductByHandle ''cs1'') 1, FetchGql (ProductMedia ''gid://shopify/Product/1'') 1] \<rparr>)"
  by code_simp

theorem C1_attach_idempotence_witness:
  "(\<exists>evs. trace \<lparr> ghl = [], shopify = [],
                 trace = [FetchGql (ProductByHandle ''cs1'') 1,
                          FetchGql (ProductMedia ''gid://shopify/Product/1'') 1,
                          FetchGql (ProductCreateMedia ''gid://shopify/Product/1'' [backJpg]) 1,
                          Log (Attached 1 1 ''cs1'')] \<rparr>
            = trace catalog @ evs
      \<and> (\<forall>b \<in> set (sentBatches evs).
            fst b = ''gid://shopify/Product/1''
            \<and> (\<forall>m \<in> set (snd b). m \<in> set [frontJpg, backJpg] \<and> trim (alt m) \<notin> {''CS1_front.jpg''}))
      \<and> (\<forall>a' s'. (Inr (1, 1) :: error + nat \<times> nat) = Inr (a', s') \<longrightarrow>
            s' = 0 + length (filter (\<lambda>m. trim (alt m) \<in> {''CS1_front.jpg''}) [frontJpg, backJpg])))
   \<and> processGroup defaultConfig (''CS1'', [frontJpg, backJpg]) (0, 0) catalog
       = Some (Inr (1, 1),
          \<lparr> ghl = [], shopify = [],
            trace = [FetchGql (ProductByHandle ''cs1'') 1,
                     FetchGql (ProductMedia ''gid://shopify/Product/1'') 1,
                     FetchGql (ProductCreateMedia ''gid://shopify/Product/1'' [backJpg]) 1,
                     Log (Attached 1 1 ''cs1'')] \<rparr>)"
  by (rule conjI [OF C1_attach_idempotence [OF ev_find ev_alts ev_pg] ev_pg])

lemma ev_find4: "findProductIdByHandleOrSku pairsConfig (deriveHandleFromCode pairsConfig ''CS1'') ''CS1'' catalog4
   = (Inr (Some ''gid://shopify/Product/1''),
      \<lparr> ghl = [], shopify = [altsResponse, answer noData, answer noData],
        trace = [FetchGql (ProductByHandle ''cs1'') 1] \<rparr>)"
  by code_simp

lemma ev_alts4: "getExistingMediaAlts pairsConfig ''gid://shopify/Product/1''
      \<lparr> ghl = [], shopify = [altsResponse, answer noData, answer noData],
        trace = [FetchGql (ProductByHandle ''cs1'') 1] \<rparr>
   = (Inr {''CS1_front.jpg''},
      \<lparr> ghl = [], shopify = [answer noData, answer noData],
        trace = [FetchGql (ProductByHandle ''cs1'') 1, FetchGql (ProductMedia ''gid://shopify/Product/1'') 1] \<rparr>)"
  by code_simp

lemma ev_pg4: "processGroup pairsConfig (''CS1'', [frontJpg, backJpg, sideJpg, topJpg]) (0, 0) catalog4
   = Some (Inr (3, 1),
      \<lparr> ghl = [], shopify = [],
        trace = [FetchGql (ProductByHandle ''cs1'') 1,
                 FetchGql (ProductMedia ''gid://shopify/Product/1'') 1,
                 FetchGql (ProductCreateMedia ''gid://shopify/Product/1'' [backJpg, sideJpg]) 1,
                 Log (Attached 2 3 ''cs1''),
                 FetchGql (ProductCreateMedia ''gid://shopify/Product/1'' [topJpg]) 1,
                 Log (Attached 1 3 ''cs1'')] \<rparr>)"
  by code_simp

lemma ev_diff4: "diffMedias {''CS1_front.jpg''} [frontJpg, backJpg, sideJpg, topJpg] = [backJpg, sideJpg, topJpg]"
  by code_simp

lemma ev_cfg4: "1 \<le> MEDIA_BATCH_SIZE pairsConfig" "\<not> DRY_RUN pairsConfig" "nat (MEDIA_BATCH_SIZE pairsConfig) = 2"
  by (simp_all add: pairsConfig_def defaultConfig_def)

theorem C5_batch_slicing_witness:
  "(\<exists>r st' evs bs.
      processGroup pairsConfig (''CS1'', [frontJpg, backJpg, sideJpg, topJpg]) (0, 0) catalog4
        = Some (r, st')
      \<and> trace st'
          = trace \<lparr> ghl = [], shopify = [answer noData, answer noData],
                    trace = [FetchGql (ProductByHandle ''cs1'') 1,
                             FetchGql (ProductMedia ''gid://shopify/Product/1'') 1] \<rparr> @ evs
      \<and> attachCalls evs = map (Pair ''gid://shopify/Product/1'') bs
      \<and> (\<forall>b \<in> set bs. 0 < length b \<and> length b \<le> nat (MEDIA_BATCH_SIZE pairsConfig))
      \<and> (\<forall>j. Suc j < length bs \<longrightarrow> length (bs ! j) = nat (MEDIA_BATCH_SIZE pairsConfig))
      \<and> (\<exists>rest. concat bs @ rest
            = diffMedias {''CS1_front.jpg''} [frontJpg, backJpg, sideJpg, topJpg])
      \<and> (\<forall>a' s'. r = Inr (a', s') \<longrightarrow>
            concat bs = diffMedias {''CS1_front.jpg''} [frontJpg, backJpg, sideJpg, topJpg]
            \<and> length bs
                = (length (diffMedias {''CS1_front.jpg''} [frontJpg, backJpg, sideJpg, topJpg])
                     + nat (MEDIA_BATCH_SIZE pairsConfig) - 1)
                    div nat (MEDIA_BATCH_SIZE pairsConfig)
            \<and> int (length bs)
                = \<lceil>real (length (diffMedias {''CS1_front.jpg''}
                                   [frontJpg, backJpg, sideJpg, topJpg]))
                     / real_of_int (MEDIA_BATCH_SIZE pairsConfig)\<rceil>
            \<and> a' = 0 + length (diffMedias {''CS1_front.jpg''} [frontJpg, backJpg, sideJpg, topJpg])))
   \<and> processGroup pairsConfig (''CS1'', [frontJpg, backJpg, sideJpg, topJpg]) (0, 0) catalog4
       = Some (Inr (3, 1),
          \<lparr> ghl = [], shopify = [],
            trace = [FetchGql (ProductByHandle ''cs1'') 1,
                     FetchGql (ProductMedia ''gid://shopify/Product/1'') 1,
                     FetchGql (ProductCreateMedia ''gid://shopify/Product/1'' [backJpg, sideJpg]) 1,
                     Log (Attached 2 3 ''cs1''),
                     FetchGql (ProductCreateMedia ''gid://shopify/Product/1'' [topJpg]) 1,
                     Log (Attached 1 3 ''cs1'')] \<rparr>)"
  by (rule conjI [OF C5_batch_slicing [OF ev_cfg4(1,2) ev_find4 ev_alts4] ev_pg4])

subsection \<open>Retry and backoff\<close>

lemma sleeps_simps [simp]:
  "sleeps [] = []"
  "sleeps (Sleep w # es) = w # sleeps es"
  "sleeps (FetchGql q k # es) = sleeps es"
  "sleeps (Log l # es) = sleeps es"
  "sleeps (xs @ ys) = sleeps xs @ sleeps ys"
  by (simp_all add: sleeps_def List.map_filter_def)

lemma gqlFetches_simps [simp]:
  "gqlFetches [] = []"
  "gqlFetches (Sleep w # es) = gqlFetches es"
  "gqlFetches (FetchGql q k # es) = (q, k) # gqlFetches es"
  "gqlFetches (Log l # es) = gqlFetches es"
  "gqlFetches (xs @ ys) = gqlFetches xs @ gqlFetches ys"
  by (simp_all add: gqlFetches_def List.map_filter_def)

lemma retryable_not_ok: "retryable s \<Longrightarrow> \<not> ok s"
  by (auto simp: retryable_def ok_def)

lemma gql_exhaust:
  assumes "rs \<noteq> []" "\<forall>r \<in> set rs. retryable (status r)" "shopify st = rs @ rest"
    and "int k + int (length rs) - 1 = MAX_RETRIES cfg"
  shows "\<exists>st' evs.
      gql cfg q k st = (Inl (GraphQLHttp (status (last rs)) (body_text (last rs))), st')
      \<and> shopify st' = rest \<and> trace st' = trace st @ evs
      \<and> gqlFetches evs = map (Pair q) [k..<k + length rs]
      \<and> sleeps evs = map (\<lambda>j. baseDelay cfg * 2 ^ (j - 1)) [k..<k + length rs - 1]"
  using assms
proof (induction rs arbitrary: k st)
  case Nil
  then show ?case by simp
next
  case (Cons r rs)
  from Cons.prems have nok: "\<not> ok (status r)" by (simp add: retryable_not_ok)
  show ?case
  proof (cases "rs = []")
    case True
    with Cons.prems have "\<not> int k < MAX_RETRIES cfg" by simp
    with Cons.prems nok True have
      "gql cfg q k st = (Inl (GraphQLHttp (status r) (body_text r)),
          emit (FetchGql q k) (st\<lparr>shopify := rest\<rparr>))"
      by (subst gql.simps) (simp add: Let_def)
    with True show ?thesis
      by (intro exI [of _ "emit (FetchGql q k) (st\<lparr>shopify := rest\<rparr>)"] exI [of _ "[FetchGql q k]"])
        (simp add: emit_def)
  next
    case False
    define wait where "wait = baseDelay cfg * 2 ^ (k - 1)"
    define st1 where "st1 = emit (Sleep wait)
        (emit (Log (RetryHttp (status r) k (MAX_RETRIES cfg) wait))
           (emit (FetchGql q k) (st\<lparr>shopify := rs @ rest\<rparr>)))"
    from False Cons.prems have lt: "int k < MAX_RETRIES cfg"
      by (cases rs) auto
    with Cons.prems nok have step: "gql cfg q k st = gql cfg q (k + 1) st1"
      by (subst gql.simps) (simp add: Let_def st1_def wait_def)
    have "shopify st1 = rs @ rest" by (simp add: st1_def emit_def)
    moreover from Cons.prems have "int (k + 1) + int (length rs) - 1 = MAX_RETRIES cfg" by simp
    moreover from Cons.prems have "\<forall>r \<in> set rs. retryable (status r)" by simp
    ultimately obtain st' evs where
      g: "gql cfg q (k + 1) st1 = (Inl (GraphQLHttp (status (last rs)) (body_text (last rs))), st')"
      and s: "shopify st' = rest" and t: "trace st' = trace st1 @ evs"
      and f: "gqlFetches evs = map (Pair q) [k + 1..<k + 1 + length rs]"
      and d: "sleeps evs = map (\<lambda>j. baseDelay cfg * 2 ^ (j - 1)) [k + 1..<k + 1 + length rs - 1]"
      using Cons.IH [OF False, of st1 "k + 1"] by blast
    let ?evs = "[FetchGql q k, Log (RetryHttp (status r) k (MAX_RETRIES cfg) wait), Sleep wait] @ evs"
    have t': "trace st' = trace st @ ?evs" using t by (simp add: st1_def emit_def)
    have u: "[k..<k + length (r # rs)] = k # [k + 1..<k + 1 + length rs]"
      by (subst upt_rec) simp
    from False have "0 < length rs" by simp
    then have v: "[k..<k + length (r # rs) - 1] = k # [k + 1..<k + 1 + length rs - 1]"
      by (subst upt_rec) simp
    have "gqlFetches ?evs = (q, k) # gqlFetches evs" by simp
    then have f': "gqlFetches ?evs = map (Pair q) [k..<k + length (r # rs)]"
      by (simp only: f u list.map)
    have "sleeps ?evs = baseDelay cfg * 2 ^ (k - 1) # sleeps evs" by (simp add: wait_def)
    then have d': "sleeps ?evs = map (\<lambda>j. baseDelay cfg * 2 ^ (j - 1)) [k..<k + length (r # rs) - 1]"
      by (simp only: d v list.map)
    from step g False have g': "gql cfg q k st
        = (Inl (GraphQLHttp (status (last (r # rs))) (body_text (last (r # rs)))), st')"
      by simp
    from g' s t' f' d' show ?thesis by blast
  qed
qed

lemma gql_retry:
  assumes "shopify st = res # rest" "retryable (status res)" "int k < MAX_RETRIES cfg"
  shows "gql cfg q k st
      = gql cfg q (k + 1)
          (emit (Sleep (baseDelay cfg * 2 ^ (k - 1)))
             (emit (Log (RetryHttp (status res) k (MAX_RETRIES cfg) (baseDelay cfg * 2 ^ (k - 1))))
                (emit (FetchGql q k) (st\<lparr>shopify := rest\<rparr>))))"
  using assms retryable_not_ok [of "status res"]
  by (subst gql.simps) (simp add: Let_def)

lemma gql_success:
  assumes "shopify st = res # rest" "ok (status res)" "body_json res = Envelope None d"
  shows "gql cfg q k st = (Inr d, emit (FetchGql q k) (st\<lparr>shopify := rest\<rparr>))"
  using assms by (subst gql.simps) (simp add: Let_def)

text \<open>
  C3 (retry and backoff of \<open>gql\<close>): with at least 3 attempts allowed, a call whose first
  two answers have status 503 and whose third answer is a success without errors returns
  the data of the third answer after exactly three requests and two sleeps, of
  \<open>baseDelay\<close> and \<open>baseDelay * 2\<close>. A call whose answers have a retryable status on all
  \<open>MAX_RETRIES\<close> attempts raises the HTTP error of the last answer after exactly
  \<open>MAX_RETRIES\<close> requests, having slept \<open>baseDelay * 2 ^ (n - 1)\<close> before retry \<open>n\<close>, and
  leaves the later answers of the service untouched.
\<close>

theorem C3_retry_backoff:
  "(3 \<le> MAX_RETRIES cfg \<and> shopify st = r1 # r2 # r3 # rest
      \<and> status r1 = 503 \<and> status r2 = 503
      \<and> ok (status r3) \<and> body_json r3 = Envelope None d \<longrightarrow>
      (\<exists>st' evs. gql cfg q 1 st = (Inr d, st') \<and> shopify st' = rest
          \<and> trace st' = trace st @ evs
          \<and> gqlFetches evs = [(q, 1), (q, 2), (q, 3)]
          \<and> sleeps evs = [baseDelay cfg, baseDelay cfg * 2]))
   \<and> (1 \<le> MAX_RETRIES cfg \<and> shopify st = rs @ rest \<and> int (length rs) = MAX_RETRIES cfg
        \<and> (\<forall>r \<in> set rs. retryable (status r)) \<longrightarrow>
      (\<exists>st' evs.
          gql cfg q 1 st = (Inl (GraphQLHttp (status (last rs)) (body_text (last rs))), st')
          \<and> shopify st' = rest \<and> trace st' = trace st @ evs
          \<and> gqlFetches evs = map (Pair q) [1..<1 + length rs]
          \<and> sleeps evs = map (\<lambda>n. baseDelay cfg * 2 ^ (n - 1)) [1..<length rs]))"
proof (intro conjI impI)
  assume a: "3 \<le> MAX_RETRIES cfg \<and> shopify st = r1 # r2 # r3 # rest
      \<and> status r1 = 503 \<and> status r2 = 503
      \<and> ok (status r3) \<and> body_json r3 = Envelope None d"
  define st1 where "st1 = emit (Sleep (baseDelay cfg * 2 ^ (1 - 1)))
      (emit (Log (RetryHttp (status r1) 1 (MAX_RETRIES cfg) (baseDelay cfg * 2 ^ (1 - 1))))
         (emit (FetchGql q 1) (st\<lparr>shopify := r2 # r3 # rest\<rparr>)))"
  define st2 where "st2 = emit (Sleep (baseDelay cfg * 2 ^ (2 - 1)))
      (emit (Log (RetryHttp (status r2) 2 (MAX_RETRIES cfg) (baseDelay cfg * 2 ^ (2 - 1))))
         (emit (FetchGql q 2) (st1\<lparr>shopify := r3 # rest\<rparr>)))"
  define st3 where "st3 = emit (FetchGql q 3) (st2\<lparr>shopify := rest\<rparr>)"
  have r: "retryable 503" by (simp add: retryable_def)
  have n: "(1::nat) + 1 = 2" "(2::nat) + 1 = 3" by simp_all
  have sh: "shopify st1 = r2 # r3 # rest" "shopify st2 = r3 # rest"
    by (simp_all add: st1_def st2_def emit_def)
  from a have sh0: "shopify st = r1 # r2 # r3 # rest" and lt: "int 1 < MAX_RETRIES cfg"
      "int 2 < MAX_RETRIES cfg" and r1: "retryable (status r1)" and r2: "retryable (status r2)"
    and ok3: "ok (status r3)" and b3: "body_json r3 = Envelope None d"
    using r by simp_all
  have s1: "gql cfg q 1 st = gql cfg q (1 + 1) st1"
    unfolding st1_def by (rule gql_retry [OF sh0 r1 lt(1)])
  have s2: "gql cfg q 2 st1 = gql cfg q (2 + 1) st2"
    unfolding st2_def by (rule gql_retry [OF sh(1) r2 lt(2)])
  have s3: "gql cfg q 3 st2 = (Inr d, st3)"
    unfolding st3_def by (rule gql_success [OF sh(2) ok3 b3])
  note s1 [unfolded n]
  also note s2 [unfolded n]
  also note s3
  finally have g: "gql cfg q 1 st = (Inr d, st3)" .
  let ?evs = "[FetchGql q 1, Log (RetryHttp (status r1) 1 (MAX_RETRIES cfg) (baseDelay cfg * 2 ^ (1 - 1))),
               Sleep (baseDelay cfg * 2 ^ (1 - 1)),
               FetchGql q 2, Log (RetryHttp (status r2) 2 (MAX_RETRIES cfg) (baseDelay cfg * 2 ^ (2 - 1))),
               Sleep (baseDelay cfg * 2 ^ (2 - 1)),
               FetchGql q 3]"
  have "shopify st3 = rest" "trace st3 = trace st @ ?evs"
    by (simp_all add: st3_def st2_def st1_def emit_def)
  moreover have "gqlFetches ?evs = [(q, 1), (q, 2), (q, 3)]"
    "sleeps ?evs = [baseDelay cfg, baseDelay cfg * 2]"
    by simp_all
  ultimately show "\<exists>st' evs. gql cfg q 1 st = (Inr d, st') \<and> shopify st' = rest
          \<and> trace st' = trace st @ evs
          \<and> gqlFetches evs = [(q, 1), (q, 2), (q, 3)]
          \<and> sleeps evs = [baseDelay cfg, baseDelay cfg * 2]"
    using g by blast
next
  assume b: "1 \<le> MAX_RETRIES cfg \<and> shopify st = rs @ rest \<and> int (length rs) = MAX_RETRIES cfg
        \<and> (\<forall>r \<in> set rs. retryable (status r))"
  then have ne: "rs \<noteq> []" and k: "int 1 + int (length rs) - 1 = MAX_RETRIES cfg"
    and p: "\<forall>r \<in> set rs. retryable (status r)" and sh: "shopify st = rs @ rest"
    by auto
  from gql_exhaust [OF ne p sh k, of q]
  show "\<exists>st' evs.
          gql cfg q 1 st = (Inl (GraphQLHttp (status (last rs)) (body_text (last rs))), st')
          \<and> shopify st' = rest \<and> trace st' = trace st @ evs
          \<and> gqlFetches evs = map (Pair q) [1..<1 + length rs]
          \<and> sleeps evs = map (\<lambda>n. baseDelay cfg * 2 ^ (n - 1)) [1..<length rs]"
    by simp
qed

lemma ev_flaky:
  "3 \<le> MAX_RETRIES defaultConfig \<and> shopify flaky = busy # busy # answer noData # [altsResponse]
      \<and> status busy = 503 \<and> status busy = 503
      \<and> ok (status (answer noData)) \<and> body_json (answer noData) = Envelope None (Some noData)"
  by (simp add: defaultConfig_def flaky_def busy_def answer_def ok_def)

lemma ev_down:
  "1 \<le> MAX_RETRIES defaultConfig \<and> shopify down = [busy, busy, busy] @ [answer noData]
     \<and> int (length [busy, busy, busy]) = MAX_RETRIES defaultConfig
     \<and> (\<forall>r \<in> set [busy, busy, busy]. retryable (status r))"
  by (simp add: defaultConfig_def down_def busy_def retryable_def)

lemma ev_gql_flaky:
  "gql defaultConfig (ProductMedia ''p'') 1 flaky
     = (Inr (Some noData),
        \<lparr> ghl = [], shopify = [altsResponse],
          trace = [FetchGql (ProductMedia ''p'') 1, Log (RetryHttp 503 1 3 600), Sleep 600,
                   FetchGql (ProductMedia ''p'') 2, Log (RetryHttp 503 2 3 1200), Sleep 1200,
                   FetchGql (ProductMedia ''p'') 3] \<rparr>)"
  by code_simp

lemma ev_gql_down:
  "gql defaultConfig (ProductMedia ''p'') 1 down
     = (Inl (GraphQLHttp 503 ''busy''),
        \<lparr> ghl = [], shopify = [answer noData],
          trace = [FetchGql (ProductMedia ''p'') 1, Log (RetryHttp 503 1 3 600), Sleep 600,
                   FetchGql (ProductMedia ''p'') 2, Log (RetryHttp 503 2 3 1200), Sleep 1200,
                   FetchGql (ProductMedia ''p'') 3] \<rparr>)"
  by code_simp

theorem C3_retry_backoff_witness:
  "(\<exists>st' evs. gql defaultConfig (ProductMedia ''p'') 1 flaky = (Inr (Some noData), st')
        \<and> shopify st' = [altsResponse] \<and> trace st' = trace flaky @ evs
        \<and> gqlFetches evs = [(ProductMedia ''p'', 1), (ProductMedia ''p'', 2), (ProductMedia ''p'', 3)]
        \<and> sleeps evs = [baseDelay defaultConfig, baseDelay defaultConfig * 2])
   \<and> (\<exists>st' evs. gql defaultConfig (ProductMedia ''p'') 1 down
          = (Inl (GraphQLHttp (status (last [busy, busy, busy]))
                     (body_text (last [busy, busy, busy]))), st')
        \<and> shopify st' = [answer noData] \<and> trace st' = trace down @ evs
        \<and> gqlFetches evs = map (Pair (ProductMedia ''p'')) [1..<1 + length [busy, busy, busy]]
        \<and> sleeps evs
            = map (\<lambda>n. baseDelay defaultConfig * 2 ^ (n - 1)) [1..<length [busy, busy, busy]])
   \<and> gql defaultConfig (ProductMedia ''p'') 1 flaky
     = (Inr (Some noData),
        \<lparr> ghl = [], shopify = [altsResponse],
          trace = [FetchGql (ProductMedia ''p'') 1, Log (RetryHttp 503 1 3 600), Sleep 600,
                   FetchGql (ProductMedia ''p'') 2, Log (RetryHttp 503 2 3 1200), Sleep 1200,
                   FetchGql (ProductMedia ''p'') 3] \<rparr>)
   \<and> gql defaultConfig (ProductMedia ''p'') 1 down
     = (Inl (GraphQLHttp 503 ''busy''),
        \<lparr> ghl = [], shopify = [answer noData],
          trace = [FetchGql (ProductMedia ''p'') 1, Log (RetryHttp 503 1 3 600), Sleep 600,
                   FetchGql (ProductMedia ''p'') 2, Log (RetryHttp 503 2 3 1200), Sleep 1200,
                   FetchGql (ProductMedia ''p'') 3] \<rparr>)"
  by (intro conjI
      C3_retry_backoff [THEN conjunct1, THEN mp, OF ev_flaky]
      C3_retry_backoff [THEN conjunct2, THEN mp, OF ev_down]
      ev_gql_flaky ev_gql_down)

subsection \<open>The whole run\<close>

lemma mainLoop_append:
  "mainLoop cfg gs totals st = Some (Inr totals1, st1) \<Longrightarrow>
     mainLoop cfg (gs @ hs) totals st = mainLoop cfg hs totals1 st1"
proof (induction gs arbitrary: totals st)
  case Nil
  then show ?case by simp
next
  case (Cons g gs)
  then show ?case
    by (auto split: option.splits sum.splits prod.splits)
qed

text \<open>
  When a call of \<open>attachMediaBatch\<close> in the loop raises, the loop ends with that error, in
  the state the call left.
\<close>

lemma attachRaises_attachLoop:
  "attachRaises cfg productId label toAttach i attachedTotal st e st' \<Longrightarrow>
     attachLoop cfg productId label toAttach i attachedTotal st = Some (Inl e, st')"
proof (induction rule: attachRaises.induct)
  case (now i st e st' attachedTotal)
  then show ?case
    by (subst attachLoop.simps) (simp add: Let_def)
next
  case (later i st u st1 attachedTotal e st')
  then show ?case
    by (subst attachLoop.simps) (simp add: Let_def)
qed

text \<open>Conversely, the loop ends with an error only when one of its calls raises it.\<close>

lemma attachLoop_raised:
  assumes "attachLoop cfg productId label toAttach i attachedTotal st = Some y"
  shows "\<forall>e st'. y = (Inl e, st') \<longrightarrow>
           attachRaises cfg productId label toAttach i attachedTotal st e st'"
proof (rule attachLoop.raw_induct
    [where P = "\<lambda>cfg productId label toAttach i attachedTotal st y.
       \<forall>e st'. y = (Inl e, st') \<longrightarrow>
           attachRaises cfg productId label toAttach i attachedTotal st e st'",
     OF _ assms])
  fix loop cfg productId label toAttach i attachedTotal st y
  assume IH: "\<And>cfg productId label toAttach i attachedTotal st y.
      loop cfg productId label toAttach i attachedTotal st = Some y \<Longrightarrow>
       \<forall>e st'. y = (Inl e, st') \<longrightarrow>
           attachRaises cfg productId label toAttach i attachedTotal st e st'"
    and body: "(if i < int (length toAttach) then
        (let chunk = js_slice toAttach i (i + MEDIA_BATCH_SIZE cfg) in
         case attachMediaBatch cfg productId chunk st of
           (Inl e, st1) \<Rightarrow> Some (Inl e, st1)
         | (Inr u, st1) \<Rightarrow>
             loop cfg productId label toAttach (i + MEDIA_BATCH_SIZE cfg)
               (attachedTotal + length chunk)
               (emit (Log (Attached (length chunk) (length toAttach) label)) st1))
      else Some (Inr attachedTotal, st)) = Some y"
  show "\<forall>e st'. y = (Inl e, st') \<longrightarrow>
           attachRaises cfg productId label toAttach i attachedTotal st e st'"
  proof (cases "i < int (length toAttach)")
    case False
    with body have "y = (Inr attachedTotal, st)" by auto
    then show ?thesis by simp
  next
    case True
    define chunk where "chunk = js_slice toAttach i (i + MEDIA_BATCH_SIZE cfg)"
    obtain r1 st1 where a: "attachMediaBatch cfg productId chunk st = (r1, st1)" by force
    show ?thesis
    proof (cases r1)
      case (Inl e1)
      with body True a have y: "y = (Inl e1, st1)" by (simp add: chunk_def Let_def)
      from True a [unfolded chunk_def Inl]
      have "attachRaises cfg productId label toAttach i attachedTotal st e1 st1"
        by (rule attachRaises.now)
      with y show ?thesis by simp
    next
      case (Inr u)
      with body True a have
        "loop cfg productId label toAttach (i + MEDIA_BATCH_SIZE cfg) (attachedTotal + length chunk)
           (emit (Log (Attached (length chunk) (length toAttach) label)) st1) = Some y"
        by (simp add: chunk_def Let_def)
      from IH [OF this] have later:
        "\<forall>e st'. y = (Inl e, st') \<longrightarrow>
           attachRaises cfg productId label toAttach (i + MEDIA_BATCH_SIZE cfg)
             (attachedTotal + length chunk)
             (emit (Log (Attached (length chunk) (length toAttach) label)) st1) e st'" .
      show ?thesis
      proof (intro allI impI)
        fix e st' assume "y = (Inl e, st')"
        with later have
          "attachRaises cfg productId label toAttach (i + MEDIA_BATCH_SIZE cfg)
             (attachedTotal + length chunk)
             (emit (Log (Attached (length chunk) (length toAttach) label)) st1) e st'"
          by simp
        with True a [unfolded chunk_def Inr]
        show "attachRaises cfg productId label toAttach i attachedTotal st e st'"
          unfolding chunk_def by (rule attachRaises.later)
      qed
    qed
  qed
qed

text \<open>
  C8 (whole-run abort): when the groups before a group have been processed and a Catalog
  Operation of that group raises an error (the product lookup; the listing of the
  existing media; or, outside a dry run, the call of \<open>attachMediaBatch\<close> for one of the
  batches, the calls for the batches before it having returned), the group fails with
  that error, the group loop stops with it, and the run ends with exit status 1 in the
  state the failing operation left, with only the failure line added: nothing is
  requested for any later group.
\<close>

theorem C8_whole_run_abort:
  assumes fetch: "fetchGhlFiles cfg st = (Inr files, st0)"
    and groups: "groupByCode cfg files [] = Inr (gs @ (code, allMedias) # rest)"
    and before: "mainLoop cfg gs (0, 0) st0 = Some (Inr (attachedTotal, skippedTotal), st1)"
    and failed:
      "findProductIdByHandleOrSku cfg (deriveHandleFromCode cfg code) code st1 = (Inl e, st2)
       \<or> (\<exists>productId s1.
             findProductIdByHandleOrSku cfg (deriveHandleFromCode cfg code) code st1
               = (Inr (Some productId), s1)
             \<and> (getExistingMediaAlts cfg productId s1 = (Inl e, st2)
                 \<or> (\<exists>existingAlts s2.
                       getExistingMediaAlts cfg productId s1 = (Inr existingAlts, s2)
                       \<and> \<not> DRY_RUN cfg
                       \<and> attachRaises cfg productId (orElse (deriveHandleFromCode cfg code) code)
                             (diffMedias existingAlts allMedias) 0 attachedTotal s2 e st2)))"
  shows "processGroup cfg (code, allMedias) (attachedTotal, skippedTotal) st1 = Some (Inl e, st2)
    \<and> mainLoop cfg (gs @ (code, allMedias) # rest) (0, 0) st0 = Some (Inl e, st2)
    \<and> run cfg st = Some (1, emit (Log (SyncFailed e)) st2)"
proof -
  from failed
  have p: "processGroup cfg (code, allMedias) (attachedTotal, skippedTotal) st1 = Some (Inl e, st2)"
  proof (elim disjE exE conjE)
    assume "findProductIdByHandleOrSku cfg (deriveHandleFromCode cfg code) code st1 = (Inl e, st2)"
    then show ?thesis by (simp add: processGroup_def Let_def)
  next
    fix productId s1
    assume "findProductIdByHandleOrSku cfg (deriveHandleFromCode cfg code) code st1
              = (Inr (Some productId), s1)"
      "getExistingMediaAlts cfg productId s1 = (Inl e, st2)"
    then show ?thesis by (simp add: processGroup_def Let_def)
  next
    fix productId s1 existingAlts s2
    assume f: "findProductIdByHandleOrSku cfg (deriveHandleFromCode cfg code) code st1
              = (Inr (Some productId), s1)"
      and al: "getExistingMediaAlts cfg productId s1 = (Inr existingAlts, s2)"
      and wet: "\<not> DRY_RUN cfg"
      and raises: "attachRaises cfg productId (orElse (deriveHandleFromCode cfg code) code)
            (diffMedias existingAlts allMedias) 0 attachedTotal s2 e st2"
    from raises have "0 < int (length (diffMedias existingAlts allMedias))"
      by cases
    then have ne: "diffMedias existingAlts allMedias \<noteq> []"
      by auto
    have "attachLoop cfg productId (orElse (deriveHandleFromCode cfg code) code)
            (diffMedias existingAlts allMedias) 0 attachedTotal s2 = Some (Inl e, st2)"
      using raises by (rule attachRaises_attachLoop)
    then show ?thesis
      unfolding processGroup_resolved [OF f al] using ne wet by (simp add: Let_def)
  qed
  from mainLoop_append [OF before, of "(code, allMedias) # rest"] p
  have m: "mainLoop cfg (gs @ (code, allMedias) # rest) (0, 0) st0 = Some (Inl e, st2)" by simp
  from groups have "files \<noteq> []" by auto
  with fetch groups m have "main cfg st = Some (Inl e, st2)"
    by (simp add: main_def Let_def)
  then have "run cfg st = Some (1, emit (Log (SyncFailed e)) st2)"
    by (simp add: run_def)
  with p m show ?thesis by simp
qed

lemma processGroup_dry:
  assumes dry: "DRY_RUN cfg"
  shows "\<exists>r st' evs. processGroup cfg (code, allMedias) (a, s) st = Some (r, st')
      \<and> trace st' = trace st @ evs \<and> sentBatches evs = []
      \<and> (\<forall>a' s'. r = Inr (a', s') \<longrightarrow> a' = a)"
proof -
  define handle where "handle = deriveHandleFromCode cfg code"
  obtain r1 st1 where f: "findProductIdByHandleOrSku cfg handle code st = (r1, st1)" by force
  from findProductIdByHandleOrSku_observed [OF f] obtain evs1 where
    e1: "trace st1 = trace st @ evs1" "sentBatches evs1 = []" by blast
  have quiet: "\<exists>r st' evs. processGroup cfg (code, allMedias) (a, s) st = Some (r, st')
      \<and> trace st' = trace st @ evs \<and> sentBatches evs = []
      \<and> (\<forall>a' s'. r = Inr (a', s') \<longrightarrow> a' = a)"
    if "processGroup cfg (code, allMedias) (a, s) st = Some (r, st')"
      "trace st' = trace st @ evs" "sentBatches evs = []" "\<forall>a' s'. r = Inr (a', s') \<longrightarrow> a' = a"
    for r st' evs
    using that by blast
  show ?thesis
  proof (cases r1)
    case (Inl e)
    with f have "processGroup cfg (code, allMedias) (a, s) st = Some (Inl e, st1)"
      by (simp add: processGroup_def Let_def handle_def)
    then show ?thesis using e1 by (rule quiet) simp
  next
    case (Inr po)
    show ?thesis
    proof (cases po)
      case None
      with f Inr have "processGroup cfg (code, allMedias) (a, s) st
          = Some (Inr (a, s), emit (Log (NoProduct code handle)) st1)"
        by (simp add: processGroup_def Let_def handle_def)
      moreover from e1 have "trace (emit (Log (NoProduct code handle)) st1)
          = trace st @ (evs1 @ [Log (NoProduct code handle)])"
        "sentBatches (evs1 @ [Log (NoProduct code handle)]) = []"
        by (simp_all add: emit_def)
      ultimately show ?thesis by (rule quiet) simp
    next
      case (Some productId)
      obtain r2 st2 where g: "getExistingMediaAlts cfg productId st1 = (r2, st2)" by force
      from getExistingMediaAlts_observed [OF g] obtain evs2 where
        e2: "trace st2 = trace st1 @ evs2" "sentBatches evs2 = []" by blast
      show ?thesis
      proof (cases r2)
        case (Inl e)
        with f Inr Some g have "processGroup cfg (code, allMedias) (a, s) st = Some (Inl e, st2)"
          by (simp add: processGroup_def Let_def handle_def)
        moreover from e1 e2 have "trace st2 = trace st @ (evs1 @ evs2)"
          "sentBatches (evs1 @ evs2) = []" by simp_all
        ultimately show ?thesis by (rule quiet) simp
      next
        case r: (Inr existingAlts)
        define l where "l = (if diffMedias existingAlts allMedias = []
            then NothingNew (orElse handle code)
            else DryRunWouldAttach (length (diffMedias existingAlts allMedias)) (orElse handle code))"
        from f Inr Some g r dry have "processGroup cfg (code, allMedias) (a, s) st
            = Some (Inr (a, s + (length allMedias - length (diffMedias existingAlts allMedias))),
                    emit (Log l) st2)"
          by (simp add: processGroup_def Let_def handle_def l_def)
        moreover from e1 e2 have "trace (emit (Log l) st2) = trace st @ (evs1 @ evs2 @ [Log l])"
          "sentBatches (evs1 @ evs2 @ [Log l]) = []"
          by (simp_all add: emit_def)
        ultimately show ?thesis by (rule quiet) simp
      qed
    qed
  qed
qed

lemma mainLoop_dry:
  assumes dry: "DRY_RUN cfg"
  shows "\<exists>r st' evs. mainLoop cfg gs (a, s) st = Some (r, st')
      \<and> trace st' = trace st @ evs \<and> sentBatches evs = []
      \<and> (\<forall>a' s'. r = Inr (a', s') \<longrightarrow> a' = a)"
proof (induction gs arbitrary: s st)
  case Nil
  have "mainLoop cfg [] (a, s) st = Some (Inr (a, s), st) \<and> trace st = trace st @ []
      \<and> sentBatches [] = [] \<and> (\<forall>a' s'. (Inr (a, s) :: error + nat \<times> nat) = Inr (a', s') \<longrightarrow> a' = a)"
    by simp
  then show ?case by blast
next
  case (Cons g gs)
  obtain code allMedias where gd: "g = (code, allMedias)" by (cases g)
  from processGroup_dry [OF dry, of code allMedias a s st] obtain r1 st1 evs1 where
    p: "processGroup cfg g (a, s) st = Some (r1, st1)"
    and t1: "trace st1 = trace st @ evs1" and b1: "sentBatches evs1 = []"
    and a1: "\<forall>a' s'. r1 = Inr (a', s') \<longrightarrow> a' = a"
    unfolding gd by blast
  show ?case
  proof (cases r1)
    case (Inl e)
    with p have "mainLoop cfg (g # gs) (a, s) st = Some (Inl e, st1)" by simp
    with t1 b1 show ?thesis by blast
  next
    case (Inr totals1)
    obtain a1' s1 where td: "totals1 = (a1', s1)" by (cases totals1)
    with a1 Inr have "a1' = a" by simp
    with p Inr td have m: "mainLoop cfg (g # gs) (a, s) st = mainLoop cfg gs (a, s1) st1" by simp
    from Cons.IH [of s1 st1] obtain r st' evs where
      "mainLoop cfg gs (a, s1) st1 = Some (r, st')" "trace st' = trace st1 @ evs"
      "sentBatches evs = []" "\<forall>a' s'. r = Inr (a', s') \<longrightarrow> a' = a" by blast
    with m t1 b1 have "mainLoop cfg (g # gs) (a, s) st = Some (r, st')"
      "trace st' = trace st @ (evs1 @ evs)" "sentBatches (evs1 @ evs) = []"
      "\<forall>a' s'. r = Inr (a', s') \<longrightarrow> a' = a" by simp_all
    then show ?thesis by blast
  qed
qed

lemma fetchGhlFiles_trace:
  "fetchGhlFiles cfg st = (r, st1) \<Longrightarrow> trace st1 = trace st @ [FetchGhl]"
  by (auto simp: fetchGhlFiles_def emit_def Let_def
      split: list.splits if_splits ghl_json.splits option.splits)

lemma sentBatches_FetchGhl [simp]: "sentBatches (FetchGhl # es) = sentBatches es"
  by (simp add: sentBatches_Cons)

lemma no_final_summary:
  "last evs \<noteq> Log Done \<Longrightarrow>
     \<forall>pre a s. evs = pre @ [Log (Summary a s), Log Done] \<longrightarrow> a = 0"
  by auto

lemma final_summary_zero:
  "\<forall>pre a s. evs0 @ [Log (Summary 0 s'), Log Done] = pre @ [Log (Summary a s), Log Done]
      \<longrightarrow> a = 0"
  by simp

lemma run_dry:
  assumes dry: "DRY_RUN cfg"
  shows "\<exists>exit st' evs. run cfg st = Some (exit, st') \<and> trace st' = trace st @ evs
      \<and> sentBatches evs = []
      \<and> (\<forall>pre a s. evs = pre @ [Log (Summary a s), Log Done] \<longrightarrow> a = 0)"
proof -
  have pack: "\<exists>exit st' evs. run cfg st = Some (exit, st') \<and> trace st' = trace st @ evs
      \<and> sentBatches evs = []
      \<and> (\<forall>pre a s. evs = pre @ [Log (Summary a s), Log Done] \<longrightarrow> a = 0)"
    if "run cfg st = Some (exit, st')" "trace st' = trace st @ evs" "sentBatches evs = []"
      "\<forall>pre a s. evs = pre @ [Log (Summary a s), Log Done] \<longrightarrow> a = 0"
    for exit st' evs
    using that by blast
  obtain r0 st1 where f: "fetchGhlFiles cfg st = (r0, st1)" by force
  note t0 = fetchGhlFiles_trace [OF f]
  show ?thesis
  proof (cases r0)
    case (Inl e)
    with f have "run cfg st = Some (1, emit (Log (SyncFailed e)) st1)"
      by (simp add: run_def main_def)
    moreover from t0 have "trace (emit (Log (SyncFailed e)) st1)
        = trace st @ [FetchGhl, Log (SyncFailed e)]" by (simp add: emit_def)
    moreover have "sentBatches [FetchGhl, Log (SyncFailed e)] = []" by simp
    moreover have "\<forall>pre a s. [FetchGhl, Log (SyncFailed e)] = pre @ [Log (Summary a s), Log Done]
        \<longrightarrow> a = 0"
      by (rule no_final_summary) simp
    ultimately show ?thesis by (rule pack)
  next
    case (Inr files)
    have quietly: ?thesis if "run cfg st = Some (0, emit (Log l) st1)" "l = NoFiles \<or> l = NoMatch"
      for l
    proof -
      note that(1)
      moreover from t0 have "trace (emit (Log l) st1) = trace st @ [FetchGhl, Log l]"
        by (simp add: emit_def)
      moreover have "sentBatches [FetchGhl, Log l] = []" by simp
      moreover have "\<forall>pre a s. [FetchGhl, Log l] = pre @ [Log (Summary a s), Log Done] \<longrightarrow> a = 0"
        by (rule no_final_summary) (use that(2) in auto)
      ultimately show ?thesis by (rule pack)
    qed
    show ?thesis
    proof (cases "files = []")
      case True
      with f Inr have "run cfg st = Some (0, emit (Log NoFiles) st1)"
        by (simp add: run_def main_def)
      then show ?thesis by (rule quietly) simp
    next
      case ne: False
      show ?thesis
      proof (cases "groupByCode cfg files []")
        case (Inl e)
        with f Inr ne have "run cfg st = Some (1, emit (Log (SyncFailed e)) st1)"
          by (simp add: run_def main_def)
        moreover from t0 have "trace (emit (Log (SyncFailed e)) st1)
            = trace st @ [FetchGhl, Log (SyncFailed e)]" by (simp add: emit_def)
        moreover have "sentBatches [FetchGhl, Log (SyncFailed e)] = []" by simp
        moreover have "\<forall>pre a s. [FetchGhl, Log (SyncFailed e)] = pre @ [Log (Summary a s), Log Done]
            \<longrightarrow> a = 0"
          by (rule no_final_summary) simp
        ultimately show ?thesis by (rule pack)
      next
        case g: (Inr mediaByCode)
        show ?thesis
        proof (cases "mediaByCode = []")
          case True
          with f Inr ne g have "run cfg st = Some (0, emit (Log NoMatch) st1)"
            by (simp add: run_def main_def)
          then show ?thesis by (rule quietly) simp
        next
          case False
          from mainLoop_dry [OF dry, of mediaByCode 0 0 st1] obtain r st2 evs2 where
            m: "mainLoop cfg mediaByCode (0, 0) st1 = Some (r, st2)"
            and t2: "trace st2 = trace st1 @ evs2" and b2: "sentBatches evs2 = []"
            and z: "\<forall>a' s'. r = Inr (a', s') \<longrightarrow> a' = 0" by blast
          show ?thesis
          proof (cases r)
            case (Inl e)
            with f Inr ne g False m have "run cfg st = Some (1, emit (Log (SyncFailed e)) st2)"
              by (simp add: run_def main_def Let_def)
            moreover from t0 t2 have "trace (emit (Log (SyncFailed e)) st2)
                = trace st @ (FetchGhl # evs2 @ [Log (SyncFailed e)])" by (simp add: emit_def)
            moreover from b2 have "sentBatches (FetchGhl # evs2 @ [Log (SyncFailed e)]) = []"
              by simp
            moreover have "\<forall>pre a s. FetchGhl # evs2 @ [Log (SyncFailed e)]
                = pre @ [Log (Summary a s), Log Done] \<longrightarrow> a = 0"
              by (rule no_final_summary) simp
            ultimately show ?thesis by (rule pack)
          next
            case r: (Inr totals)
            obtain a' s' where td: "totals = (a', s')" by (cases totals)
            with z r have a0: "a' = 0" by simp
            from f Inr ne g False m r td a0 have "run cfg st
                = Some (0, emit (Log Done) (emit (Log (Summary 0 s')) st2))"
              by (simp add: run_def main_def Let_def)
            moreover from t0 t2 have "trace (emit (Log Done) (emit (Log (Summary 0 s')) st2))
                = trace st @ ((FetchGhl # evs2) @ [Log (Summary 0 s'), Log Done])"
              by (simp add: emit_def)
            moreover from b2 have
              "sentBatches ((FetchGhl # evs2) @ [Log (Summary 0 s'), Log Done]) = []" by simp
            moreover note final_summary_zero [of "FetchGhl # evs2" s']
            ultimately show ?thesis by (rule pack)
          qed
        qed
      qed
    qed
  qed
qed

text \<open>
  C7 (simulate-only mode): with \<open>DRY_RUN\<close> set, every run returns and sends no
  create-media request at all, and when its output ends with the summary line, the
  attached total of that line is 0; and a group whose product is resolved and whose diff
  result is not empty prints how many media inputs would be attached and leaves the
  attached total as it was.
\<close>

theorem C7_simulate_only:
  assumes dry: "DRY_RUN cfg"
  shows "(\<exists>exit st' evs. run cfg st = Some (exit, st') \<and> trace st' = trace st @ evs
            \<and> sentBatches evs = []
            \<and> (\<forall>pre a s. evs = pre @ [Log (Summary a s), Log Done] \<longrightarrow> a = 0))
    \<and> (findProductIdByHandleOrSku cfg (deriveHandleFromCode cfg code) code sg
            = (Inr (Some productId), s1)
        \<and> getExistingMediaAlts cfg productId s1 = (Inr existingAlts, s2)
        \<and> diffMedias existingAlts allMedias \<noteq> [] \<longrightarrow>
        processGroup cfg (code, allMedias) (attachedTotal, skippedTotal) sg
          = Some (Inr (attachedTotal,
                       skippedTotal + (length allMedias - length (diffMedias existingAlts allMedias))),
                  emit (Log (DryRunWouldAttach (length (diffMedias existingAlts allMedias))
                               (orElse (deriveHandleFromCode cfg code) code))) s2))"
proof (intro conjI impI)
  show "\<exists>exit st' evs. run cfg st = Some (exit, st') \<and> trace st' = trace st @ evs
            \<and> sentBatches evs = []
            \<and> (\<forall>pre a s. evs = pre @ [Log (Summary a s), Log Done] \<longrightarrow> a = 0)"
    by (rule run_dry [OF dry])
next
  assume h: "findProductIdByHandleOrSku cfg (deriveHandleFromCode cfg code) code sg
            = (Inr (Some productId), s1)
        \<and> getExistingMediaAlts cfg productId s1 = (Inr existingAlts, s2)
        \<and> diffMedias existingAlts allMedias \<noteq> []"
  then have f: "findProductIdByHandleOrSku cfg (deriveHandleFromCode cfg code) code sg
            = (Inr (Some productId), s1)"
    and g: "getExistingMediaAlts cfg productId s1 = (Inr existingAlts, s2)"
    and n: "diffMedias existingAlts allMedias \<noteq> []" by simp_all
  show "processGroup cfg (code, allMedias) (attachedTotal, skippedTotal) sg
          = Some (Inr (attachedTotal,
                       skippedTotal + (length allMedias - length (diffMedias existingAlts allMedias))),
                  emit (Log (DryRunWouldAttach (length (diffMedias existingAlts allMedias))
                               (orElse (deriveHandleFromCode cfg code) code))) s2)"
    unfolding processGroup_resolved [OF f g] using n dry by (simp add: Let_def)
qed

lemma ev3_fetch: "fetchGhlFiles defaultConfig threeFiles = (Inr threeListed, afterFetch)"
  by code_simp

lemma ev3_groups:
  "groupByCode defaultConfig threeListed []
     = Inr ([(''CS1'', [frontJpg])] @ (''CS2'', [cs2Media]) # [(''CS3'', [cs3Media])])"
  by code_simp

lemma ev3_before:
  "mainLoop defaultConfig [(''CS1'', [frontJpg])] (0, 0) afterFetch = Some (Inr (0, 0), afterCS1)"
  by code_simp

lemma ev3_failed:
  "findProductIdByHandleOrSku defaultConfig (deriveHandleFromCode defaultConfig ''CS2'') ''CS2'' afterCS1
     = (Inl (GraphQLHttp 401 ''Unauthorized''), afterCS2)"
  by code_simp

lemma ev3_run:
  "run defaultConfig threeFiles
     = Some (1, \<lparr> ghl = [], shopify = [productAnswer],
                  trace = [FetchGhl, FetchGql (ProductByHandle ''cs1'') 1,
                           FetchGql (ProductsBySku ''CS1'') 1, Log (NoProduct ''CS1'' ''cs1''),
                           FetchGql (ProductByHandle ''cs2'') 1,
                           Log (SyncFailed (GraphQLHttp 401 ''Unauthorized''))] \<rparr>)"
  by code_simp

text \<open>
  A run whose listing of the existing media is refused, and a run whose second batch is
  refused: four assets of the product CS1 and one of CS3, batches of two.
\<close>

lemma ev5_groups:
  "groupByCode pairsConfig fiveListed []
     = Inr ([] @ (''CS1'', [frontJpg, backJpg, sideJpg, topJpg]) # [(''CS3'', [cs3Media])])"
  by code_simp

lemma ev5_label: "orElse (deriveHandleFromCode pairsConfig ''CS1'') ''CS1'' = ''cs1''"
  by code_simp

lemma evl_fetch: "fetchGhlFiles pairsConfig deniedFiles = (Inr fiveListed, deniedFetched)"
  by code_simp

lemma evl_before: "mainLoop pairsConfig [] (0, 0) deniedFetched = Some (Inr (0, 0), deniedFetched)"
  by code_simp

lemma evl_find:
  "findProductIdByHandleOrSku pairsConfig (deriveHandleFromCode pairsConfig ''CS1'') ''CS1''
     deniedFetched
   = (Inr (Some ''gid://shopify/Product/1''), deniedResolved)"
  by code_simp

lemma evl_alts:
  "getExistingMediaAlts pairsConfig ''gid://shopify/Product/1'' deniedResolved
   = (Inl (GraphQLHttp 401 ''Unauthorized''), deniedListing)"
  by code_simp

lemma evl_failed:
  "findProductIdByHandleOrSku pairsConfig (deriveHandleFromCode pairsConfig ''CS1'') ''CS1''
       deniedFetched
     = (Inl (GraphQLHttp 401 ''Unauthorized''), deniedListing)
   \<or> (\<exists>productId s1.
         findProductIdByHandleOrSku pairsConfig (deriveHandleFromCode pairsConfig ''CS1'') ''CS1''
             deniedFetched
           = (Inr (Some productId), s1)
         \<and> (getExistingMediaAlts pairsConfig productId s1
               = (Inl (GraphQLHttp 401 ''Unauthorized''), deniedListing)
             \<or> (\<exists>existingAlts s2.
                   getExistingMediaAlts pairsConfig productId s1 = (Inr existingAlts, s2)
                   \<and> \<not> DRY_RUN pairsConfig
                   \<and> attachRaises pairsConfig productId
                         (orElse (deriveHandleFromCode pairsConfig ''CS1'') ''CS1'')
                         (diffMedias existingAlts [frontJpg, backJpg, sideJpg, topJpg]) 0 0 s2
                         (GraphQLHttp 401 ''Unauthorized'') deniedListing)))"
  apply (rule disjI2)
  apply (rule exI [of _ "''gid://shopify/Product/1''"])
  apply (rule exI [of _ deniedResolved])
  apply (rule conjI)
   apply (rule evl_find)
  apply (rule disjI1)
  apply (rule evl_alts)
  done

lemma evl_run:
  "run pairsConfig deniedFiles
     = Some (1, \<lparr> ghl = [], shopify = [productAnswer],
                  trace = [FetchGhl, FetchGql (ProductByHandle ''cs1'') 1,
                           FetchGql (ProductMedia ''gid://shopify/Product/1'') 1,
                           Log (SyncFailed (GraphQLHttp 401 ''Unauthorized''))] \<rparr>)"
  by code_simp

lemma ev5_fetch: "fetchGhlFiles pairsConfig fiveFiles = (Inr fiveListed, fiveFetched)"
  by code_simp

lemma ev5_before: "mainLoop pairsConfig [] (0, 0) fiveFetched = Some (Inr (0, 0), fiveFetched)"
  by code_simp

lemma ev5_find:
  "findProductIdByHandleOrSku pairsConfig (deriveHandleFromCode pairsConfig ''CS1'') ''CS1''
     fiveFetched
   = (Inr (Some ''gid://shopify/Product/1''), fiveResolved)"
  by code_simp

lemma ev5_alts:
  "getExistingMediaAlts pairsConfig ''gid://shopify/Product/1'' fiveResolved
   = (Inr {''CS1_front.jpg''}, fiveDiffed)"
  by code_simp

lemma ev5_first:
  "attachMediaBatch pairsConfig ''gid://shopify/Product/1''
     (js_slice [backJpg, sideJpg, topJpg] 0 (0 + MEDIA_BATCH_SIZE pairsConfig)) fiveDiffed
   = (Inr (), fiveFirstBatch)"
  by code_simp

lemma ev5_second:
  "attachMediaBatch pairsConfig ''gid://shopify/Product/1''
     (js_slice [backJpg, sideJpg, topJpg] (0 + MEDIA_BATCH_SIZE pairsConfig)
        (0 + MEDIA_BATCH_SIZE pairsConfig + MEDIA_BATCH_SIZE pairsConfig))
     (emit (Log (Attached
                   (length (js_slice [backJpg, sideJpg, topJpg] 0 (0 + MEDIA_BATCH_SIZE pairsConfig)))
                   (length [backJpg, sideJpg, topJpg]) ''cs1''))
        fiveFirstBatch)
   = (Inl (MediaUserErrors [''INVALID'']), fiveRefused)"
  by code_simp

lemma ev5_attach:
  "attachRaises pairsConfig ''gid://shopify/Product/1'' ''cs1'' [backJpg, sideJpg, topJpg] 0 0
     fiveDiffed (MediaUserErrors [''INVALID'']) fiveRefused"
proof (rule attachRaises.later [OF _ ev5_first])
  show "0 < int (length [backJpg, sideJpg, topJpg])"
    by simp
  show "attachRaises pairsConfig ''gid://shopify/Product/1'' ''cs1'' [backJpg, sideJpg, topJpg]
     (0 + MEDIA_BATCH_SIZE pairsConfig)
     (0 + length (js_slice [backJpg, sideJpg, topJpg] 0 (0 + MEDIA_BATCH_SIZE pairsConfig)))
     (emit (Log (Attached
                   (length (js_slice [backJpg, sideJpg, topJpg] 0 (0 + MEDIA_BATCH_SIZE pairsConfig)))
                   (length [backJpg, sideJpg, topJpg]) ''cs1''))
        fiveFirstBatch)
     (MediaUserErrors [''INVALID'']) fiveRefused"
  proof (rule attachRaises.now [OF _ ev5_second])
    show "0 + MEDIA_BATCH_SIZE pairsConfig < int (length [backJpg, sideJpg, topJpg])"
      by (simp add: pairsConfig_def)
  qed
qed

lemma ev5_failed:
  "findProductIdByHandleOrSku pairsConfig (deriveHandleFromCode pairsConfig ''CS1'') ''CS1''
       fiveFetched
     = (Inl (MediaUserErrors [''INVALID'']), fiveRefused)
   \<or> (\<exists>productId s1.
         findProductIdByHandleOrSku pairsConfig (deriveHandleFromCode pairsConfig ''CS1'') ''CS1''
             fiveFetched
           = (Inr (Some productId), s1)
         \<and> (getExistingMediaAlts pairsConfig productId s1
               = (Inl (MediaUserErrors [''INVALID'']), fiveRefused)
             \<or> (\<exists>existingAlts s2.
                   getExistingMediaAlts pairsConfig productId s1 = (Inr existingAlts, s2)
                   \<and> \<not> DRY_RUN pairsConfig
                   \<and> attachRaises pairsConfig productId
                         (orElse (deriveHandleFromCode pairsConfig ''CS1'') ''CS1'')
                         (diffMedias existingAlts [frontJpg, backJpg, sideJpg, topJpg]) 0 0 s2
                         (MediaUserErrors [''INVALID'']) fiveRefused)))"
  apply (rule disjI2)
  apply (rule exI [of _ "''gid://shopify/Product/1''"])
  apply (rule exI [of _ fiveResolved])
  apply (rule conjI)
   apply (rule ev5_find)
  apply (rule disjI2)
  apply (rule exI [of _ "{''CS1_front.jpg''}"])
  apply (rule exI [of _ fiveDiffed])
  apply (rule conjI)
   apply (rule ev5_alts)
  apply (rule conjI)
   apply (rule ev_cfg4(2))
  apply (simp only: ev5_label ev_diff4)
  apply (rule ev5_attach)
  done

lemma ev5_run:
  "run pairsConfig fiveFiles
     = Some (1, \<lparr> ghl = [], shopify = [productAnswer],
                  trace = [FetchGhl, FetchGql (ProductByHandle ''cs1'') 1,
                           FetchGql (ProductMedia ''gid://shopify/Product/1'') 1,
                           FetchGql (ProductCreateMedia ''gid://shopify/Product/1''
                                       [backJpg, sideJpg]) 1,
                           Log (Attached 2 3 ''cs1''),
                           FetchGql (ProductCreateMedia ''gid://shopify/Product/1'' [topJpg]) 1,
                           Log (SyncFailed (MediaUserErrors [''INVALID'']))] \<rparr>)"
  by code_simp

theorem C8_whole_run_abort_witness:
  "((processGroup defaultConfig (''CS2'', [cs2Media]) (0, 0) afterCS1
      = Some (Inl (GraphQLHttp 401 ''Unauthorized''), afterCS2)
     \<and> mainLoop defaultConfig
        ([(''CS1'', [frontJpg])] @ (''CS2'', [cs2Media]) # [(''CS3'', [cs3Media])]) (0, 0) afterFetch
      = Some (Inl (GraphQLHttp 401 ''Unauthorized''), afterCS2)
     \<and> run defaultConfig threeFiles
      = Some (1, emit (Log (SyncFailed (GraphQLHttp 401 ''Unauthorized''))) afterCS2))
    \<and> run defaultConfig threeFiles
      = Some (1, \<lparr> ghl = [], shopify = [productAnswer],
                  trace = [FetchGhl, FetchGql (ProductByHandle ''cs1'') 1,
                           FetchGql (ProductsBySku ''CS1'') 1, Log (NoProduct ''CS1'' ''cs1''),
                           FetchGql (ProductByHandle ''cs2'') 1,
                           Log (SyncFailed (GraphQLHttp 401 ''Unauthorized''))] \<rparr>))
   \<and> ((processGroup pairsConfig (''CS1'', [frontJpg, backJpg, sideJpg, topJpg]) (0, 0)
         deniedFetched
       = Some (Inl (GraphQLHttp 401 ''Unauthorized''), deniedListing)
      \<and> mainLoop pairsConfig
         ([] @ (''CS1'', [frontJpg, backJpg, sideJpg, topJpg]) # [(''CS3'', [cs3Media])]) (0, 0)
         deniedFetched
       = Some (Inl (GraphQLHttp 401 ''Unauthorized''), deniedListing)
      \<and> run pairsConfig deniedFiles
       = Some (1, emit (Log (SyncFailed (GraphQLHttp 401 ''Unauthorized''))) deniedListing))
     \<and> run pairsConfig deniedFiles
       = Some (1, \<lparr> ghl = [], shopify = [productAnswer],
                    trace = [FetchGhl, FetchGql (ProductByHandle ''cs1'') 1,
                             FetchGql (ProductMedia ''gid://shopify/Product/1'') 1,
                             Log (SyncFailed (GraphQLHttp 401 ''Unauthorized''))] \<rparr>))
   \<and> ((processGroup pairsConfig (''CS1'', [frontJpg, backJpg, sideJpg, topJpg]) (0, 0) fiveFetched
       = Some (Inl (MediaUserErrors [''INVALID'']), fiveRefused)
      \<and> mainLoop pairsConfig
         ([] @ (''CS1'', [frontJpg, backJpg, sideJpg, topJpg]) # [(''CS3'', [cs3Media])]) (0, 0)
         fiveFetched
       = Some (Inl (MediaUserErrors [''INVALID'']), fiveRefused)
      \<and> run pairsConfig fiveFiles
       = Some (1, emit (Log (SyncFailed (MediaUserErrors [''INVALID'']))) fiveRefused))
     \<and> run pairsConfig fiveFiles
       = Some (1, \<lparr> ghl = [], shopify = [productAnswer],
                    trace = [FetchGhl, FetchGql (ProductByHandle ''cs1'') 1,
                             FetchGql (ProductMedia ''gid://shopify/Product/1'') 1,
                             FetchGql (ProductCreateMedia ''gid://shopify/Product/1''
                                         [backJpg, sideJpg]) 1,
                             Log (Attached 2 3 ''cs1''),
                             FetchGql (ProductCreateMedia ''gid://shopify/Product/1'' [topJpg]) 1,
                             Log (SyncFailed (MediaUserErrors [''INVALID'']))] \<rparr>))"
  by (intro conjI
      [OF conjI [OF C8_whole_run_abort [OF ev3_fetch ev3_groups ev3_before disjI1 [OF ev3_failed]]
                    ev3_run]
          conjI [OF conjI [OF C8_whole_run_abort [OF evl_fetch ev5_groups evl_before evl_failed]
                              evl_run]
                    conjI [OF C8_whole_run_abort [OF ev5_fetch ev5_groups ev5_before ev5_failed]
                              ev5_run]]])

lemma evd_cfg: "DRY_RUN dryConfig"
  by (simp add: dryConfig_def)

lemma evd_group:
  "findProductIdByHandleOrSku dryConfig (deriveHandleFromCode dryConfig ''CS1'') ''CS1'' catalog
     = (Inr (Some ''gid://shopify/Product/1''),
        \<lparr> ghl = [], shopify = [altsResponse, answer noData],
          trace = [FetchGql (ProductByHandle ''cs1'') 1] \<rparr>)
   \<and> getExistingMediaAlts dryConfig ''gid://shopify/Product/1''
        \<lparr> ghl = [], shopify = [altsResponse, answer noData],
          trace = [FetchGql (ProductByHandle ''cs1'') 1] \<rparr>
     = (Inr {''CS1_front.jpg''},
        \<lparr> ghl = [], shopify = [answer noData],
          trace = [FetchGql (ProductByHandle ''cs1'') 1,
                   FetchGql (ProductMedia ''gid://shopify/Product/1'') 1] \<rparr>)
   \<and> diffMedias {''CS1_front.jpg''} [frontJpg, backJpg] \<noteq> []"
  by code_simp

lemma evd_run:
  "run dryConfig dryFiles
     = Some (0, \<lparr> ghl = [], shopify = [],
                  trace = [FetchGhl, FetchGql (ProductByHandle ''cs1'') 1,
                           FetchGql (ProductsBySku ''CS1'') 1, Log (NoProduct ''CS1'' ''cs1''),
                           FetchGql (ProductByHandle ''cs2'') 1,
                           FetchGql (ProductMedia ''gid://shopify/Product/1'') 1,
                           Log (DryRunWouldAttach 1 ''cs2''),
                           FetchGql (ProductByHandle ''cs3'') 1,
                           FetchGql (ProductMedia ''gid://shopify/Product/1'') 1,
                           Log (DryRunWouldAttach 1 ''cs3''), Log (Summary 0 0), Log Done] \<rparr>)"
  by code_simp

theorem C7_simulate_only_witness:
  "(\<exists>exit st' evs. run dryConfig dryFiles = Some (exit, st') \<and> trace st' = trace dryFiles @ evs
        \<and> sentBatches evs = []
        \<and> (\<forall>pre a s. evs = pre @ [Log (Summary a s), Log Done] \<longrightarrow> a = 0))
   \<and> processGroup dryConfig (''CS1'', [frontJpg, backJpg]) (0, 0) catalog
      = Some (Inr (0, 0 + (length [frontJpg, backJpg]
                            - length (diffMedias {''CS1_front.jpg''} [frontJpg, backJpg]))),
              emit (Log (DryRunWouldAttach
                           (length (diffMedias {''CS1_front.jpg''} [frontJpg, backJpg]))
                           (orElse (deriveHandleFromCode dryConfig ''CS1'') ''CS1'')))
                \<lparr> ghl = [], shopify = [answer noData],
                  trace = [FetchGql (ProductByHandle ''cs1'') 1,
                           FetchGql (ProductMedia ''gid://shopify/Product/1'') 1] \<rparr>)
   \<and> run dryConfig dryFiles
     = Some (0, \<lparr> ghl = [], shopify = [],
                  trace = [FetchGhl, FetchGql (ProductByHandle ''cs1'') 1,
                           FetchGql (ProductsBySku ''CS1'') 1, Log (NoProduct ''CS1'' ''cs1''),
                           FetchGql (ProductByHandle ''cs2'') 1,
                           FetchGql (ProductMedia ''gid://shopify/Product/1'') 1,
                           Log (DryRunWouldAttach 1 ''cs2''),
                           FetchGql (ProductByHandle ''cs3'') 1,
                           FetchGql (ProductMedia ''gid://shopify/Product/1'') 1,
                           Log (DryRunWouldAttach 1 ''cs3''), Log (Summary 0 0), Log Done] \<rparr>)"
  by (intro conjI
      C7_simulate_only [OF evd_cfg, THEN conjunct1]
      C7_simulate_only [OF evd_cfg, THEN conjunct2, THEN mp, OF evd_group]
      evd_run)

end
